theory Spec2Isabelle
  imports Main
begin

section \<open>Values of the Go program\<close>

text \<open>
  The development embeds \<^verbatim>\<open>cmd/build.go\<close>: the function \<^verbatim>\<open>setBuildDir\<close> and the
  command body \<^verbatim>\<open>Build\<close>. \<^verbatim>\<open>Build\<close> is a straight-line coordinator: it calls
  functions of the packages \<^verbatim>\<open>build\<close>, \<^verbatim>\<open>readers\<close> and \<^verbatim>\<open>os\<close>, and stops at the
  first error (\<^verbatim>\<open>log.Fatal\<close>) or panic. The embedding records every call in a trace
  and takes the answer of every callee from a record of functions, the world.
\<close>

type_synonym path = string

text \<open>
  A Go \<^verbatim>\<open>error\<close> value: what \<^verbatim>\<open>err.Error()\<close> prints, and the class the \<^verbatim>\<open>os\<close>
  package sorts it into (\<^verbatim>\<open>os.ErrNotExist\<close>, \<^verbatim>\<open>os.ErrPermission\<close>, anything else).
  A nil error is \<open>None\<close>.
\<close>

datatype errkind = NotExist | Permission | OtherError

datatype go_error = GoError (kind: errkind) (Error: string)

text \<open>
  The value a panic carries, an \<^verbatim>\<open>interface{}\<close>: nil, or a value, held as what the
  verb \<^verbatim>\<open>%v\<close> prints of it. \<^verbatim>\<open>recover()\<close> returns the value of the panic it stops, and
  so returns nil after \<^verbatim>\<open>panic(nil)\<close> (in a module whose language version is before
  1.21; from 1.21 on \<^verbatim>\<open>panic(nil)\<close> carries a \<^verbatim>\<open>*runtime.PanicNilError\<close>, a value).
\<close>

datatype go_value = GoNil | GoValue string

text \<open>A call of a function of the repository either returns or panics.\<close>

datatype 'a call = Returns 'a | Panics go_value

text \<open>
  \<^verbatim>\<open>readers.SiteConfig\<close>: the three fields \<^verbatim>\<open>Build\<close> reads. The options of a theme
  (\<^verbatim>\<open>readers.ThemeOptions\<close>) are opaque to this file: a type parameter, whose zero is
  Go's zero value. \<^verbatim>\<open>ThemeConfig\<close> is a Go map; indexing it at a missing key gives
  the zero value.
\<close>

record 'o SiteConfig =
  BuildDir :: string
  Theme :: string
  ThemeConfig :: "(string \<times> 'o) list"

definition zeroSiteConfig :: "'o SiteConfig" where
  "zeroSiteConfig = \<lparr>BuildDir = '''', Theme = '''', ThemeConfig = []\<rparr>"

definition themeConfigAt :: "('o::zero) SiteConfig \<Rightarrow> string \<Rightarrow> 'o" where
  "themeConfigAt siteConfig theme =
     (case map_of (ThemeConfig siteConfig) theme of None \<Rightarrow> 0 | Some themeOptions \<Rightarrow> themeOptions)"

text \<open>The package-level flag variables, set by cobra before \<^verbatim>\<open>Build\<close> runs.\<close>

record Flags =
  BuildDirFlag :: string
  VerboseFlag :: bool
  BenchmarkFlag :: bool
  NodeJSFlag :: bool

section \<open>\<^verbatim>\<open>setBuildDir\<close>\<close>

text \<open>Lines 27 to 35.\<close>

definition setBuildDir :: "Flags \<Rightarrow> 'o SiteConfig \<Rightarrow> string" where
  "setBuildDir fl siteConfig =
     (let buildDir = BuildDir siteConfig
      in if BuildDirFlag fl \<noteq> '''' then BuildDirFlag fl else buildDir)"

section \<open>\<^verbatim>\<open>filepath.Join\<close>\<close>

text \<open>
  \<^verbatim>\<open>filepath.Join\<close> of Go's standard library, for slash-separated paths: empty
  elements are dropped, the rest are joined by a slash, and the result is cleaned
  (\<^verbatim>\<open>filepath.Clean\<close>): repeated slashes and \<^verbatim>\<open>.\<close> elements go, an inner \<^verbatim>\<open>..\<close> goes with
  the element before it, \<^verbatim>\<open>..\<close> at the root goes, and the empty result is \<^verbatim>\<open>.\<close>.
\<close>

fun splitSlash :: "string \<Rightarrow> string list" where
  "splitSlash [] = [[]]"
| "splitSlash (c # cs) =
     (if c = CHR ''/'' then [] # splitSlash cs
      else (case splitSlash cs of [] \<Rightarrow> [[c]] | e # es \<Rightarrow> (c # e) # es))"

fun joinSlash :: "string list \<Rightarrow> string" where
  "joinSlash [] = []"
| "joinSlash [e] = e"
| "joinSlash (e # es) = e @ ''/'' @ joinSlash es"

text \<open>The elements kept so far are held innermost first.\<close>

definition cleanElem :: "bool \<Rightarrow> string list \<Rightarrow> string \<Rightarrow> string list" where
  "cleanElem rooted kept e =
     (if e = '''' \<or> e = ''.'' then kept
      else if e = ''..'' then
        (case kept of
           [] \<Rightarrow> if rooted then [] else [''..'']
         | k # ks \<Rightarrow> if k = ''..'' then ''..'' # k # ks else ks)
      else e # kept)"

definition filepath_Clean :: "path \<Rightarrow> path" where
  "filepath_Clean p =
     (let rooted = (p \<noteq> [] \<and> hd p = CHR ''/'');
          kept = foldl (cleanElem rooted) [] (splitSlash p);
          out = (if rooted then ''/'' else '''') @ joinSlash (rev kept)
      in if out = '''' then ''.'' else out)"

definition filepath_Join :: "path list \<Rightarrow> path" where
  "filepath_Join elems =
     (case filter (\<lambda>e. e \<noteq> '''') elems of
        [] \<Rightarrow> ''''
      | e # es \<Rightarrow> filepath_Clean (joinSlash (e # es)))"

section \<open>The world: what the callees answer\<close>

text \<open>
  Every callee is called at most once in a run of \<^verbatim>\<open>Build\<close> (there is no loop), so
  the answer of a callee as a function of its arguments covers every behaviour the callee
  can show to \<^verbatim>\<open>Build\<close>, whatever file-system state it reads. The functions of
  package \<^verbatim>\<open>os\<close> return an error or nil; the functions of the repository may also
  panic, the case the deferred handler of \<^verbatim>\<open>Build\<close> is written for. The helpers that
  only report (\<^verbatim>\<open>build.Log\<close>, \<^verbatim>\<open>build.CheckVerboseFlag\<close>, \<^verbatim>\<open>build.CheckBenchmarkFlag\<close>
  and \<^verbatim>\<open>build.Benchmark\<close>, whose time argument is left out) are recorded as events and
  taken to return.

  \<open>ConfigFile\<close> is what reading the persisted configuration yields: a configuration, or
  the error of the failed load. \<open>PathExists\<close> is the truth about the file system at the
  moment \<^verbatim>\<open>os.Stat\<close> is called; \<^verbatim>\<open>Build\<close> never reads it, it only sees the answer of
  \<^verbatim>\<open>os.Stat\<close>.
\<close>

record 'o World =
  ConfigFile :: "path \<Rightarrow> (go_error + 'o SiteConfig) call"
  ThemesCopy :: "path \<Rightarrow> 'o \<Rightarrow> (path \<times> go_error option) call"
  ThemesMerge :: "path \<Rightarrow> string \<Rightarrow> go_error option call"
  PathExists :: "path \<Rightarrow> bool"
  Stat :: "path \<Rightarrow> go_error option"
  RemoveAll :: "path \<Rightarrow> go_error option"
  MkdirAll :: "path \<Rightarrow> nat \<Rightarrow> go_error option"
  NpmDefaults :: "path \<Rightarrow> go_error option call"
  EjectTemp :: "path \<Rightarrow> (path list \<times> path) call"
  EjectCopy :: "path \<Rightarrow> path \<Rightarrow> path \<Rightarrow> go_error option call"
  AssetsCopy :: "path \<Rightarrow> path \<Rightarrow> go_error option call"
  NodeClient :: "path \<Rightarrow> string call"
  NodeDataSource :: "path \<Rightarrow> 'o SiteConfig \<Rightarrow> (string \<times> string \<times> go_error option) call"
  NodeExec :: "string \<Rightarrow> string \<Rightarrow> string \<Rightarrow> go_error option call"
  Client :: "path \<Rightarrow> path \<Rightarrow> path \<Rightarrow> go_error option call"
  DataSource :: "path \<Rightarrow> 'o SiteConfig \<Rightarrow> path \<Rightarrow> go_error option call"
  Gopack :: "path \<Rightarrow> unit call"
  ThemesClean :: "path \<Rightarrow> go_error option call"
  EjectClean :: "path list \<Rightarrow> path \<Rightarrow> go_error option call"

text \<open>
  \<^verbatim>\<open>os.Stat\<close> is truthful where it commits itself: it succeeds only on a path that
  exists, and reports "does not exist" only for a path that does not. Any other error
  (a permission failure, an I/O error) says nothing about the path.
\<close>

definition statTruthful :: "'o World \<Rightarrow> path \<Rightarrow> bool" where
  "statTruthful w p =
     (case Stat w p of
        None \<Rightarrow> PathExists w p
      | Some e \<Rightarrow> (if kind e = NotExist then \<not> PathExists w p else True))"

text \<open>
  Modelled from the spec: \<^verbatim>\<open>readers.GetSiteConfig\<close> is not part of the sources. The
  specification says of a persisted configuration that could not be loaded that the run
  proceeds with zero-value defaults: the call returns the zero configuration together
  with the error. A configuration that loads is returned with a nil error.
\<close>

definition GetSiteConfig :: "'o World \<Rightarrow> path \<Rightarrow> ('o SiteConfig \<times> go_error option) call" where
  "GetSiteConfig w basePath =
     (case ConfigFile w basePath of
        Panics r \<Rightarrow> Panics r
      | Returns (Inl e) \<Rightarrow> Returns (zeroSiteConfig, Some e)
      | Returns (Inr siteConfig) \<Rightarrow> Returns (siteConfig, None))"

text \<open>
  Modelled from the spec: \<^verbatim>\<open>build.ThemesCopy\<close> is not part of the sources. The
  specification says that it copies the theme's tree into a fresh temporary directory, whose
  path it returns, and that the empty path is the sign of no theme being in use: a call
  that returns a nil error returns a path that is not empty. The world leaves the answer of
  \<^verbatim>\<open>build.ThemesCopy\<close> free; this is what the specification asks of the answer to one
  call.
\<close>

definition themesCopyContract :: "'o World \<Rightarrow> path \<Rightarrow> 'o \<Rightarrow> bool" where
  "themesCopyContract w p themeOptions =
     (case ThemesCopy w p themeOptions of
        Returns (dir, None) \<Rightarrow> dir \<noteq> ''''
      | _ \<Rightarrow> True)"

section \<open>Traces and the state of a run\<close>

text \<open>
  One event per call \<^verbatim>\<open>Build\<close> makes, with the arguments it passes, and one per line
  it prints: \<open>Println\<close> and \<open>Printf\<close> write to standard output, \<open>LogFatal\<close> is
  \<^verbatim>\<open>log.Fatal\<close> or \<^verbatim>\<open>log.Fatalf\<close> with the message it logs before \<^verbatim>\<open>os.Exit(1)\<close>.
\<close>

datatype 'o event =
    CallCheckVerboseFlag bool
  | CallCheckBenchmarkFlag bool
  | CallBenchmark string bool
  | CallGetSiteConfig path
  | CallThemesCopy path 'o
  | CallThemesMerge path string
  | CallStat path
  | CallLog string
  | CallRemoveAll path
  | CallMkdirAll path nat
  | CallNpmDefaults path
  | CallEjectTemp path
  | CallEjectCopy path path path
  | CallAssetsCopy path path
  | CallNodeClient path
  | CallNodeDataSource path "'o SiteConfig"
  | CallNodeExec string string string
  | CallClient path path path
  | CallDataSource path "'o SiteConfig" path
  | CallGopack path
  | CallThemesClean path
  | CallEjectClean "path list" path
  | Println string
  | Printf string
  | LogFatal string

text \<open>
  How a run stands: still executing statements; ended by \<^verbatim>\<open>log.Fatal\<close> (the process
  exits with status 1 and no deferred function runs); unwinding from a panic; and, once
  \<^verbatim>\<open>Build\<close> has returned to its caller, returned after a recovered panic or returned
  after the last statement.
\<close>

datatype status = Running | Exited string | Panicking go_value | Recovered go_value | Completed

text \<open>The local variables of \<^verbatim>\<open>Build\<close>, the trace so far and the status.\<close>

record 'o state =
  siteConfig :: "'o SiteConfig"
  buildDir :: string
  tempBuildDir :: string
  buildPath :: path
  tempFiles :: "path list"
  ejectedPath :: path
  trace :: "'o event list"
  status :: status

definition initial :: "'o state" where
  "initial = \<lparr>siteConfig = zeroSiteConfig, buildDir = '''', tempBuildDir = '''',
     buildPath = '''', tempFiles = [], ejectedPath = '''', trace = [], status = Running\<rparr>"

definition emit :: "'o event \<Rightarrow> 'o state \<Rightarrow> 'o state" where
  "emit e s = s\<lparr>trace := trace s @ [e]\<rparr>"

definition logFatal :: "string \<Rightarrow> 'o state \<Rightarrow> 'o state" where
  "logFatal msg s = (emit (LogFatal msg) s)\<lparr>status := Exited msg\<rparr>"

definition panic :: "go_value \<Rightarrow> 'o state \<Rightarrow> 'o state" where
  "panic r s = s\<lparr>status := Panicking r\<rparr>"

text \<open>
  A callee that returns only an error, followed by
  \<^verbatim>\<open>if err != nil { log.Fatal(err) }\<close>.
\<close>

definition fatalOnErr :: "'o event \<Rightarrow> go_error option call \<Rightarrow> 'o state \<Rightarrow> 'o state" where
  "fatalOnErr e answer s =
     (case answer of
        Panics r \<Rightarrow> panic r (emit e s)
      | Returns (Some err) \<Rightarrow> logFatal (Error err) (emit e s)
      | Returns None \<Rightarrow> emit e s)"

text \<open>
  Modelled from the spec: \<^verbatim>\<open>CheckErr\<close> of package \<^verbatim>\<open>cmd\<close> is not part of the sources.
  The specification says that a failure during either cleanup branch is fatal: a non-nil
  error ends the run as \<^verbatim>\<open>log.Fatal\<close> does, a nil error lets it go on.
\<close>

definition CheckErr :: "go_error option \<Rightarrow> 'o state \<Rightarrow> 'o state" where
  "CheckErr err s = (case err of None \<Rightarrow> s | Some e \<Rightarrow> logFatal (Error e) s)"

section \<open>The stages of \<^verbatim>\<open>Build\<close>\<close>

text \<open>
  Line 65: the second result of \<^verbatim>\<open>readers.GetSiteConfig\<close> is discarded. Line 68:
  the build directory is resolved.
\<close>

definition loadSiteConfig :: "'o World \<Rightarrow> 'o state \<Rightarrow> 'o state" where
  "loadSiteConfig w s =
     (let s1 = emit (CallGetSiteConfig ''.'') s
      in case GetSiteConfig w ''.'' of
           Panics r \<Rightarrow> panic r s1
         | Returns (cfg, _) \<Rightarrow> s1\<lparr>siteConfig := cfg\<rparr>)"

definition resolveBuildDir :: "Flags \<Rightarrow> 'o state \<Rightarrow> 'o state" where
  "resolveBuildDir fl s = s\<lparr>buildDir := setBuildDir fl (siteConfig s)\<rparr>"

text \<open>
  Lines 70 to 86. \<^verbatim>\<open>tempBuildDir\<close> starts empty and is assigned from
  \<^verbatim>\<open>build.ThemesCopy\<close> before its error is looked at.
\<close>

definition themeStage :: "('o::zero) World \<Rightarrow> 'o state \<Rightarrow> 'o state" where
  "themeStage w s =
     (let s0 = s\<lparr>tempBuildDir := ''''\<rparr>;
          theme = Theme (siteConfig s0)
      in if theme \<noteq> '''' then
           (let themeOptions = themeConfigAt (siteConfig s0) theme;
                s1 = emit (CallThemesCopy (''themes/'' @ theme) themeOptions) s0
            in case ThemesCopy w (''themes/'' @ theme) themeOptions of
                 Panics r \<Rightarrow> panic r s1
               | Returns (dir, err) \<Rightarrow>
                   (let s2 = s1\<lparr>tempBuildDir := dir\<rparr>
                    in case err of
                         Some e \<Rightarrow> logFatal (Error e) s2
                       | None \<Rightarrow>
                           fatalOnErr (CallThemesMerge dir (buildDir s2))
                             (ThemesMerge w dir (buildDir s2)) s2))
         else s0)"

text \<open>
  Lines 89 to 108. The old directory is removed in the branch where
  \<^verbatim>\<open>os.Stat\<close> returned a nil error, and in no other.
\<close>

definition ModePerm :: nat where
  "ModePerm = 511"

text \<open>The three messages of this block.\<close>

definition removingMsg :: "path \<Rightarrow> string" where
  "removingMsg p = ''Removing old '' @ [CHR 0x27] @ p @ [CHR 0x27] @ '' build directory''"

definition creatingMsg :: "string \<Rightarrow> string" where
  "creatingMsg d = ''Creating '' @ [CHR 0x27] @ d @ [CHR 0x27] @ '' build directory''"

definition unableMsg :: "string \<Rightarrow> go_error \<Rightarrow> string" where
  "unableMsg d e =
     ''Unable to create '' @ [CHR 0x22] @ d @ [CHR 0x22] @ '' build directory: '' @ Error e
     @ [CHR 0x0A]"

definition workspaceStage :: "'o World \<Rightarrow> 'o state \<Rightarrow> 'o state" where
  "workspaceStage w s =
     (let s0 = s\<lparr>buildPath := filepath_Join [''.'', buildDir s]\<rparr>;
          s1 = emit (CallStat (buildPath s0)) s0;
          s2 = (case Stat w (buildPath s0) of
                  None \<Rightarrow>
                    (let s1a = emit (CallLog (removingMsg (buildPath s0))) s1;
                         s1b = emit (CallRemoveAll (buildPath s0)) s1a
                     in case RemoveAll w (buildPath s0) of
                          Some e \<Rightarrow> logFatal (Error e) s1b
                        | None \<Rightarrow> s1b)
                | Some buildPathExistsErr \<Rightarrow> s1)
      in if status s2 \<noteq> Running then s2
         else
           (let s3 = emit (CallMkdirAll (buildPath s0) ModePerm) s2
            in case MkdirAll w (buildPath s0) ModePerm of
                 Some e \<Rightarrow> logFatal (unableMsg (buildDir s0) e) s3
               | None \<Rightarrow> emit (CallLog (creatingMsg (buildDir s0))) s3))"

text \<open>Line 111.\<close>

definition npmStage :: "'o World \<Rightarrow> 'o state \<Rightarrow> 'o state" where
  "npmStage w s = fatalOnErr (CallNpmDefaults (tempBuildDir s)) (NpmDefaults w (tempBuildDir s)) s"

text \<open>Lines 116 to 121. \<^verbatim>\<open>build.EjectTemp\<close> returns no error.\<close>

definition ejectStage :: "'o World \<Rightarrow> 'o state \<Rightarrow> 'o state" where
  "ejectStage w s =
     (let s1 = emit (CallEjectTemp (tempBuildDir s)) s
      in case EjectTemp w (tempBuildDir s) of
           Panics r \<Rightarrow> panic r s1
         | Returns (files, ejected) \<Rightarrow>
             (let s2 = s1\<lparr>tempFiles := files, ejectedPath := ejected\<rparr>
              in fatalOnErr (CallEjectCopy (buildPath s2) (tempBuildDir s2) (ejectedPath s2))
                   (EjectCopy w (buildPath s2) (tempBuildDir s2) (ejectedPath s2)) s2))"

text \<open>Line 127.\<close>

definition assetsStage :: "'o World \<Rightarrow> 'o state \<Rightarrow> 'o state" where
  "assetsStage w s =
     fatalOnErr (CallAssetsCopy (buildPath s) (tempBuildDir s))
       (AssetsCopy w (buildPath s) (tempBuildDir s)) s"

text \<open>Lines 132 to 154: the build with the system's NodeJS, or the core build.\<close>

definition nodeBuild :: "'o World \<Rightarrow> 'o state \<Rightarrow> 'o state" where
  "nodeBuild w s =
     (let s1 = emit (CallNodeClient (buildPath s)) s
      in case NodeClient w (buildPath s) of
           Panics r \<Rightarrow> panic r s1
         | Returns clientBuildStr \<Rightarrow>
             (let s2 = emit (CallNodeDataSource (buildPath s) (siteConfig s)) s1
              in case NodeDataSource w (buildPath s) (siteConfig s) of
                   Panics r \<Rightarrow> panic r s2
                 | Returns (staticBuildStr, allNodesStr, err) \<Rightarrow>
                     (case err of
                        Some e \<Rightarrow> logFatal (Error e) s2
                      | None \<Rightarrow>
                          fatalOnErr (CallNodeExec clientBuildStr staticBuildStr allNodesStr)
                            (NodeExec w clientBuildStr staticBuildStr allNodesStr) s2)))"

definition coreBuild :: "'o World \<Rightarrow> 'o state \<Rightarrow> 'o state" where
  "coreBuild w s =
     (let s1 = fatalOnErr (CallClient (buildPath s) (tempBuildDir s) (ejectedPath s))
                 (Client w (buildPath s) (tempBuildDir s) (ejectedPath s)) s
      in if status s1 \<noteq> Running then s1
         else fatalOnErr (CallDataSource (buildPath s) (siteConfig s) (tempBuildDir s))
                (DataSource w (buildPath s) (siteConfig s) (tempBuildDir s)) s1)"

definition buildStage :: "'o World \<Rightarrow> Flags \<Rightarrow> 'o state \<Rightarrow> 'o state" where
  "buildStage w fl s = (if NodeJSFlag fl then nodeBuild w s else coreBuild w s)"

text \<open>Line 157: \<^verbatim>\<open>build.Gopack\<close> returns nothing.\<close>

definition gopackStage :: "'o World \<Rightarrow> 'o state \<Rightarrow> 'o state" where
  "gopackStage w s =
     (let s1 = emit (CallGopack (buildPath s)) s
      in case Gopack w (buildPath s) of
           Panics r \<Rightarrow> panic r s1
         | Returns _ \<Rightarrow> s1)"

text \<open>Lines 159 to 165: the branch is chosen by \<^verbatim>\<open>tempBuildDir\<close> alone.\<close>

definition cleanupStage :: "'o World \<Rightarrow> 'o state \<Rightarrow> 'o state" where
  "cleanupStage w s =
     (if tempBuildDir s \<noteq> '''' then
        (let s1 = emit (CallThemesClean (tempBuildDir s)) s
         in case ThemesClean w (tempBuildDir s) of
              Panics r \<Rightarrow> panic r s1
            | Returns err \<Rightarrow> CheckErr err s1)
      else
        (let s1 = emit (CallEjectClean (tempFiles s) (ejectedPath s)) s
         in case EjectClean w (tempFiles s) (ejectedPath s) of
              Panics r \<Rightarrow> panic r s1
            | Returns err \<Rightarrow> CheckErr err s1))"

section \<open>\<^verbatim>\<open>Build\<close>\<close>

text \<open>
  The statements of \<^verbatim>\<open>Build\<close> from line 65 on, in order. A statement runs only
  while the run is still executing: after \<^verbatim>\<open>log.Fatal\<close> or a panic nothing of the
  body runs any more.
\<close>

fun runStages :: "('o state \<Rightarrow> 'o state) list \<Rightarrow> 'o state \<Rightarrow> 'o state" where
  "runStages [] s = s"
| "runStages (f # fs) s = (if status s = Running then runStages fs (f s) else s)"

declare runStages.simps [simp del]

definition stages :: "('o::zero) World \<Rightarrow> Flags \<Rightarrow> ('o state \<Rightarrow> 'o state) list" where
  "stages w fl =
     [loadSiteConfig w, resolveBuildDir fl, themeStage w, workspaceStage w, npmStage w,
      ejectStage w, assetsStage w, buildStage w fl, gopackStage w, cleanupStage w]"

text \<open>
  The deferred functions, run when the body returns or panics, last deferred first. The
  handler of lines 57 to 62 calls \<^verbatim>\<open>recover()\<close>, which stops a panic and returns its
  value \<^verbatim>\<open>r\<close>, and prints two lines if \<^verbatim>\<open>r != nil\<close> (line 58): after a panic with a nil
  value, as after a body that returned, it prints nothing. Then \<^verbatim>\<open>build.Benchmark\<close> of
  line 54 runs and \<^verbatim>\<open>Build\<close> returns to its caller. After \<^verbatim>\<open>log.Fatal\<close> the process
  has exited and neither runs.
\<close>

definition pleaseCreate :: string where
  "pleaseCreate = ''Please create a valid Plenti project or fix your app structure before trying to run this command again.''"

definition deferred :: "'o state \<Rightarrow> 'o state" where
  "deferred s =
     (case status s of
        Exited msg \<Rightarrow> s
      | Panicking r \<Rightarrow>
          (let s1 = (case r of
                       GoNil \<Rightarrow> s
                     | GoValue v \<Rightarrow>
                         emit (Printf (''Error: '' @ v @ '' '' @ [CHR 0x0A, CHR 0x0A]))
                           (emit (Println pleaseCreate) s))
           in emit (CallBenchmark ''Total build'' True) (s1\<lparr>status := Recovered r\<rparr>))
      | _ \<Rightarrow> emit (CallBenchmark ''Total build'' True) (s\<lparr>status := Completed\<rparr>))"

text \<open>Lines 52 and 53, before anything is deferred.\<close>

definition flagChecks :: "Flags \<Rightarrow> 'o state" where
  "flagChecks fl =
     emit (CallCheckBenchmarkFlag (BenchmarkFlag fl))
       (emit (CallCheckVerboseFlag (VerboseFlag fl)) initial)"

text \<open>Lines 50 to 167.\<close>

definition Build :: "('o::zero) World \<Rightarrow> Flags \<Rightarrow> 'o state" where
  "Build w fl = deferred (runStages (stages w fl) (flagChecks fl))"

section \<open>Vocabulary for stating properties of runs\<close>

text \<open>The calls of the two build strategies, and the call that stages the assets.\<close>

fun isNodeCall :: "'o event \<Rightarrow> bool" where
  "isNodeCall (CallNodeClient _) = True"
| "isNodeCall (CallNodeDataSource _ _) = True"
| "isNodeCall (CallNodeExec _ _ _) = True"
| "isNodeCall _ = False"

fun isCoreCall :: "'o event \<Rightarrow> bool" where
  "isCoreCall (CallClient _ _ _) = True"
| "isCoreCall (CallDataSource _ _ _) = True"
| "isCoreCall _ = False"

fun isAssetsCall :: "'o event \<Rightarrow> bool" where
  "isAssetsCall (CallAssetsCopy _ _) = True"
| "isAssetsCall _ = False"

text \<open>The value a recorded call panics with in a world, if it panics there.\<close>

definition panicValue :: "'a call \<Rightarrow> go_value option" where
  "panicValue answer = (case answer of Panics r \<Rightarrow> Some r | Returns _ \<Rightarrow> None)"

fun panicOf :: "'o World \<Rightarrow> 'o event \<Rightarrow> go_value option" where
  "panicOf w (CallGetSiteConfig p) = panicValue (GetSiteConfig w p)"
| "panicOf w (CallThemesCopy p themeOptions) = panicValue (ThemesCopy w p themeOptions)"
| "panicOf w (CallThemesMerge d b) = panicValue (ThemesMerge w d b)"
| "panicOf w (CallNpmDefaults t) = panicValue (NpmDefaults w t)"
| "panicOf w (CallEjectTemp t) = panicValue (EjectTemp w t)"
| "panicOf w (CallEjectCopy b t e) = panicValue (EjectCopy w b t e)"
| "panicOf w (CallAssetsCopy b t) = panicValue (AssetsCopy w b t)"
| "panicOf w (CallNodeClient b) = panicValue (NodeClient w b)"
| "panicOf w (CallNodeDataSource b cfg) = panicValue (NodeDataSource w b cfg)"
| "panicOf w (CallNodeExec c d n) = panicValue (NodeExec w c d n)"
| "panicOf w (CallClient b t e) = panicValue (Client w b t e)"
| "panicOf w (CallDataSource b cfg t) = panicValue (DataSource w b cfg t)"
| "panicOf w (CallGopack b) = panicValue (Gopack w b)"
| "panicOf w (CallThemesClean t) = panicValue (ThemesClean w t)"
| "panicOf w (CallEjectClean fs e) = panicValue (EjectClean w fs e)"
| "panicOf w _ = None"

text \<open>
  The statement of \<^verbatim>\<open>Build\<close> an event comes from, numbered in program order: 0 the
  two flag checks, 1 the configuration, 3 the theme, 4 the build directory, 5 the NPM
  defaults, 6 the ejected files, 7 the assets, 8 the build proper, 9 Gopack, 10 the
  cleanup, 11 the deferred functions, 12 \<^verbatim>\<open>log.Fatal\<close>, which any statement may reach.
\<close>

fun origin :: "'o event \<Rightarrow> nat" where
  "origin (CallCheckVerboseFlag _) = 0"
| "origin (CallCheckBenchmarkFlag _) = 0"
| "origin (CallGetSiteConfig _) = 1"
| "origin (CallThemesCopy _ _) = 3"
| "origin (CallThemesMerge _ _) = 3"
| "origin (CallStat _) = 4"
| "origin (CallLog _) = 4"
| "origin (CallRemoveAll _) = 4"
| "origin (CallMkdirAll _ _) = 4"
| "origin (CallNpmDefaults _) = 5"
| "origin (CallEjectTemp _) = 6"
| "origin (CallEjectCopy _ _ _) = 6"
| "origin (CallAssetsCopy _ _) = 7"
| "origin (CallNodeClient _) = 8"
| "origin (CallNodeDataSource _ _) = 8"
| "origin (CallNodeExec _ _ _) = 8"
| "origin (CallClient _ _ _) = 8"
| "origin (CallDataSource _ _ _) = 8"
| "origin (CallGopack _) = 9"
| "origin (CallThemesClean _) = 10"
| "origin (CallEjectClean _ _) = 10"
| "origin (Println _) = 11"
| "origin (Printf _) = 11"
| "origin (CallBenchmark _ _) = 11"
| "origin (LogFatal _) = 12"

text \<open>A state transformer that only appends events, all of them of one sort.\<close>

definition emitsOnly :: "('o event \<Rightarrow> bool) \<Rightarrow> ('o state \<Rightarrow> 'o state) \<Rightarrow> bool" where
  "emitsOnly A f = (\<forall>s. \<exists>es. trace (f s) = trace s @ es \<and> (\<forall>e \<in> set es. A e))"

text \<open>
  The state of a run once the first \<open>k\<close> statements of the body have had their turn. Its
  status is \<open>Running\<close> exactly when none of them ended the run, that is, when the run
  reaches the statement after them: \<open>stateAfter 3\<close> is the run at line 89, before the
  build directory is looked at, \<open>stateAfter 7\<close> the run at line 132, before the build
  proper, \<open>stateAfter 9\<close> the run at line 159, before the cleanup.
\<close>

definition stateAfter :: "nat \<Rightarrow> ('o::zero) World \<Rightarrow> Flags \<Rightarrow> 'o state" where
  "stateAfter k w fl = runStages (take k (stages w fl)) (flagChecks fl)"

text \<open>
  What holds of a run while its body executes, with respect to panics: in a trace that is
  calm no recorded call panicked and \<^verbatim>\<open>log.Fatal\<close> was not reached; a run that is
  unwinding from a panic has the panicking call as its last event, after a calm trace.
\<close>

definition calm :: "'o World \<Rightarrow> 'o event list \<Rightarrow> bool" where
  "calm w tr = (\<forall>e \<in> set tr. panicOf w e = None \<and> origin e \<noteq> 12)"

definition guarded :: "'o World \<Rightarrow> 'o state \<Rightarrow> bool" where
  "guarded w s =
     (case status s of
        Running \<Rightarrow> calm w (trace s)
      | Panicking r \<Rightarrow>
          trace s \<noteq> [] \<and> panicOf w (last (trace s)) = Some r \<and> calm w (butlast (trace s))
      | Exited m \<Rightarrow> (\<forall>e \<in> set (trace s). panicOf w e = None)
      | Recovered r \<Rightarrow> False
      | Completed \<Rightarrow> False)"

section \<open>Concrete projects\<close>

text \<open>
  Projects to run \<^verbatim>\<open>Build\<close> on: a configuration without a theme that builds to
  \<^verbatim>\<open>public\<close>, one with the theme \<^verbatim>\<open>mytheme\<close>, and a world in which every callee
  succeeds. Theme options are numbers here.
\<close>

definition plainSite :: "nat SiteConfig" where
  "plainSite = \<lparr>BuildDir = ''public'', Theme = '''', ThemeConfig = []\<rparr>"

definition themedSite :: "nat SiteConfig" where
  "themedSite = \<lparr>BuildDir = ''public'', Theme = ''mytheme'', ThemeConfig = [(''mytheme'', 7)]\<rparr>"

definition quietWorld :: "nat SiteConfig \<Rightarrow> nat World" where
  "quietWorld cfg =
     \<lparr>ConfigFile = (\<lambda>p. Returns (Inr cfg)),
      ThemesCopy = (\<lambda>p themeOptions. Returns (''.plenti-tmp/'', None)),
      ThemesMerge = (\<lambda>d b. Returns None),
      PathExists = (\<lambda>p. True),
      Stat = (\<lambda>p. None),
      RemoveAll = (\<lambda>p. None),
      MkdirAll = (\<lambda>p m. None),
      NpmDefaults = (\<lambda>t. Returns None),
      EjectTemp = (\<lambda>t. Returns ([''ejected/build.js''], t @ ''ejected'')),
      EjectCopy = (\<lambda>b t e. Returns None),
      AssetsCopy = (\<lambda>b t. Returns None),
      NodeClient = (\<lambda>b. Returns ''client''),
      NodeDataSource = (\<lambda>b c. Returns (''static'', ''nodes'', None)),
      NodeExec = (\<lambda>c d n. Returns None),
      Client = (\<lambda>b t e. Returns None),
      DataSource = (\<lambda>b c t. Returns None),
      Gopack = (\<lambda>b. Returns ()),
      ThemesClean = (\<lambda>t. Returns None),
      EjectClean = (\<lambda>fs e. Returns None)\<rparr>"

definition noFlags :: Flags where
  "noFlags = \<lparr>BuildDirFlag = '''', VerboseFlag = False, BenchmarkFlag = False, NodeJSFlag = False\<rparr>"

text \<open>
  The project without a theme whose build directory \<^verbatim>\<open>public\<close> exists, in a world where
  \<^verbatim>\<open>os.Stat\<close> is denied although the directory is there; and in a world where the
  directory that holds \<^verbatim>\<open>public\<close> may not be searched, so that \<^verbatim>\<open>os.Stat\<close> and
  \<^verbatim>\<open>os.MkdirAll\<close> on \<^verbatim>\<open>public\<close> are both denied.
\<close>

definition deniedOnStat :: "nat World" where
  "deniedOnStat =
     (quietWorld plainSite)\<lparr>Stat := \<lambda>p. Some (GoError Permission ''permission denied'')\<rparr>"

definition deniedInParent :: "nat World" where
  "deniedInParent =
     (quietWorld plainSite)
       \<lparr>Stat := \<lambda>p. Some (GoError Permission (''stat '' @ p @ '': permission denied'')),
        MkdirAll := \<lambda>p m. Some (GoError Permission (''mkdir '' @ p @ '': permission denied''))\<rparr>"

text \<open>The project without a theme in a world where \<^verbatim>\<open>build.Client\<close> panics.\<close>

definition clientPanics :: "go_value \<Rightarrow> nat World" where
  "clientPanics r = (quietWorld plainSite)\<lparr>Client := \<lambda>b t e. Panics r\<rparr>"

definition permissionDenied :: go_error where
  "permissionDenied = GoError Permission ''permission denied''"

definition ioError :: go_error where
  "ioError = GoError OtherError ''input/output error''"

section \<open>Sequencing\<close>

lemmas step_defs = emit_def logFatal_def panic_def fatalOnErr_def CheckErr_def Let_def

lemmas stage_defs = loadSiteConfig_def resolveBuildDir_def themeStage_def workspaceStage_def
  npmStage_def ejectStage_def assetsStage_def buildStage_def nodeBuild_def coreBuild_def
  gopackStage_def cleanupStage_def

lemmas eval_defs = Build_def flagChecks_def stages_def runStages.simps stage_defs step_defs GetSiteConfig_def
  deferred_def initial_def quietWorld_def plainSite_def themedSite_def noFlags_def
  setBuildDir_def filepath_Join_def filepath_Clean_def cleanElem_def themeConfigAt_def
  ModePerm_def zeroSiteConfig_def permissionDenied_def ioError_def removingMsg_def
  creatingMsg_def unableMsg_def deniedOnStat_def deniedInParent_def clientPanics_def

lemma runStages_stop: "status s \<noteq> Running \<Longrightarrow> runStages fs s = s"
  by (cases fs) (simp_all add: runStages.simps)

lemma runStages_step: "status s = Running \<Longrightarrow> runStages (f # fs) s = runStages fs (f s)"
  by (simp add: runStages.simps)

lemma runStages_append: "runStages (fs @ gs) s = runStages gs (runStages fs s)"
  by (induction fs arbitrary: s) (simp_all add: runStages.simps runStages_stop)

lemma runStages_invariant:
  assumes "P s" and "\<And>f t. f \<in> set fs \<Longrightarrow> P t \<Longrightarrow> status t = Running \<Longrightarrow> P (f t)"
  shows "P (runStages fs s)"
  using assms by (induction fs arbitrary: s) (auto simp: runStages.simps)

lemma emitsOnlyI:
  "(\<And>s. \<exists>es. trace (f s) = trace s @ es \<and> (\<forall>e \<in> set es. A e)) \<Longrightarrow> emitsOnly A f"
  by (simp add: emitsOnly_def)

lemma emitsOnlyD:
  assumes "emitsOnly A f"
  obtains es where "trace (f s) = trace s @ es" and "\<forall>e \<in> set es. A e"
  using assms unfolding emitsOnly_def by blast

lemma emitsOnly_mono: "emitsOnly A f \<Longrightarrow> (\<And>e. A e \<Longrightarrow> B e) \<Longrightarrow> emitsOnly B f"
  unfolding emitsOnly_def by blast

lemma emitsOnly_runStages:
  assumes "\<And>f. f \<in> set fs \<Longrightarrow> emitsOnly A f"
  shows "emitsOnly A (runStages fs)"
  using assms
proof (induction fs)
  case Nil
  then show ?case by (simp add: emitsOnly_def runStages.simps)
next
  case (Cons f fs)
  have f: "emitsOnly A f" and r: "emitsOnly A (runStages fs)"
    using Cons by simp_all
  show ?case
  proof (rule emitsOnlyI)
    fix s
    obtain es where es: "trace (f s) = trace s @ es" "\<forall>e\<in>set es. A e"
      using f by (rule emitsOnlyD)
    obtain es' where es': "trace (runStages fs (f s)) = trace (f s) @ es'" "\<forall>e\<in>set es'. A e"
      using r by (rule emitsOnlyD)
    show "\<exists>es. trace (runStages (f # fs) s) = trace s @ es \<and> (\<forall>e\<in>set es. A e)"
    proof (cases "status s = Running")
      case True
      then have "trace (runStages (f # fs) s) = trace s @ (es @ es')"
        using es es' by (simp add: runStages.simps)
      moreover have "\<forall>e\<in>set (es @ es'). A e"
        using es es' by auto
      ultimately show ?thesis by blast
    next
      case False
      then show ?thesis by (simp add: runStages.simps)
    qed
  qed
qed

subsection \<open>What each statement appends to the trace\<close>

lemma loadSiteConfig_emits: "emitsOnly (\<lambda>e. origin e = 1) (loadSiteConfig w)"
  by (rule emitsOnlyI) (simp add: loadSiteConfig_def step_defs split: call.split prod.split)

lemma resolveBuildDir_emits: "emitsOnly (\<lambda>e. False) (resolveBuildDir fl)"
  by (rule emitsOnlyI) (simp add: resolveBuildDir_def)

lemma themeStage_emits: "emitsOnly (\<lambda>e. origin e = 3 \<or> origin e = 12) (themeStage w)"
  by (rule emitsOnlyI)
     (simp add: themeStage_def step_defs split: call.split prod.split option.split)

lemma workspaceStage_emits: "emitsOnly (\<lambda>e. origin e = 4 \<or> origin e = 12) (workspaceStage w)"
  by (rule emitsOnlyI) (simp add: workspaceStage_def step_defs split: option.split)

lemma npmStage_emits: "emitsOnly (\<lambda>e. origin e = 5 \<or> origin e = 12) (npmStage w)"
  by (rule emitsOnlyI) (simp add: npmStage_def step_defs split: call.split option.split)

lemma ejectStage_emits: "emitsOnly (\<lambda>e. origin e = 6 \<or> origin e = 12) (ejectStage w)"
  by (rule emitsOnlyI)
     (simp add: ejectStage_def step_defs split: call.split prod.split option.split)

lemma assetsStage_emits: "emitsOnly (\<lambda>e. origin e = 7 \<or> origin e = 12) (assetsStage w)"
  by (rule emitsOnlyI) (simp add: assetsStage_def step_defs split: call.split option.split)

lemma buildStage_emits: "emitsOnly (\<lambda>e. origin e = 8 \<or> origin e = 12) (buildStage w fl)"
  by (rule emitsOnlyI)
     (simp add: buildStage_def nodeBuild_def coreBuild_def step_defs
           split: call.split prod.split option.split)

lemma gopackStage_emits: "emitsOnly (\<lambda>e. origin e = 9) (gopackStage w)"
  by (rule emitsOnlyI) (simp add: gopackStage_def step_defs split: call.split)

lemma cleanupStage_emits: "emitsOnly (\<lambda>e. origin e = 10 \<or> origin e = 12) (cleanupStage w)"
  by (rule emitsOnlyI) (simp add: cleanupStage_def step_defs split: call.split option.split)

lemma deferred_emits: "emitsOnly (\<lambda>e. origin e = 11) deferred"
  by (rule emitsOnlyI) (simp add: deferred_def step_defs split: status.split go_value.split)

subsection \<open>What each statement leaves alone\<close>

lemma themeStage_keeps:
  "siteConfig (themeStage w s) = siteConfig s" "buildDir (themeStage w s) = buildDir s"
  by (simp_all add: themeStage_def step_defs split: call.split prod.split option.split)

lemma workspaceStage_keeps:
  "siteConfig (workspaceStage w s) = siteConfig s" "buildDir (workspaceStage w s) = buildDir s"
  "tempBuildDir (workspaceStage w s) = tempBuildDir s"
  by (simp_all add: workspaceStage_def step_defs split: option.split)

lemma npmStage_keeps:
  "siteConfig (npmStage w s) = siteConfig s" "buildDir (npmStage w s) = buildDir s"
  "tempBuildDir (npmStage w s) = tempBuildDir s" "buildPath (npmStage w s) = buildPath s"
  by (simp_all add: npmStage_def step_defs split: call.split option.split)

lemma ejectStage_keeps:
  "siteConfig (ejectStage w s) = siteConfig s" "buildDir (ejectStage w s) = buildDir s"
  "tempBuildDir (ejectStage w s) = tempBuildDir s" "buildPath (ejectStage w s) = buildPath s"
  by (simp_all add: ejectStage_def step_defs split: call.split prod.split option.split)

lemma assetsStage_keeps:
  "siteConfig (assetsStage w s) = siteConfig s" "buildDir (assetsStage w s) = buildDir s"
  "tempBuildDir (assetsStage w s) = tempBuildDir s" "buildPath (assetsStage w s) = buildPath s"
  "tempFiles (assetsStage w s) = tempFiles s" "ejectedPath (assetsStage w s) = ejectedPath s"
  by (simp_all add: assetsStage_def step_defs split: call.split option.split)

lemma buildStage_keeps:
  "siteConfig (buildStage w fl s) = siteConfig s" "buildDir (buildStage w fl s) = buildDir s"
  "tempBuildDir (buildStage w fl s) = tempBuildDir s" "buildPath (buildStage w fl s) = buildPath s"
  "tempFiles (buildStage w fl s) = tempFiles s" "ejectedPath (buildStage w fl s) = ejectedPath s"
  by (simp_all add: buildStage_def nodeBuild_def coreBuild_def step_defs
               split: call.split prod.split option.split)

lemma gopackStage_keeps:
  "siteConfig (gopackStage w s) = siteConfig s" "buildDir (gopackStage w s) = buildDir s"
  "tempBuildDir (gopackStage w s) = tempBuildDir s" "buildPath (gopackStage w s) = buildPath s"
  "tempFiles (gopackStage w s) = tempFiles s" "ejectedPath (gopackStage w s) = ejectedPath s"
  by (simp_all add: gopackStage_def step_defs split: call.split)

lemma cleanupStage_keeps:
  "siteConfig (cleanupStage w s) = siteConfig s" "buildDir (cleanupStage w s) = buildDir s"
  "tempBuildDir (cleanupStage w s) = tempBuildDir s" "buildPath (cleanupStage w s) = buildPath s"
  "tempFiles (cleanupStage w s) = tempFiles s" "ejectedPath (cleanupStage w s) = ejectedPath s"
  by (simp_all add: cleanupStage_def step_defs split: call.split option.split)

lemma deferred_keeps:
  "siteConfig (deferred s) = siteConfig s" "buildDir (deferred s) = buildDir s"
  "tempBuildDir (deferred s) = tempBuildDir s" "buildPath (deferred s) = buildPath s"
  "tempFiles (deferred s) = tempFiles s" "ejectedPath (deferred s) = ejectedPath s"
  by (simp_all add: deferred_def step_defs split: status.split go_value.split)

lemma flagChecks_simps:
  "status (flagChecks fl) = Running"
  "trace (flagChecks fl) =
     [CallCheckVerboseFlag (VerboseFlag fl), CallCheckBenchmarkFlag (BenchmarkFlag fl)]"
  "siteConfig (flagChecks fl) = zeroSiteConfig" "tempBuildDir (flagChecks fl) = ''''"
  by (simp_all add: flagChecks_def initial_def emit_def)

subsection \<open>The configuration and the build directory\<close>

lemma stages_from_theme:
  "stages w fl = [loadSiteConfig w, resolveBuildDir fl]
     @ [themeStage w, workspaceStage w, npmStage w, ejectStage w, assetsStage w,
        buildStage w fl, gopackStage w, cleanupStage w]"
  by (simp add: stages_def)

lemma config_loaded:
  assumes "GetSiteConfig w ''.'' = Returns (cfg, x)" and "status s = Running"
  shows "runStages [loadSiteConfig w, resolveBuildDir fl] s =
           s\<lparr>siteConfig := cfg, buildDir := setBuildDir fl cfg,
              trace := trace s @ [CallGetSiteConfig ''.'']\<rparr>"
  using assms by (simp add: runStages.simps loadSiteConfig_def resolveBuildDir_def emit_def)

lemma config_panicked:
  assumes "GetSiteConfig w ''.'' = Panics r" and "status s = Running"
  shows "runStages [loadSiteConfig w, resolveBuildDir fl] s =
           s\<lparr>trace := trace s @ [CallGetSiteConfig ''.''], status := Panicking r\<rparr>"
  using assms
  by (simp add: runStages.simps loadSiteConfig_def resolveBuildDir_def emit_def panic_def)

lemma later_stages_keep_config:
  assumes "f \<in> set [themeStage w, workspaceStage w, npmStage w, ejectStage w, assetsStage w,
                     buildStage w fl, gopackStage w, cleanupStage w]"
  shows "siteConfig (f s) = siteConfig s \<and> buildDir (f s) = buildDir s"
  using assms
  by (auto simp: themeStage_keeps workspaceStage_keeps npmStage_keeps ejectStage_keeps
                 assetsStage_keeps buildStage_keeps gopackStage_keeps cleanupStage_keeps)

lemma Build_config:
  fixes w :: "('o::zero) World"
  assumes "GetSiteConfig w ''.'' = Returns (cfg, x)"
  shows "siteConfig (Build w fl) = cfg" and "buildDir (Build w fl) = setBuildDir fl cfg"
proof -
  let ?s1 = "runStages [loadSiteConfig w, resolveBuildDir fl] (flagChecks fl)"
  let ?rest = "[themeStage w, workspaceStage w, npmStage w, ejectStage w, assetsStage w,
                buildStage w fl, gopackStage w, cleanupStage w]"
  have s1: "siteConfig ?s1 = cfg \<and> buildDir ?s1 = setBuildDir fl cfg"
    by (simp add: config_loaded [OF assms flagChecks_simps(1)])
  have "siteConfig (runStages ?rest ?s1) = cfg \<and> buildDir (runStages ?rest ?s1) = setBuildDir fl cfg"
  proof (rule runStages_invariant
           [where P = "\<lambda>t. siteConfig t = cfg \<and> buildDir t = setBuildDir fl cfg"])
    show "siteConfig ?s1 = cfg \<and> buildDir ?s1 = setBuildDir fl cfg"
      by (rule s1)
  next
    fix f and t :: "'o state"
    assume "f \<in> set ?rest" and "siteConfig t = cfg \<and> buildDir t = setBuildDir fl cfg"
    then show "siteConfig (f t) = cfg \<and> buildDir (f t) = setBuildDir fl cfg"
      using later_stages_keep_config [of f w fl t] by simp
  qed
  then show "siteConfig (Build w fl) = cfg" and "buildDir (Build w fl) = setBuildDir fl cfg"
    unfolding Build_def stages_from_theme runStages_append
    by (simp_all add: deferred_keeps)
qed

section \<open>The effective build directory\<close>

text \<open>
  C3. The build directory \<^verbatim>\<open>setBuildDir\<close> resolves is the \<^verbatim>\<open>--dir\<close> flag when the flag
  is not empty, and the configured \<^verbatim>\<open>BuildDir\<close>, unchanged, when it is empty; and this is
  the directory a run of \<^verbatim>\<open>Build\<close> works with, whatever configuration was loaded.
\<close>

theorem setBuildDir_override_precedence:
  "(BuildDirFlag fl \<noteq> '''' \<longrightarrow> setBuildDir fl cfg = BuildDirFlag fl)
   \<and> (BuildDirFlag fl = '''' \<longrightarrow> setBuildDir fl cfg = BuildDir cfg)
   \<and> (GetSiteConfig w ''.'' = Returns (cfg, x) \<longrightarrow> buildDir (Build w fl) = setBuildDir fl cfg)"
  by (simp add: setBuildDir_def Build_config)

theorem setBuildDir_override_precedence_witness:
  "BuildDirFlag (noFlags\<lparr>BuildDirFlag := ''out''\<rparr>) \<noteq> ''''
   \<and> setBuildDir (noFlags\<lparr>BuildDirFlag := ''out''\<rparr>) plainSite = ''out''
   \<and> BuildDirFlag noFlags = ''''
   \<and> setBuildDir noFlags plainSite = ''public''
   \<and> GetSiteConfig (quietWorld plainSite) ''.'' = Returns (plainSite, None)
   \<and> buildDir (Build (quietWorld plainSite) (noFlags\<lparr>BuildDirFlag := ''out''\<rparr>)) = ''out''
   \<and> buildDir (Build (quietWorld plainSite) noFlags) = ''public''"
proof -
  have flag: "BuildDirFlag (noFlags\<lparr>BuildDirFlag := ''out''\<rparr>) \<noteq> ''''"
    and noflag: "BuildDirFlag noFlags = ''''"
    and dir: "BuildDir plainSite = ''public''"
    by (simp_all add: noFlags_def plainSite_def)
  have cfg: "GetSiteConfig (quietWorld plainSite) ''.'' = Returns (plainSite, None)"
    by (simp add: GetSiteConfig_def quietWorld_def)
  show ?thesis
    using setBuildDir_override_precedence
            [of "noFlags\<lparr>BuildDirFlag := ''out''\<rparr>" plainSite "quietWorld plainSite" None]
          setBuildDir_override_precedence [of noFlags plainSite "quietWorld plainSite" None]
          flag noflag dir cfg
    by simp
qed

subsection \<open>Blocks of statements\<close>

lemmas stage_emits_weaker =
  emitsOnly_mono [OF loadSiteConfig_emits] emitsOnly_mono [OF resolveBuildDir_emits]
  emitsOnly_mono [OF themeStage_emits] emitsOnly_mono [OF workspaceStage_emits]
  emitsOnly_mono [OF npmStage_emits] emitsOnly_mono [OF ejectStage_emits]
  emitsOnly_mono [OF assetsStage_emits] emitsOnly_mono [OF buildStage_emits]
  emitsOnly_mono [OF gopackStage_emits] emitsOnly_mono [OF cleanupStage_emits]

lemma rest_of_run:
  assumes "emitsOnly A g"
  obtains es where "trace (deferred (g s)) = trace s @ es"
    and "\<forall>e \<in> set es. A e \<or> origin e = 11"
proof -
  obtain es1 where es1: "trace (g s) = trace s @ es1" "\<forall>e \<in> set es1. A e"
    using assms by (rule emitsOnlyD)
  obtain es2 where es2: "trace (deferred (g s)) = trace (g s) @ es2" "\<forall>e \<in> set es2. origin e = 11"
    using deferred_emits by (rule emitsOnlyD)
  have "trace (deferred (g s)) = trace s @ (es1 @ es2)"
    using es1 es2 by simp
  moreover have "\<forall>e \<in> set (es1 @ es2). A e \<or> origin e = 11"
    using es1 es2 by auto
  ultimately show thesis
    by (rule that)
qed

lemma after_workspace_emits:
  "emitsOnly (\<lambda>e. 5 \<le> origin e)
     (runStages [npmStage w, ejectStage w, assetsStage w, buildStage w fl, gopackStage w,
                 cleanupStage w])"
  by (rule emitsOnly_runStages) (auto intro: stage_emits_weaker)

lemma stages_at_workspace:
  "stages w fl = [loadSiteConfig w, resolveBuildDir fl, themeStage w] @ [workspaceStage w]
     @ [npmStage w, ejectStage w, assetsStage w, buildStage w fl, gopackStage w, cleanupStage w]"
  by (simp add: stages_def)

subsection \<open>A configuration that fails to load\<close>

lemma ConfigFile_only_read_by_loadSiteConfig:
  "themeStage (w\<lparr>ConfigFile := c\<rparr>) = themeStage w"
  "workspaceStage (w\<lparr>ConfigFile := c\<rparr>) = workspaceStage w"
  "npmStage (w\<lparr>ConfigFile := c\<rparr>) = npmStage w"
  "ejectStage (w\<lparr>ConfigFile := c\<rparr>) = ejectStage w"
  "assetsStage (w\<lparr>ConfigFile := c\<rparr>) = assetsStage w"
  "buildStage (w\<lparr>ConfigFile := c\<rparr>) fl = buildStage w fl"
  "gopackStage (w\<lparr>ConfigFile := c\<rparr>) = gopackStage w"
  "cleanupStage (w\<lparr>ConfigFile := c\<rparr>) = cleanupStage w"
  by (rule ext,
      simp add: stage_defs step_defs
           cong: call.case_cong option.case_cong prod.case_cong if_cong)+

lemma failed_load_is_zero_config:
  assumes "ConfigFile w ''.'' = Returns (Inl e)"
  shows "loadSiteConfig (w\<lparr>ConfigFile := \<lambda>p. Returns (Inr zeroSiteConfig)\<rparr>) = loadSiteConfig w"
  using assms by (intro ext) (simp add: loadSiteConfig_def GetSiteConfig_def)

lemma workspaceStage_starts:
  "\<exists>es. trace (workspaceStage w s) = trace s @ CallStat (filepath_Join [''.'', buildDir s]) # es"
  by (simp add: workspaceStage_def step_defs split: option.split)

lemma no_theme_configured:
  assumes "GetSiteConfig w ''.'' = Returns (cfg, x)" and "Theme cfg = ''''"
  shows "runStages [loadSiteConfig w, resolveBuildDir fl, themeStage w] (flagChecks fl) =
           (flagChecks fl)\<lparr>siteConfig := cfg, buildDir := setBuildDir fl cfg,
              trace := trace (flagChecks fl) @ [CallGetSiteConfig ''.'']\<rparr>"
proof -
  have "runStages ([loadSiteConfig w, resolveBuildDir fl] @ [themeStage w]) (flagChecks fl) =
          (flagChecks fl)\<lparr>siteConfig := cfg, buildDir := setBuildDir fl cfg,
              trace := trace (flagChecks fl) @ [CallGetSiteConfig ''.'']\<rparr>"
    unfolding runStages_append config_loaded [OF assms(1) flagChecks_simps(1)]
    using assms(2)
    by (simp add: runStages.simps flagChecks_simps themeStage_def)
  then show ?thesis by simp
qed

text \<open>
  C9. When the persisted configuration fails to load, the run does not abort there. It is,
  event for event and field for field, the run that loads an all-zero configuration: the
  configuration \<^verbatim>\<open>Build\<close> works with is the zero value (empty \<^verbatim>\<open>BuildDir\<close>, empty
  \<^verbatim>\<open>Theme\<close>), the build directory is whatever the \<^verbatim>\<open>--dir\<close> flag says, the theme
  block is skipped, and the next call after loading the configuration is \<^verbatim>\<open>os.Stat\<close> on
  the build path.
\<close>

theorem failed_config_load_is_not_fatal:
  fixes w :: "('o::zero) World"
  assumes "ConfigFile w ''.'' = Returns (Inl err)"
  shows "Build w fl = Build (w\<lparr>ConfigFile := \<lambda>p. Returns (Inr zeroSiteConfig)\<rparr>) fl
    \<and> siteConfig (Build w fl) = zeroSiteConfig
    \<and> buildDir (Build w fl) = BuildDirFlag fl
    \<and> (\<exists>rest. trace (Build w fl) =
          [CallCheckVerboseFlag (VerboseFlag fl), CallCheckBenchmarkFlag (BenchmarkFlag fl),
           CallGetSiteConfig ''.'', CallStat (filepath_Join [''.'', BuildDirFlag fl])] @ rest)"
proof -
  have cfg: "GetSiteConfig w ''.'' = Returns (zeroSiteConfig, Some err)"
    using assms by (simp add: GetSiteConfig_def)
  have dir: "setBuildDir fl (zeroSiteConfig :: 'o SiteConfig) = BuildDirFlag fl"
    by (simp add: setBuildDir_def zeroSiteConfig_def)
  have same: "Build w fl = Build (w\<lparr>ConfigFile := \<lambda>p. Returns (Inr zeroSiteConfig)\<rparr>) fl"
    by (simp add: Build_def stages_def ConfigFile_only_read_by_loadSiteConfig
          failed_load_is_zero_config [OF assms])
  let ?sA = "runStages [loadSiteConfig w, resolveBuildDir fl, themeStage w] (flagChecks fl)"
  have sA: "?sA = (flagChecks fl)\<lparr>siteConfig := zeroSiteConfig, buildDir := BuildDirFlag fl,
              trace := trace (flagChecks fl) @ [CallGetSiteConfig ''.'']\<rparr>"
  proof -
    have "Theme (zeroSiteConfig :: 'o SiteConfig) = []"
      by (simp add: zeroSiteConfig_def)
    then show ?thesis
      using no_theme_configured [OF cfg, of fl] by (simp add: dir)
  qed
  have running: "status ?sA = Running"
    by (simp add: sA flagChecks_simps)
  obtain es where es: "trace (workspaceStage w ?sA) =
      trace ?sA @ CallStat (filepath_Join [''.'', buildDir ?sA]) # es"
    using workspaceStage_starts by blast
  obtain es' where es': "trace (Build w fl) = trace (workspaceStage w ?sA) @ es'"
    unfolding Build_def stages_at_workspace runStages_append
    using rest_of_run [OF after_workspace_emits]
    by (metis running runStages_step runStages.simps(1))
  have "trace (Build w fl) =
          [CallCheckVerboseFlag (VerboseFlag fl), CallCheckBenchmarkFlag (BenchmarkFlag fl),
           CallGetSiteConfig ''.'', CallStat (filepath_Join [''.'', BuildDirFlag fl])] @ (es @ es')"
    unfolding es' es by (simp add: sA flagChecks_simps)
  then have tr: "\<exists>rest. trace (Build w fl) =
          [CallCheckVerboseFlag (VerboseFlag fl), CallCheckBenchmarkFlag (BenchmarkFlag fl),
           CallGetSiteConfig ''.'', CallStat (filepath_Join [''.'', BuildDirFlag fl])] @ rest"
    by (rule exI)
  show ?thesis
  proof (intro conjI)
    show "Build w fl = Build (w\<lparr>ConfigFile := \<lambda>p. Returns (Inr zeroSiteConfig)\<rparr>) fl"
      by (rule same)
    show "siteConfig (Build w fl) = zeroSiteConfig"
      by (rule Build_config(1) [OF cfg])
    show "buildDir (Build w fl) = BuildDirFlag fl"
      using Build_config(2) [OF cfg, of fl] by (simp only: dir)
    show "\<exists>rest. trace (Build w fl) =
          [CallCheckVerboseFlag (VerboseFlag fl), CallCheckBenchmarkFlag (BenchmarkFlag fl),
           CallGetSiteConfig ''.'', CallStat (filepath_Join [''.'', BuildDirFlag fl])] @ rest"
      by (rule tr)
  qed
qed

text \<open>A run whose configuration fails to load with an I/O error, and which completes.\<close>

theorem failed_config_load_is_not_fatal_witness:
  "ConfigFile ((quietWorld plainSite)\<lparr>ConfigFile := \<lambda>p. Returns (Inl ioError)\<rparr>) ''.''
     = Returns (Inl ioError)
   \<and> siteConfig (Build ((quietWorld plainSite)\<lparr>ConfigFile := \<lambda>p. Returns (Inl ioError)\<rparr>) noFlags)
       = zeroSiteConfig
   \<and> buildDir (Build ((quietWorld plainSite)\<lparr>ConfigFile := \<lambda>p. Returns (Inl ioError)\<rparr>) noFlags)
       = []
   \<and> status (Build ((quietWorld plainSite)\<lparr>ConfigFile := \<lambda>p. Returns (Inl ioError)\<rparr>) noFlags)
       = Completed"
proof -
  let ?w = "(quietWorld plainSite)\<lparr>ConfigFile := \<lambda>p. Returns (Inl ioError)\<rparr>"
  have load: "ConfigFile ?w ''.'' = Returns (Inl ioError)"
    by simp
  have completes: "status (Build ?w noFlags) = Completed"
    by (simp add: eval_defs)
  have zero: "siteConfig (Build ?w noFlags) = zeroSiteConfig"
    and flag: "buildDir (Build ?w noFlags) = BuildDirFlag noFlags"
    using failed_config_load_is_not_fatal [OF load, of noFlags] by blast+
  show ?thesis
    using load zero flag completes by (simp add: noFlags_def)
qed

subsection \<open>The theme block\<close>

lemma split_after_prefix:
  assumes "xs @ ys = pre @ m # post" and "m \<notin> set xs"
  shows "\<exists>us. pre = xs @ us \<and> ys = us @ m # post"
  using assms by (auto simp: append_eq_append_conv2 append_eq_Cons_conv)

lemma after_theme_emits:
  "emitsOnly (\<lambda>e. 4 \<le> origin e)
     (runStages [workspaceStage w, npmStage w, ejectStage w, assetsStage w, buildStage w fl,
                 gopackStage w, cleanupStage w])"
  by (rule emitsOnly_runStages) (auto intro: stage_emits_weaker)

lemma stages_at_theme:
  "stages w fl = [loadSiteConfig w, resolveBuildDir fl] @ [themeStage w]
     @ [workspaceStage w, npmStage w, ejectStage w, assetsStage w, buildStage w fl,
        gopackStage w, cleanupStage w]"
  by (simp add: stages_def)

lemma themeStage_starts:
  assumes "Theme (siteConfig s) \<noteq> ''''"
  shows "\<exists>es. trace (themeStage w s) =
           trace s @ CallThemesCopy (''themes/'' @ Theme (siteConfig s))
                       (themeConfigAt (siteConfig s) (Theme (siteConfig s))) # es"
  using assms
  by (simp add: themeStage_def step_defs split: call.split prod.split option.split)

lemma themeStage_copy_fails:
  assumes "Theme (siteConfig s) \<noteq> ''''"
    and "ThemesCopy w (''themes/'' @ Theme (siteConfig s))
           (themeConfigAt (siteConfig s) (Theme (siteConfig s))) = Returns (d, Some e)"
  shows "themeStage w s =
           s\<lparr>tempBuildDir := d,
             trace := trace s @ [CallThemesCopy (''themes/'' @ Theme (siteConfig s))
                                   (themeConfigAt (siteConfig s) (Theme (siteConfig s))),
                                 LogFatal (Error e)],
             status := Exited (Error e)\<rparr>"
  using assms by (simp add: themeStage_def step_defs)

text \<open>
  C5. When the loaded configuration names a theme, \<^verbatim>\<open>build.ThemesCopy\<close> is called with
  the path \<^verbatim>\<open>themes/\<close> followed by the theme's name and with that theme's entry of
  \<^verbatim>\<open>ThemeConfig\<close>; every call of \<^verbatim>\<open>build.ThemesMerge\<close> in the run comes after that
  call; and when \<^verbatim>\<open>build.ThemesCopy\<close> returns an error, \<^verbatim>\<open>build.ThemesMerge\<close> is not
  called at all and the run ends in \<^verbatim>\<open>log.Fatal\<close> with that error.
\<close>

theorem theme_copy_runs_before_theme_merge:
  fixes w :: "('o::zero) World"
  assumes "GetSiteConfig w ''.'' = Returns (cfg, x)" and "Theme cfg \<noteq> ''''"
  shows "CallThemesCopy (''themes/'' @ Theme cfg) (themeConfigAt cfg (Theme cfg))
           \<in> set (trace (Build w fl))
    \<and> (\<forall>pre d b post. trace (Build w fl) = pre @ CallThemesMerge d b # post \<longrightarrow>
          CallThemesCopy (''themes/'' @ Theme cfg) (themeConfigAt cfg (Theme cfg)) \<in> set pre)
    \<and> (\<forall>d e. ThemesCopy w (''themes/'' @ Theme cfg) (themeConfigAt cfg (Theme cfg))
                 = Returns (d, Some e) \<longrightarrow>
          (\<forall>d' b. CallThemesMerge d' b \<notin> set (trace (Build w fl)))
          \<and> status (Build w fl) = Exited (Error e)
          \<and> last (trace (Build w fl)) = LogFatal (Error e))"
proof -
  let ?copy = "CallThemesCopy (''themes/'' @ Theme cfg) (themeConfigAt cfg (Theme cfg))"
  let ?sA = "runStages [loadSiteConfig w, resolveBuildDir fl] (flagChecks fl)"
  let ?rest = "[workspaceStage w, npmStage w, ejectStage w, assetsStage w, buildStage w fl,
                gopackStage w, cleanupStage w]"
  have sA: "?sA = (flagChecks fl)\<lparr>siteConfig := cfg, buildDir := setBuildDir fl cfg,
              trace := trace (flagChecks fl) @ [CallGetSiteConfig ''.'']\<rparr>"
    by (rule config_loaded [OF assms(1) flagChecks_simps(1)])
  have running: "status ?sA = Running" and cfgA: "siteConfig ?sA = cfg"
    and trA: "trace ?sA = [CallCheckVerboseFlag (VerboseFlag fl),
                CallCheckBenchmarkFlag (BenchmarkFlag fl), CallGetSiteConfig ''.'']"
    by (simp_all add: sA flagChecks_simps)
  have theme: "Theme (siteConfig ?sA) \<noteq> ''''"
    using assms(2) cfgA by simp
  have run: "Build w fl = deferred (runStages ?rest (themeStage w ?sA))"
    unfolding Build_def stages_at_theme runStages_append
    by (simp add: runStages_step [OF running] runStages.simps(1))
  obtain es where es: "trace (themeStage w ?sA) = trace ?sA @ ?copy # es"
    using themeStage_starts [OF theme, of w] cfgA by auto
  obtain es' where es': "trace (Build w fl) = trace (themeStage w ?sA) @ es'"
    unfolding run using rest_of_run [OF after_theme_emits] by blast
  have tr: "trace (Build w fl) = (trace ?sA @ [?copy]) @ (es @ es')"
    unfolding es' es by simp
  have called: "?copy \<in> set (trace (Build w fl))"
    unfolding tr by simp
  have before: "?copy \<in> set pre" if "trace (Build w fl) = pre @ CallThemesMerge d b # post"
    for pre d b post
  proof -
    have notin: "CallThemesMerge d b \<notin> set (trace ?sA @ [?copy])"
      by (simp add: trA)
    have eq: "(trace ?sA @ [?copy]) @ (es @ es') = pre @ CallThemesMerge d b # post"
      using that by (simp only: tr)
    obtain us where "pre = (trace ?sA @ [?copy]) @ us"
      using split_after_prefix [OF eq notin] by blast
    then show ?thesis by simp
  qed
  have fails: "(\<forall>d' b. CallThemesMerge d' b \<notin> set (trace (Build w fl)))
      \<and> status (Build w fl) = Exited (Error e)
      \<and> last (trace (Build w fl)) = LogFatal (Error e)"
    if "ThemesCopy w (''themes/'' @ Theme cfg) (themeConfigAt cfg (Theme cfg)) = Returns (d, Some e)"
    for d e
  proof -
    have sB: "themeStage w ?sA =
        ?sA\<lparr>tempBuildDir := d, trace := trace ?sA @ [?copy, LogFatal (Error e)],
             status := Exited (Error e)\<rparr>"
      using themeStage_copy_fails [OF theme, of w d e] that cfgA by simp
    have "Build w fl = themeStage w ?sA"
      unfolding run by (simp add: sB runStages_stop deferred_def)
    then show ?thesis
      by (simp add: sB trA)
  qed
  show ?thesis
    using called before fails by blast
qed


text \<open>
  The project with the theme \<^verbatim>\<open>mytheme\<close>: once with every callee succeeding, once with
  \<^verbatim>\<open>build.ThemesCopy\<close> returning an error.
\<close>

theorem theme_copy_runs_before_theme_merge_witness:
  "GetSiteConfig (quietWorld themedSite) ''.'' = Returns (themedSite, None)
   \<and> Theme themedSite \<noteq> []
   \<and> trace (Build (quietWorld themedSite) noFlags) =
       [CallCheckVerboseFlag False, CallCheckBenchmarkFlag False, CallGetSiteConfig ''.'',
        CallThemesCopy ''themes/mytheme'' 7]
       @ CallThemesMerge ''.plenti-tmp/'' ''public''
         # drop 5 (trace (Build (quietWorld themedSite) noFlags))
   \<and> CallThemesCopy ''themes/mytheme'' (7::nat)
       \<in> set [CallCheckVerboseFlag False, CallCheckBenchmarkFlag False, CallGetSiteConfig ''.'',
               CallThemesCopy ''themes/mytheme'' 7]
   \<and> ThemesCopy ((quietWorld themedSite)
          \<lparr>ThemesCopy := \<lambda>p themeOptions. Returns ([], Some permissionDenied)\<rparr>)
         ''themes/mytheme'' 7 = Returns ([], Some permissionDenied)
   \<and> status (Build ((quietWorld themedSite)
          \<lparr>ThemesCopy := \<lambda>p themeOptions. Returns ([], Some permissionDenied)\<rparr>) noFlags)
       = Exited ''permission denied''
   \<and> (\<forall>d b. CallThemesMerge d b \<notin> set (trace (Build ((quietWorld themedSite)
          \<lparr>ThemesCopy := \<lambda>p themeOptions. Returns ([], Some permissionDenied)\<rparr>) noFlags)))"
proof -
  let ?w1 = "quietWorld themedSite"
  let ?w2 = "(quietWorld themedSite)
               \<lparr>ThemesCopy := \<lambda>p themeOptions. Returns ([], Some permissionDenied)\<rparr>"
  have cfg1: "GetSiteConfig ?w1 ''.'' = Returns (themedSite, None)"
    and cfg2: "GetSiteConfig ?w2 ''.'' = Returns (themedSite, None)"
    by (simp_all add: GetSiteConfig_def quietWorld_def)
  have theme: "Theme themedSite \<noteq> []"
    and path: "''themes/'' @ Theme themedSite = ''themes/mytheme''"
    and opts: "themeConfigAt themedSite (Theme themedSite) = 7"
    by (simp_all add: themedSite_def themeConfigAt_def)
  have shape: "trace (Build ?w1 noFlags) =
       [CallCheckVerboseFlag False, CallCheckBenchmarkFlag False, CallGetSiteConfig ''.'',
        CallThemesCopy ''themes/mytheme'' 7]
       @ CallThemesMerge ''.plenti-tmp/'' ''public'' # drop 5 (trace (Build ?w1 noFlags))"
    by (simp add: eval_defs)
  have fails: "ThemesCopy ?w2 ''themes/mytheme'' 7 = Returns ([], Some permissionDenied)"
    by simp
  have before: "CallThemesCopy ''themes/mytheme'' (7::nat)
       \<in> set [CallCheckVerboseFlag False, CallCheckBenchmarkFlag False, CallGetSiteConfig ''.'',
               CallThemesCopy ''themes/mytheme'' 7]"
    using theme_copy_runs_before_theme_merge [OF cfg1 theme, of noFlags] shape
    unfolding path opts by blast
  have fatal: "(\<forall>d b. CallThemesMerge d b \<notin> set (trace (Build ?w2 noFlags)))
       \<and> status (Build ?w2 noFlags) = Exited (Error permissionDenied)"
    using theme_copy_runs_before_theme_merge [OF cfg2 theme, of noFlags] fails
    unfolding path opts by blast
  show ?thesis
    using cfg1 theme shape before fails fatal
    by (simp add: permissionDenied_def)
qed

subsection \<open>The build directory block\<close>

lemma workspaceStage_stat_fails:
  assumes "status s = Running" and "Stat w (filepath_Join [''.'', buildDir s]) = Some e"
  shows "\<exists>x. trace (workspaceStage w s) =
           trace s @ [CallStat (filepath_Join [''.'', buildDir s]),
                      CallMkdirAll (filepath_Join [''.'', buildDir s]) ModePerm, x]"
  using assms by (simp add: workspaceStage_def step_defs split: option.split)

lemma workspaceStage_remove_fails:
  assumes "status s = Running" and "Stat w (filepath_Join [''.'', buildDir s]) = None"
    and "RemoveAll w (filepath_Join [''.'', buildDir s]) = Some e"
  shows "workspaceStage w s =
         s\<lparr>buildPath := filepath_Join [''.'', buildDir s],
           trace := trace s @ [CallStat (filepath_Join [''.'', buildDir s]),
                               CallLog (removingMsg (filepath_Join [''.'', buildDir s])),
                               CallRemoveAll (filepath_Join [''.'', buildDir s]),
                               LogFatal (Error e)],
           status := Exited (Error e)\<rparr>"
  using assms by (simp add: workspaceStage_def step_defs)

lemma workspaceStage_removes:
  assumes "status s = Running" and "Stat w (filepath_Join [''.'', buildDir s]) = None"
    and "RemoveAll w (filepath_Join [''.'', buildDir s]) = None"
  shows "\<exists>x. trace (workspaceStage w s) =
           trace s @ [CallStat (filepath_Join [''.'', buildDir s]),
                      CallLog (removingMsg (filepath_Join [''.'', buildDir s])),
                      CallRemoveAll (filepath_Join [''.'', buildDir s]),
                      CallMkdirAll (filepath_Join [''.'', buildDir s]) ModePerm, x]"
  using assms by (simp add: workspaceStage_def step_defs split: option.split)

lemma workspaceStage_mkdir_fails:
  assumes "status s = Running"
    and "MkdirAll w (filepath_Join [''.'', buildDir s]) ModePerm = Some e"
    and "Stat w (filepath_Join [''.'', buildDir s]) \<noteq> None
         \<or> RemoveAll w (filepath_Join [''.'', buildDir s]) = None"
  shows "status (workspaceStage w s) = Exited (unableMsg (buildDir s) e)
    \<and> (\<exists>pre. trace (workspaceStage w s) =
           pre @ [CallMkdirAll (filepath_Join [''.'', buildDir s]) ModePerm,
                  LogFatal (unableMsg (buildDir s) e)])"
  using assms by (auto simp: workspaceStage_def step_defs split: option.split)

subsection \<open>The state after the first statements\<close>

lemma Build_from: "Build w fl = deferred (runStages (drop k (stages w fl)) (stateAfter k w fl))"
  unfolding Build_def stateAfter_def runStages_append [symmetric] by simp

lemma length_stages: "length (stages w fl) = 10"
  by (simp add: stages_def)

lemma stateAfter_Suc:
  assumes "k < 10"
  shows "stateAfter (Suc k) w fl =
           (if status (stateAfter k w fl) = Running then (stages w fl ! k) (stateAfter k w fl)
            else stateAfter k w fl)"
proof -
  have "take (Suc k) (stages w fl) = take k (stages w fl) @ [stages w fl ! k]"
    using assms by (simp add: take_Suc_conv_app_nth length_stages)
  then show ?thesis
    by (simp add: stateAfter_def runStages_append runStages.simps)
qed

lemma stage_emits:
  assumes "i < 10"
  shows "emitsOnly (\<lambda>e. origin e = Suc i \<or> origin e = 12) (stages w fl ! i)"
proof -
  have "i = 0 \<or> i = 1 \<or> i = 2 \<or> i = 3 \<or> i = 4 \<or> i = 5 \<or> i = 6 \<or> i = 7
      \<or> i = 8 \<or> i = 9"
    using assms by arith
  then show ?thesis
    by (elim disjE) (auto simp: stages_def intro: stage_emits_weaker)
qed

lemma early_stage_emits:
  assumes "f \<in> set (take k (stages w fl))"
  shows "emitsOnly (\<lambda>e. origin e \<le> k \<or> origin e = 12) f"
proof -
  obtain i where "i < k" "i < 10" "f = stages w fl ! i"
    using assms by (auto simp: in_set_conv_nth length_stages)
  then show ?thesis
    using stage_emits [of i w fl] by (auto intro: emitsOnly_mono)
qed

lemma late_stage_emits:
  assumes "f \<in> set (drop k (stages w fl))"
  shows "emitsOnly (\<lambda>e. k < origin e) f"
proof -
  obtain i where i: "i < 10 - k" "f = stages w fl ! (k + i)"
    using assms by (auto simp: in_set_conv_nth length_stages)
  then have "k + i < 10"
    by arith
  then show ?thesis
    using stage_emits [of "k + i" w fl] i(2) by (auto intro: emitsOnly_mono)
qed

lemma stateAfter_origins:
  assumes "e \<in> set (trace (stateAfter k w fl))"
  shows "origin e \<le> k \<or> origin e = 12"
proof -
  have "emitsOnly (\<lambda>e. origin e \<le> k \<or> origin e = 12) (runStages (take k (stages w fl)))"
    by (rule emitsOnly_runStages) (rule early_stage_emits)
  then obtain es where "trace (stateAfter k w fl) = trace (flagChecks fl) @ es"
    and "\<forall>e \<in> set es. origin e \<le> k \<or> origin e = 12"
    unfolding stateAfter_def by (rule emitsOnlyD)
  then show ?thesis
    using assms by (auto simp: flagChecks_simps)
qed

lemma Build_continues:
  assumes "k \<le> 10"
  obtains es where "trace (Build w fl) = trace (stateAfter k w fl) @ es"
    and "\<forall>e \<in> set es. k < origin e"
proof -
  have "emitsOnly (\<lambda>e. k < origin e) (runStages (drop k (stages w fl)))"
    by (rule emitsOnly_runStages) (rule late_stage_emits)
  then obtain es where "trace (Build w fl) = trace (stateAfter k w fl) @ es"
    and "\<forall>e \<in> set es. k < origin e \<or> origin e = 11"
    unfolding Build_from [of w fl k] by (rule rest_of_run)
  then show thesis
    using assms by (intro that [of es]) auto
qed

lemma Build_stopped:
  assumes "status (stateAfter k w fl) \<noteq> Running"
  shows "Build w fl = deferred (stateAfter k w fl)"
  using assms by (simp add: Build_from [of w fl k] runStages_stop)

lemma stateAfter_stopped:
  assumes "status (stateAfter k w fl) \<noteq> Running" and "k \<le> j"
  shows "stateAfter j w fl = stateAfter k w fl"
proof -
  have "take j (stages w fl) = take k (stages w fl) @ drop k (take j (stages w fl))"
    using assms(2) by (metis append_take_drop_id min.absorb2 take_take min.commute)
  then have "stateAfter j w fl =
      runStages (drop k (take j (stages w fl))) (stateAfter k w fl)"
    unfolding stateAfter_def by (metis runStages_append)
  then show ?thesis
    using assms(1) by (simp add: runStages_stop)
qed


lemma kept_from:
  assumes "\<And>f s. f \<in> set (drop k (stages w fl)) \<Longrightarrow> fld (f s) = fld s"
    and "\<And>s. fld (deferred s) = fld s"
  shows "fld (Build w fl) = fld (stateAfter k w fl)"
proof -
  have "fld (runStages (drop k (stages w fl)) (stateAfter k w fl)) = fld (stateAfter k w fl)"
    by (rule runStages_invariant [where P = "\<lambda>t. fld t = fld (stateAfter k w fl)"])
       (simp_all add: assms(1))
  then show ?thesis
    by (simp add: Build_from [of w fl k] assms(2))
qed

lemma buildDir_kept: "buildDir (Build w fl) = buildDir (stateAfter 3 w fl)"
  by (rule kept_from)
     (auto simp: stages_def workspaceStage_keeps npmStage_keeps ejectStage_keeps
        assetsStage_keeps buildStage_keeps gopackStage_keeps cleanupStage_keeps deferred_keeps)

lemma stateAfter_workspace:
  "stateAfter 4 w fl =
     (if status (stateAfter 3 w fl) = Running then workspaceStage w (stateAfter 3 w fl)
      else stateAfter 3 w fl)"
  using stateAfter_Suc [of 3 w fl] by (simp add: stages_def eval_nat_numeral)

lemma workspaceStage_trace:
  assumes "status s = Running"
  shows "\<exists>es. trace (workspaceStage w s) = trace s @ CallStat (filepath_Join [''.'', buildDir s]) # es
           \<and> (\<forall>q. CallStat q \<notin> set es)
           \<and> (\<forall>q. CallRemoveAll q \<in> set es \<longrightarrow>
                  q = filepath_Join [''.'', buildDir s] \<and> Stat w q = None)"
  using assms by (auto simp: workspaceStage_def step_defs split: option.split)

lemma stat_called:
  assumes "CallStat p \<in> set (trace (Build w fl))"
  shows "status (stateAfter 3 w fl) = Running"
    and "p = filepath_Join [''.'', buildDir (stateAfter 3 w fl)]"
proof -
  obtain es where es: "trace (Build w fl) = trace (stateAfter 4 w fl) @ es"
    "\<forall>e \<in> set es. 4 < origin e"
    by (rule Build_continues [of 4 w fl]) simp
  have in4: "CallStat p \<in> set (trace (stateAfter 4 w fl))"
    using assms es by auto
  have notin3: "CallStat p \<notin> set (trace (stateAfter 3 w fl))"
    using stateAfter_origins [of "CallStat p" 3 w fl] by auto
  show running: "status (stateAfter 3 w fl) = Running"
    using in4 notin3 by (auto simp: stateAfter_workspace split: if_splits)
  obtain es' where "trace (workspaceStage w (stateAfter 3 w fl)) =
      trace (stateAfter 3 w fl) @ CallStat (filepath_Join [''.'', buildDir (stateAfter 3 w fl)]) # es'"
    and "\<forall>q. CallStat q \<notin> set es'"
    using workspaceStage_trace [OF running, of w] by blast
  then show "p = filepath_Join [''.'', buildDir (stateAfter 3 w fl)]"
    using in4 notin3 running by (auto simp: stateAfter_workspace)
qed

lemma removeAll_called:
  assumes "CallRemoveAll q \<in> set (trace (Build w fl))"
  shows "Stat w q = None \<and> q = filepath_Join [''.'', buildDir (stateAfter 3 w fl)]"
proof -
  obtain es where es: "trace (Build w fl) = trace (stateAfter 4 w fl) @ es"
    "\<forall>e \<in> set es. 4 < origin e"
    by (rule Build_continues [of 4 w fl]) simp
  have in4: "CallRemoveAll q \<in> set (trace (stateAfter 4 w fl))"
    using assms es by auto
  have notin3: "CallRemoveAll q \<notin> set (trace (stateAfter 3 w fl))"
    using stateAfter_origins [of "CallRemoveAll q" 3 w fl] by auto
  have running: "status (stateAfter 3 w fl) = Running"
    using in4 notin3 by (auto simp: stateAfter_workspace split: if_splits)
  show ?thesis
    using workspaceStage_trace [OF running, of w] in4 notin3 running
    by (auto simp: stateAfter_workspace)
qed

lemma stateAfter_exited:
  assumes "status (stateAfter k w fl) = Exited m"
  shows "Build w fl = stateAfter k w fl"
  using assms Build_stopped [of k w fl] by (simp add: deferred_def)

text \<open>
  C10. The old build directory is removed only in the branch where \<^verbatim>\<open>os.Stat\<close> returned a
  nil error. When \<^verbatim>\<open>os.Stat\<close> on the build path returns an error of any kind, not found or
  not, no \<^verbatim>\<open>os.RemoveAll\<close> is called in the run and the call that follows
  \<^verbatim>\<open>os.Stat\<close> directly is \<^verbatim>\<open>os.MkdirAll\<close> on the same path; and a call of
  \<^verbatim>\<open>os.RemoveAll\<close> is only ever made on a path for which \<^verbatim>\<open>os.Stat\<close> succeeded.
\<close>

theorem removal_skipped_on_any_stat_error:
  fixes w :: "('o::zero) World"
  shows "(\<forall>p e. CallStat p \<in> set (trace (Build w fl)) \<and> Stat w p = Some e \<longrightarrow>
            (\<forall>q. CallRemoveAll q \<notin> set (trace (Build w fl)))
            \<and> (\<exists>pre post. trace (Build w fl) =
                   pre @ [CallStat p, CallMkdirAll p ModePerm] @ post))
       \<and> (\<forall>q. CallRemoveAll q \<in> set (trace (Build w fl)) \<longrightarrow> Stat w q = None)"
proof -
  have only: "Stat w q = None" if "CallRemoveAll q \<in> set (trace (Build w fl))" for q
    using removeAll_called [OF that] by blast
  have skipped: "(\<forall>q. CallRemoveAll q \<notin> set (trace (Build w fl)))
      \<and> (\<exists>pre post. trace (Build w fl) = pre @ [CallStat p, CallMkdirAll p ModePerm] @ post)"
    if a: "CallStat p \<in> set (trace (Build w fl))" "Stat w p = Some e" for p e
  proof -
    let ?s3 = "stateAfter 3 w fl"
    have running: "status ?s3 = Running" and p: "p = filepath_Join [''.'', buildDir ?s3]"
      using stat_called [OF a(1)] by simp_all
    have stat: "Stat w (filepath_Join [''.'', buildDir ?s3]) = Some e"
      using a(2) p by simp
    obtain x where s4: "trace (stateAfter 4 w fl) =
        trace ?s3 @ [CallStat p, CallMkdirAll p ModePerm, x]"
      using workspaceStage_stat_fails [OF running stat] running p
      by (auto simp: stateAfter_workspace)
    obtain es where es: "trace (Build w fl) = trace (stateAfter 4 w fl) @ es"
      by (rule Build_continues [of 4 w fl]) simp
    have "trace (Build w fl) = trace ?s3 @ [CallStat p, CallMkdirAll p ModePerm] @ (x # es)"
      by (simp add: es s4)
    then have "\<exists>pre post. trace (Build w fl) = pre @ [CallStat p, CallMkdirAll p ModePerm] @ post"
      by blast
    moreover have "CallRemoveAll q \<notin> set (trace (Build w fl))" for q
      using removeAll_called [of q w fl] p a(2) by auto
    ultimately show ?thesis
      by blast
  qed
  show ?thesis
    using only skipped by blast
qed


text \<open>
  A run in which \<^verbatim>\<open>os.Stat\<close> is denied on an existing \<^verbatim>\<open>public\<close>: nothing is removed
  and the run completes. And the run in which \<^verbatim>\<open>os.Stat\<close> succeeds, where the removal
  is made.
\<close>

theorem removal_skipped_on_any_stat_error_witness:
  "PathExists deniedOnStat ''public''
   \<and> statTruthful deniedOnStat ''public''
   \<and> CallStat ''public'' \<in> set (trace (Build deniedOnStat noFlags))
   \<and> Stat deniedOnStat ''public'' = Some permissionDenied
   \<and> kind permissionDenied = Permission
   \<and> (\<forall>q. CallRemoveAll q \<notin> set (trace (Build deniedOnStat noFlags)))
   \<and> status (Build deniedOnStat noFlags) = Completed
   \<and> CallRemoveAll ''public'' \<in> set (trace (Build (quietWorld plainSite) noFlags))
   \<and> Stat (quietWorld plainSite) ''public'' = None"
proof -
  have called: "CallStat ''public'' \<in> set (trace (Build deniedOnStat noFlags))"
    and completed: "status (Build deniedOnStat noFlags) = Completed"
    and removed: "CallRemoveAll ''public'' \<in> set (trace (Build (quietWorld plainSite) noFlags))"
    by (simp_all add: eval_defs)
  have denied: "Stat deniedOnStat ''public'' = Some permissionDenied"
    and there: "PathExists deniedOnStat ''public''"
    and truthful: "statTruthful deniedOnStat ''public''"
    and perm: "kind permissionDenied = Permission"
    by (simp_all add: deniedOnStat_def quietWorld_def permissionDenied_def statTruthful_def)
  have none: "\<forall>q. CallRemoveAll q \<notin> set (trace (Build deniedOnStat noFlags))"
    using removal_skipped_on_any_stat_error [of deniedOnStat noFlags] called denied by blast
  have ok: "Stat (quietWorld plainSite) ''public'' = None"
    using removal_skipped_on_any_stat_error [of "quietWorld plainSite" noFlags] removed by blast
  show ?thesis
    using called completed removed denied there truthful perm none ok by blast
qed

lemma stat_error_skips_removal:
  fixes w :: "('o::zero) World"
  assumes "CallStat p \<in> set (trace (Build w fl))" and "Stat w p = Some e"
  shows "\<forall>q. CallRemoveAll q \<notin> set (trace (Build w fl))"
    and "\<exists>pre post. trace (Build w fl) = pre @ [CallStat p, CallMkdirAll p ModePerm] @ post"
proof -
  let ?s3 = "stateAfter 3 w fl"
  have running: "status ?s3 = Running" and p: "p = filepath_Join [''.'', buildDir ?s3]"
    using stat_called [OF assms(1)] by simp_all
  have stat: "Stat w (filepath_Join [''.'', buildDir ?s3]) = Some e"
    using assms(2) p by simp
  obtain x where s4: "trace (stateAfter 4 w fl) =
      trace ?s3 @ [CallStat p, CallMkdirAll p ModePerm, x]"
    using workspaceStage_stat_fails [OF running stat] running p
    by (auto simp: stateAfter_workspace)
  obtain es where es: "trace (Build w fl) = trace (stateAfter 4 w fl) @ es"
    by (rule Build_continues [of 4 w fl]) simp
  have "trace (Build w fl) = trace ?s3 @ [CallStat p, CallMkdirAll p ModePerm] @ (x # es)"
    by (simp add: es s4)
  then show "\<exists>pre post. trace (Build w fl) = pre @ [CallStat p, CallMkdirAll p ModePerm] @ post"
    by blast
  show "\<forall>q. CallRemoveAll q \<notin> set (trace (Build w fl))"
    using removeAll_called [of _ w fl] p assms(2) by auto
qed

lemma workspaceStage_created:
  assumes "status s = Running"
    and "MkdirAll w (filepath_Join [''.'', buildDir s]) ModePerm = None"
    and "Stat w (filepath_Join [''.'', buildDir s]) \<noteq> None
         \<or> RemoveAll w (filepath_Join [''.'', buildDir s]) = None"
  shows "status (workspaceStage w s) = Running
    \<and> (\<exists>pre. trace (workspaceStage w s) =
           pre @ [CallMkdirAll (filepath_Join [''.'', buildDir s]) ModePerm,
                  CallLog (creatingMsg (buildDir s))])"
  using assms by (auto simp: workspaceStage_def step_defs split: option.split)

text \<open>
  C4, as the specification words it, fails: a build directory that exists is not removed
  when \<^verbatim>\<open>os.Stat\<close> fails on it for a reason other than its absence. Here \<^verbatim>\<open>public\<close>
  exists in a directory that may not be searched: \<^verbatim>\<open>os.Stat\<close> is denied,
  \<^verbatim>\<open>os.RemoveAll\<close> is not called, \<^verbatim>\<open>os.MkdirAll\<close> is called and denied, and the run
  ends in \<^verbatim>\<open>log.Fatalf\<close>. This is the whole trace of the run.
\<close>

theorem existing_directory_not_removed_counterexample:
  "PathExists deniedInParent ''public''
   \<and> statTruthful deniedInParent ''public''
   \<and> buildPath (Build deniedInParent noFlags) = ''public''
   \<and> CallRemoveAll ''public'' \<notin> set (trace (Build deniedInParent noFlags))
   \<and> trace (Build deniedInParent noFlags) =
       [CallCheckVerboseFlag False, CallCheckBenchmarkFlag False, CallGetSiteConfig ''.'',
        CallStat ''public'', CallMkdirAll ''public'' ModePerm,
        LogFatal (unableMsg ''public'' (GoError Permission ''mkdir public: permission denied''))]
   \<and> status (Build deniedInParent noFlags)
       = Exited (unableMsg ''public'' (GoError Permission ''mkdir public: permission denied''))"
  by (simp add: eval_defs statTruthful_def)

lemma workspace_entered:
  assumes "status (stateAfter 3 w fl) = Running"
  shows "CallStat (filepath_Join [''.'', buildDir (Build w fl)]) \<in> set (trace (Build w fl))"
proof -
  obtain es where "trace (Build w fl) = trace (stateAfter 4 w fl) @ es"
    by (rule Build_continues [of 4 w fl]) simp
  then show ?thesis
    using workspaceStage_trace [OF assms, of w] assms
    by (auto simp: stateAfter_workspace buildDir_kept)
qed

text \<open>
  C4, amended. When the run reaches the build directory block, \<^verbatim>\<open>os.Stat\<close> is called on
  the resolved build path, and the branch is chosen by the error of that call, not by the
  existence of the path. If \<^verbatim>\<open>os.Stat\<close> returns a nil error, \<^verbatim>\<open>os.RemoveAll\<close> is
  called on the path: when it succeeds \<^verbatim>\<open>os.MkdirAll\<close> follows it directly, and when it
  fails the run ends there in \<^verbatim>\<open>log.Fatal\<close> with its error. If \<^verbatim>\<open>os.Stat\<close> returns an
  error, of any kind, the removal is skipped: no \<^verbatim>\<open>os.RemoveAll\<close> is called in the run,
  and \<^verbatim>\<open>os.MkdirAll\<close> on the path follows \<^verbatim>\<open>os.Stat\<close> directly. Whenever
  \<^verbatim>\<open>os.MkdirAll\<close> is reached and fails, the run ends there in \<^verbatim>\<open>log.Fatalf\<close> with the
  message naming the build directory and the error; when it succeeds the creation is
  logged and the run goes on to the next statement.
\<close>

theorem old_directory_removed_when_stat_succeeds:
  fixes w :: "('o::zero) World"
  shows
    "(status (stateAfter 3 w fl) = Running \<longrightarrow>
        CallStat (filepath_Join [''.'', buildDir (Build w fl)]) \<in> set (trace (Build w fl)))
     \<and> (\<forall>p. CallStat p \<in> set (trace (Build w fl)) \<longrightarrow>
          p = filepath_Join [''.'', buildDir (Build w fl)]
          \<and> (Stat w p = None \<and> RemoveAll w p = None \<longrightarrow>
               (\<exists>pre post. trace (Build w fl) =
                  pre @ [CallStat p, CallLog (removingMsg p), CallRemoveAll p,
                         CallMkdirAll p ModePerm] @ post))
          \<and> (\<forall>e. Stat w p = None \<and> RemoveAll w p = Some e \<longrightarrow>
               status (Build w fl) = Exited (Error e)
               \<and> (\<exists>pre. trace (Build w fl) =
                     pre @ [CallStat p, CallLog (removingMsg p), CallRemoveAll p,
                            LogFatal (Error e)]))
          \<and> (\<forall>e. (Stat w p \<noteq> None \<or> RemoveAll w p = None)
                    \<and> MkdirAll w p ModePerm = Some e \<longrightarrow>
               status (Build w fl) = Exited (unableMsg (buildDir (Build w fl)) e)
               \<and> (\<exists>pre. trace (Build w fl) =
                     pre @ [CallMkdirAll p ModePerm,
                            LogFatal (unableMsg (buildDir (Build w fl)) e)]))
          \<and> (\<forall>e. Stat w p = Some e \<longrightarrow>
               (\<forall>q. CallRemoveAll q \<notin> set (trace (Build w fl)))
               \<and> (\<exists>pre post. trace (Build w fl) =
                     pre @ [CallStat p, CallMkdirAll p ModePerm] @ post))
          \<and> ((Stat w p \<noteq> None \<or> RemoveAll w p = None)
                \<and> MkdirAll w p ModePerm = None \<longrightarrow>
               status (stateAfter 4 w fl) = Running
               \<and> (\<exists>pre post. trace (Build w fl) =
                     pre @ [CallMkdirAll p ModePerm,
                            CallLog (creatingMsg (buildDir (Build w fl)))] @ post)))
     \<and> (\<forall>q. CallRemoveAll q \<in> set (trace (Build w fl)) \<longrightarrow>
          Stat w q = None \<and> q = filepath_Join [''.'', buildDir (Build w fl)])"
proof -
  let ?s3 = "stateAfter 3 w fl"
  let ?s4 = "stateAfter 4 w fl"
  let ?T = "trace (Build w fl)"
  have block: "p = filepath_Join [''.'', buildDir (Build w fl)]
      \<and> (Stat w p = None \<and> RemoveAll w p = None \<longrightarrow>
           (\<exists>pre post. ?T = pre @ [CallStat p, CallLog (removingMsg p), CallRemoveAll p,
                                    CallMkdirAll p ModePerm] @ post))
      \<and> (\<forall>e. Stat w p = None \<and> RemoveAll w p = Some e \<longrightarrow>
           status (Build w fl) = Exited (Error e)
           \<and> (\<exists>pre. ?T = pre @ [CallStat p, CallLog (removingMsg p), CallRemoveAll p,
                                 LogFatal (Error e)]))
      \<and> (\<forall>e. (Stat w p \<noteq> None \<or> RemoveAll w p = None) \<and> MkdirAll w p ModePerm = Some e \<longrightarrow>
           status (Build w fl) = Exited (unableMsg (buildDir (Build w fl)) e)
           \<and> (\<exists>pre. ?T = pre @ [CallMkdirAll p ModePerm,
                                 LogFatal (unableMsg (buildDir (Build w fl)) e)]))
      \<and> (\<forall>e. Stat w p = Some e \<longrightarrow>
           (\<forall>q. CallRemoveAll q \<notin> set ?T)
           \<and> (\<exists>pre post. ?T = pre @ [CallStat p, CallMkdirAll p ModePerm] @ post))
      \<and> ((Stat w p \<noteq> None \<or> RemoveAll w p = None) \<and> MkdirAll w p ModePerm = None \<longrightarrow>
           status ?s4 = Running
           \<and> (\<exists>pre post. ?T = pre @ [CallMkdirAll p ModePerm,
                                      CallLog (creatingMsg (buildDir (Build w fl)))] @ post))"
    if called: "CallStat p \<in> set ?T" for p
  proof -
    have running: "status ?s3 = Running" and p: "p = filepath_Join [''.'', buildDir ?s3]"
      using stat_called [OF called] by simp_all
    have s4: "?s4 = workspaceStage w ?s3"
      using running by (simp add: stateAfter_workspace)
    obtain es where es: "?T = trace ?s4 @ es"
      by (rule Build_continues [of 4 w fl]) simp
    have removes: "\<exists>pre post. ?T = pre @ [CallStat p, CallLog (removingMsg p), CallRemoveAll p,
                                    CallMkdirAll p ModePerm] @ post"
      if st: "Stat w p = None" "RemoveAll w p = None"
    proof -
      obtain x where "trace ?s4 = trace ?s3 @ [CallStat p, CallLog (removingMsg p),
          CallRemoveAll p, CallMkdirAll p ModePerm, x]"
        using workspaceStage_removes [OF running, of w] st unfolding s4 p by blast
      then have "?T = trace ?s3 @ [CallStat p, CallLog (removingMsg p), CallRemoveAll p,
          CallMkdirAll p ModePerm] @ (x # es)"
        by (simp add: es)
      then show ?thesis by blast
    qed
    have remove_fails: "status (Build w fl) = Exited (Error e)
        \<and> (\<exists>pre. ?T = pre @ [CallStat p, CallLog (removingMsg p), CallRemoveAll p,
                              LogFatal (Error e)])"
      if "Stat w p = None" "RemoveAll w p = Some e" for e
    proof -
      have explicit: "?s4 = ?s3\<lparr>buildPath := p,
          trace := trace ?s3 @ [CallStat p, CallLog (removingMsg p), CallRemoveAll p,
                                LogFatal (Error e)],
          status := Exited (Error e)\<rparr>"
        using workspaceStage_remove_fails [OF running, of w e] that unfolding s4 p by blast
      then have "status ?s4 = Exited (Error e)"
        by simp
      then have "Build w fl = ?s4"
        by (rule stateAfter_exited)
      then show ?thesis
        using explicit by simp
    qed
    have mkdir_fails: "status (Build w fl) = Exited (unableMsg (buildDir (Build w fl)) e)
        \<and> (\<exists>pre. ?T = pre @ [CallMkdirAll p ModePerm,
                              LogFatal (unableMsg (buildDir (Build w fl)) e)])"
      if "Stat w p \<noteq> None \<or> RemoveAll w p = None" "MkdirAll w p ModePerm = Some e" for e
    proof -
      have exited: "status ?s4 = Exited (unableMsg (buildDir ?s3) e)"
        and ends: "\<exists>pre. trace ?s4 = pre @ [CallMkdirAll p ModePerm,
                                            LogFatal (unableMsg (buildDir ?s3) e)]"
        using workspaceStage_mkdir_fails [OF running, of w e] that unfolding s4 p by blast+
      have same_dir: "buildDir ?s4 = buildDir ?s3"
        by (simp add: s4 workspaceStage_keeps)
      have "Build w fl = ?s4"
        using exited by (rule stateAfter_exited)
      then show ?thesis
        using exited ends by (simp add: same_dir)
    qed
    have skipped: "(\<forall>q. CallRemoveAll q \<notin> set ?T)
        \<and> (\<exists>pre post. ?T = pre @ [CallStat p, CallMkdirAll p ModePerm] @ post)"
      if "Stat w p = Some e" for e
      using stat_error_skips_removal [OF called that] by blast
    have created: "status ?s4 = Running
        \<and> (\<exists>pre post. ?T = pre @ [CallMkdirAll p ModePerm,
                                   CallLog (creatingMsg (buildDir (Build w fl)))] @ post)"
      if "Stat w p \<noteq> None \<or> RemoveAll w p = None" "MkdirAll w p ModePerm = None"
    proof -
      have goes_on: "status ?s4 = Running"
        and "\<exists>pre. trace ?s4 = pre @ [CallMkdirAll p ModePerm, CallLog (creatingMsg (buildDir ?s3))]"
        using workspaceStage_created [OF running, of w] that unfolding s4 p by blast+
      then obtain pre where
        "?T = pre @ [CallMkdirAll p ModePerm, CallLog (creatingMsg (buildDir ?s3))] @ es"
        using es by auto
      then show ?thesis
        using goes_on unfolding buildDir_kept by blast
    qed
    show ?thesis
      using p removes remove_fails mkdir_fails skipped created by (simp add: buildDir_kept)
  qed
  have only: "Stat w q = None \<and> q = filepath_Join [''.'', buildDir (Build w fl)]"
    if "CallRemoveAll q \<in> set ?T" for q
    using removeAll_called [OF that] unfolding buildDir_kept by blast
  show ?thesis
    using workspace_entered [of w fl] block only by blast
qed

text \<open>
  Four runs on the project without a theme: every callee succeeds; \<^verbatim>\<open>os.RemoveAll\<close>
  is denied; \<^verbatim>\<open>os.MkdirAll\<close> is denied; \<^verbatim>\<open>os.Stat\<close> reports that \<^verbatim>\<open>public\<close> does not
  exist.
\<close>

theorem old_directory_removed_when_stat_succeeds_witness:
  "status (stateAfter 3 (quietWorld plainSite) noFlags) = Running
   \<and> CallStat ''public'' \<in> set (trace (Build (quietWorld plainSite) noFlags))
   \<and> Stat (quietWorld plainSite) ''public'' = None
   \<and> RemoveAll (quietWorld plainSite) ''public'' = None
   \<and> MkdirAll (quietWorld plainSite) ''public'' ModePerm = None
   \<and> (\<exists>pre post. trace (Build (quietWorld plainSite) noFlags) =
          pre @ [CallStat ''public'', CallLog (removingMsg ''public''), CallRemoveAll ''public'',
                 CallMkdirAll ''public'' ModePerm] @ post)
   \<and> status (stateAfter 4 (quietWorld plainSite) noFlags) = Running
   \<and> CallRemoveAll ''public'' \<in> set (trace (Build (quietWorld plainSite) noFlags))
   \<and> CallStat ''public''
       \<in> set (trace (Build ((quietWorld plainSite)\<lparr>RemoveAll := \<lambda>p. Some permissionDenied\<rparr>) noFlags))
   \<and> RemoveAll ((quietWorld plainSite)\<lparr>RemoveAll := \<lambda>p. Some permissionDenied\<rparr>) ''public''
       = Some permissionDenied
   \<and> status (Build ((quietWorld plainSite)\<lparr>RemoveAll := \<lambda>p. Some permissionDenied\<rparr>) noFlags)
       = Exited ''permission denied''
   \<and> CallStat ''public''
       \<in> set (trace (Build ((quietWorld plainSite)\<lparr>MkdirAll := \<lambda>p m. Some permissionDenied\<rparr>) noFlags))
   \<and> MkdirAll ((quietWorld plainSite)\<lparr>MkdirAll := \<lambda>p m. Some permissionDenied\<rparr>) ''public'' ModePerm
       = Some permissionDenied
   \<and> status (Build ((quietWorld plainSite)\<lparr>MkdirAll := \<lambda>p m. Some permissionDenied\<rparr>) noFlags)
       = Exited (unableMsg ''public'' permissionDenied)
   \<and> CallStat ''public''
       \<in> set (trace (Build ((quietWorld plainSite)
             \<lparr>PathExists := \<lambda>p. False,
              Stat := \<lambda>p. Some (GoError NotExist ''no such file or directory'')\<rparr>) noFlags))
   \<and> Stat ((quietWorld plainSite)
         \<lparr>PathExists := \<lambda>p. False,
          Stat := \<lambda>p. Some (GoError NotExist ''no such file or directory'')\<rparr>) ''public''
       = Some (GoError NotExist ''no such file or directory'')
   \<and> (\<forall>q. CallRemoveAll q
         \<notin> set (trace (Build ((quietWorld plainSite)
             \<lparr>PathExists := \<lambda>p. False,
              Stat := \<lambda>p. Some (GoError NotExist ''no such file or directory'')\<rparr>) noFlags)))
   \<and> (\<exists>pre post. trace (Build ((quietWorld plainSite)
             \<lparr>PathExists := \<lambda>p. False,
              Stat := \<lambda>p. Some (GoError NotExist ''no such file or directory'')\<rparr>) noFlags) =
          pre @ [CallStat ''public'', CallMkdirAll ''public'' ModePerm] @ post)"
proof -
  let ?q = "quietWorld plainSite"
  let ?r = "(quietWorld plainSite)\<lparr>RemoveAll := \<lambda>p. Some permissionDenied\<rparr>"
  let ?m = "(quietWorld plainSite)\<lparr>MkdirAll := \<lambda>p m. Some permissionDenied\<rparr>"
  let ?a = "(quietWorld plainSite)
             \<lparr>PathExists := \<lambda>p. False,
              Stat := \<lambda>p. Some (GoError NotExist ''no such file or directory'')\<rparr>"
  have reached: "status (stateAfter 3 ?q noFlags) = Running"
    by (simp add: stateAfter_def eval_defs)
  have q: "CallStat ''public'' \<in> set (trace (Build ?q noFlags))"
    and r: "CallStat ''public'' \<in> set (trace (Build ?r noFlags))"
    and m: "CallStat ''public'' \<in> set (trace (Build ?m noFlags))"
    and a: "CallStat ''public'' \<in> set (trace (Build ?a noFlags))"
    and rm: "CallRemoveAll ''public'' \<in> set (trace (Build ?q noFlags))"
    and dir: "buildDir (Build ?m noFlags) = ''public''"
    by (simp_all add: eval_defs)
  have stat: "Stat ?q ''public'' = None" "Stat ?r ''public'' = None" "Stat ?m ''public'' = None"
    and remove: "RemoveAll ?q ''public'' = None" "RemoveAll ?m ''public'' = None"
    and mkdir: "MkdirAll ?q ''public'' ModePerm = None"
    and remove_denied: "RemoveAll ?r ''public'' = Some permissionDenied"
    and mkdir_denied: "MkdirAll ?m ''public'' ModePerm = Some permissionDenied"
    and absent: "Stat ?a ''public'' = Some (GoError NotExist ''no such file or directory'')"
    by (simp_all add: quietWorld_def)
  have removed: "\<exists>pre post. trace (Build ?q noFlags) =
          pre @ [CallStat ''public'', CallLog (removingMsg ''public''), CallRemoveAll ''public'',
                 CallMkdirAll ''public'' ModePerm] @ post"
    using old_directory_removed_when_stat_succeeds [of ?q noFlags] q stat(1) remove(1)
    by blast
  have goes_on: "status (stateAfter 4 ?q noFlags) = Running"
    using old_directory_removed_when_stat_succeeds [of ?q noFlags] q remove(1) mkdir
    by blast
  have fatal_remove: "status (Build ?r noFlags) = Exited (Error permissionDenied)"
    using old_directory_removed_when_stat_succeeds [of ?r noFlags] r stat(2) remove_denied
    by blast
  have fatal_mkdir: "status (Build ?m noFlags)
      = Exited (unableMsg (buildDir (Build ?m noFlags)) permissionDenied)"
    using old_directory_removed_when_stat_succeeds [of ?m noFlags] m remove(2) mkdir_denied
    by blast
  have skipped: "\<forall>q. CallRemoveAll q \<notin> set (trace (Build ?a noFlags))"
    "\<exists>pre post. trace (Build ?a noFlags) =
          pre @ [CallStat ''public'', CallMkdirAll ''public'' ModePerm] @ post"
    using old_directory_removed_when_stat_succeeds [of ?a noFlags] a absent
    by blast+
  show ?thesis
    using reached q stat(1) remove(1) mkdir removed goes_on rm r remove_denied fatal_remove
      m mkdir_denied fatal_mkdir dir a absent skipped
    by (simp add: permissionDenied_def)
qed

subsection \<open>The build proper\<close>

lemma strategy_call_origin: "isNodeCall e \<or> isCoreCall e \<Longrightarrow> origin e = 8"
  by (cases e) simp_all

lemma buildStage_node:
  assumes "NodeJSFlag fl"
  shows "emitsOnly (\<lambda>e. \<not> isCoreCall e) (buildStage w fl)"
  using assms
  by (intro emitsOnlyI)
     (simp add: buildStage_def nodeBuild_def step_defs split: call.split prod.split option.split)

lemma buildStage_core:
  assumes "\<not> NodeJSFlag fl"
  shows "emitsOnly (\<lambda>e. \<not> isNodeCall e) (buildStage w fl)"
  using assms
  by (intro emitsOnlyI)
     (simp add: buildStage_def coreBuild_def step_defs split: call.split option.split)

lemma other_stages_emit_no_strategy_call:
  assumes "f \<in> set (stages w fl)" and "f \<noteq> buildStage w fl"
  shows "emitsOnly (\<lambda>e. origin e \<noteq> 8) f"
proof -
  obtain i where i: "i < 10" "f = stages w fl ! i"
    using assms(1) by (auto simp: in_set_conv_nth length_stages)
  have "i \<noteq> 7"
    using assms(2) i(2) by (auto simp: stages_def)
  then show ?thesis
    using stage_emits [OF i(1), of w fl] i(2) by (auto intro: emitsOnly_mono)
qed

lemma whole_run:
  assumes "\<And>f. f \<in> set (stages w fl) \<Longrightarrow> emitsOnly A f"
    and "\<And>e. origin e \<noteq> 8 \<Longrightarrow> A e"
  shows "\<forall>e \<in> set (trace (Build w fl)). A e"
proof -
  have "emitsOnly A (runStages (stages w fl))"
    using assms(1) by (rule emitsOnly_runStages)
  then obtain es where "trace (Build w fl) = trace (flagChecks fl) @ es"
    and "\<forall>e \<in> set es. A e \<or> origin e = 11"
    unfolding Build_def by (rule rest_of_run)
  then show ?thesis
    using assms(2) by (auto simp: flagChecks_simps)
qed

lemma node_run_has_no_core_call:
  assumes "NodeJSFlag fl"
  shows "\<forall>e \<in> set (trace (Build w fl)). \<not> isCoreCall e"
proof (rule whole_run)
  fix f
  assume "f \<in> set (stages w fl)"
  then show "emitsOnly (\<lambda>e. \<not> isCoreCall e) f"
    using buildStage_node [OF assms, of w] other_stages_emit_no_strategy_call [of f w fl]
      strategy_call_origin
    by (cases "f = buildStage w fl") (auto intro: emitsOnly_mono)
next
  fix e :: "'a event"
  assume "origin e \<noteq> 8"
  then show "\<not> isCoreCall e"
    using strategy_call_origin by blast
qed

lemma core_run_has_no_node_call:
  assumes "\<not> NodeJSFlag fl"
  shows "\<forall>e \<in> set (trace (Build w fl)). \<not> isNodeCall e"
proof (rule whole_run)
  fix f
  assume "f \<in> set (stages w fl)"
  then show "emitsOnly (\<lambda>e. \<not> isNodeCall e) f"
    using buildStage_core [OF assms, of w] other_stages_emit_no_strategy_call [of f w fl]
      strategy_call_origin
    by (cases "f = buildStage w fl") (auto intro: emitsOnly_mono)
next
  fix e :: "'a event"
  assume "origin e \<noteq> 8"
  then show "\<not> isNodeCall e"
    using strategy_call_origin by blast
qed

lemma kept_from_build:
  "buildPath (Build w fl) = buildPath (stateAfter 7 w fl)"
  "tempBuildDir (Build w fl) = tempBuildDir (stateAfter 7 w fl)"
  "ejectedPath (Build w fl) = ejectedPath (stateAfter 7 w fl)"
  "tempFiles (Build w fl) = tempFiles (stateAfter 7 w fl)"
  by (rule kept_from,
      auto simp: stages_def buildStage_keeps gopackStage_keeps cleanupStage_keeps deferred_keeps)+

lemma stateAfter_build:
  "stateAfter 8 w fl =
     (if status (stateAfter 7 w fl) = Running then buildStage w fl (stateAfter 7 w fl)
      else stateAfter 7 w fl)"
  using stateAfter_Suc [of 7 w fl] by (simp add: stages_def eval_nat_numeral)

lemma buildStage_starts:
  "\<exists>es. trace (buildStage w fl s) =
     trace s @ (if NodeJSFlag fl then CallNodeClient (buildPath s)
                else CallClient (buildPath s) (tempBuildDir s) (ejectedPath s)) # es"
  by (simp add: buildStage_def nodeBuild_def coreBuild_def step_defs
        split: call.split prod.split option.split)

lemma siteConfig_kept_from_build:
  "siteConfig (Build w fl) = siteConfig (stateAfter 7 w fl)"
  by (rule kept_from)
     (auto simp: stages_def buildStage_keeps gopackStage_keeps cleanupStage_keeps deferred_keeps)

lemma nodeBuild_calls:
  "filter isNodeCall (trace (nodeBuild w s)) =
     filter isNodeCall (trace s)
     @ (case NodeClient w (buildPath s) of
          Panics r \<Rightarrow> [CallNodeClient (buildPath s)]
        | Returns c \<Rightarrow>
            CallNodeClient (buildPath s) # CallNodeDataSource (buildPath s) (siteConfig s)
            # (case NodeDataSource w (buildPath s) (siteConfig s) of
                 Returns (st, n, None) \<Rightarrow> [CallNodeExec c st n]
               | _ \<Rightarrow> []))"
  by (simp add: nodeBuild_def step_defs split: call.split prod.split option.split)

lemma coreBuild_calls:
  assumes "status s = Running"
  shows "filter isCoreCall (trace (coreBuild w s)) =
     filter isCoreCall (trace s)
     @ CallClient (buildPath s) (tempBuildDir s) (ejectedPath s)
     # (case Client w (buildPath s) (tempBuildDir s) (ejectedPath s) of
          Returns None \<Rightarrow> [CallDataSource (buildPath s) (siteConfig s) (tempBuildDir s)]
        | _ \<Rightarrow> [])"
  using assms by (simp add: coreBuild_def step_defs split: call.split option.split)

lemma nodeBuild_outcome:
  assumes "status s = Running" and "NodeClient w (buildPath s) = Returns c"
  shows "NodeDataSource w (buildPath s) (siteConfig s) = Returns (st, n, Some e) \<Longrightarrow>
           status (nodeBuild w s) = Exited (Error e)"
    and "NodeDataSource w (buildPath s) (siteConfig s) = Returns (st, n, None) \<Longrightarrow>
           NodeExec w c st n = Returns (Some e) \<Longrightarrow> status (nodeBuild w s) = Exited (Error e)"
    and "NodeDataSource w (buildPath s) (siteConfig s) = Returns (st, n, None) \<Longrightarrow>
           NodeExec w c st n = Returns None \<Longrightarrow> status (nodeBuild w s) = Running"
  using assms by (simp_all add: nodeBuild_def step_defs)

lemma coreBuild_outcome:
  assumes "status s = Running"
  shows "Client w (buildPath s) (tempBuildDir s) (ejectedPath s) = Returns (Some e) \<Longrightarrow>
           status (coreBuild w s) = Exited (Error e)"
    and "Client w (buildPath s) (tempBuildDir s) (ejectedPath s) = Returns None \<Longrightarrow>
           DataSource w (buildPath s) (siteConfig s) (tempBuildDir s) = Returns (Some e) \<Longrightarrow>
           status (coreBuild w s) = Exited (Error e)"
    and "Client w (buildPath s) (tempBuildDir s) (ejectedPath s) = Returns None \<Longrightarrow>
           DataSource w (buildPath s) (siteConfig s) (tempBuildDir s) = Returns None \<Longrightarrow>
           status (coreBuild w s) = Running"
  using assms by (simp_all add: coreBuild_def step_defs)

lemma strategy_calls_of_run:
  fixes w :: "('o::zero) World"
  assumes "status (stateAfter 7 w fl) = Running" and "\<And>e. P e \<Longrightarrow> origin e = 8"
  shows "filter P (trace (stateAfter 7 w fl)) = []"
    and "filter P (trace (Build w fl)) = filter P (trace (buildStage w fl (stateAfter 7 w fl)))"
proof -
  show "filter P (trace (stateAfter 7 w fl)) = []"
    using stateAfter_origins [of _ 7 w fl] assms(2) by (fastforce simp: filter_empty_conv)
  obtain es where es: "trace (Build w fl) = trace (stateAfter 8 w fl) @ es"
    and late: "\<forall>e \<in> set es. 8 < origin e"
    by (rule Build_continues [of 8 w fl]) simp
  have "filter P es = []"
    using late assms(2) by (fastforce simp: filter_empty_conv)
  then show "filter P (trace (Build w fl)) = filter P (trace (buildStage w fl (stateAfter 7 w fl)))"
    using assms(1) by (simp add: es stateAfter_build)
qed

lemma strategy_outcome:
  assumes "status (stateAfter 7 w fl) = Running"
    and "status (buildStage w fl (stateAfter 7 w fl)) = Exited m"
  shows "status (Build w fl) = Exited m"
proof -
  have "status (stateAfter 8 w fl) = Exited m"
    using assms by (simp add: stateAfter_build)
  then show ?thesis
    using stateAfter_exited [of 8 w fl m] by simp
qed

lemma node_strategy_runs:
  fixes w :: "('o::zero) World"
  assumes flag: "NodeJSFlag fl" and running: "status (stateAfter 7 w fl) = Running"
  shows "filter isNodeCall (trace (Build w fl)) =
           (case NodeClient w (buildPath (Build w fl)) of
              Panics r \<Rightarrow> [CallNodeClient (buildPath (Build w fl))]
            | Returns c \<Rightarrow>
                CallNodeClient (buildPath (Build w fl))
                # CallNodeDataSource (buildPath (Build w fl)) (siteConfig (Build w fl))
                # (case NodeDataSource w (buildPath (Build w fl)) (siteConfig (Build w fl)) of
                     Returns (st, n, None) \<Rightarrow> [CallNodeExec c st n]
                   | _ \<Rightarrow> []))"
    and "NodeClient w (buildPath (Build w fl)) = Returns c \<Longrightarrow>
         NodeDataSource w (buildPath (Build w fl)) (siteConfig (Build w fl))
           = Returns (st, n, Some e) \<Longrightarrow>
         status (Build w fl) = Exited (Error e)"
    and "NodeClient w (buildPath (Build w fl)) = Returns c \<Longrightarrow>
         NodeDataSource w (buildPath (Build w fl)) (siteConfig (Build w fl))
           = Returns (st, n, None) \<Longrightarrow>
         NodeExec w c st n = Returns (Some e) \<Longrightarrow>
         status (Build w fl) = Exited (Error e)"
    and "NodeClient w (buildPath (Build w fl)) = Returns c \<Longrightarrow>
         NodeDataSource w (buildPath (Build w fl)) (siteConfig (Build w fl))
           = Returns (st, n, None) \<Longrightarrow>
         NodeExec w c st n = Returns None \<Longrightarrow>
         status (stateAfter 8 w fl) = Running"
proof -
  let ?s = "stateAfter 7 w fl"
  have stage: "buildStage w fl ?s = nodeBuild w ?s"
    using flag by (simp add: buildStage_def)
  have vars: "buildPath (Build w fl) = buildPath ?s" "siteConfig (Build w fl) = siteConfig ?s"
    by (simp_all add: kept_from_build siteConfig_kept_from_build)
  have "filter isNodeCall (trace (Build w fl)) = filter isNodeCall (trace (nodeBuild w ?s))"
    using strategy_calls_of_run(2) [OF running, of isNodeCall] strategy_call_origin
    unfolding stage by blast
  moreover have "filter isNodeCall (trace ?s) = []"
    using strategy_calls_of_run(1) [OF running, of isNodeCall] strategy_call_origin by blast
  ultimately show "filter isNodeCall (trace (Build w fl)) =
           (case NodeClient w (buildPath (Build w fl)) of
              Panics r \<Rightarrow> [CallNodeClient (buildPath (Build w fl))]
            | Returns c \<Rightarrow>
                CallNodeClient (buildPath (Build w fl))
                # CallNodeDataSource (buildPath (Build w fl)) (siteConfig (Build w fl))
                # (case NodeDataSource w (buildPath (Build w fl)) (siteConfig (Build w fl)) of
                     Returns (st, n, None) \<Rightarrow> [CallNodeExec c st n]
                   | _ \<Rightarrow> []))"
    unfolding vars by (simp add: nodeBuild_calls)
  show "status (Build w fl) = Exited (Error e)"
    if "NodeClient w (buildPath (Build w fl)) = Returns c"
      "NodeDataSource w (buildPath (Build w fl)) (siteConfig (Build w fl)) = Returns (st, n, Some e)"
    using strategy_outcome [OF running, of "Error e"]
      nodeBuild_outcome(1) [OF running, of w c st n e] that
    unfolding vars stage by simp
  show "status (Build w fl) = Exited (Error e)"
    if "NodeClient w (buildPath (Build w fl)) = Returns c"
      "NodeDataSource w (buildPath (Build w fl)) (siteConfig (Build w fl)) = Returns (st, n, None)"
      "NodeExec w c st n = Returns (Some e)"
    using strategy_outcome [OF running, of "Error e"]
      nodeBuild_outcome(2) [OF running, of w c st n e] that
    unfolding vars stage by simp
  show "status (stateAfter 8 w fl) = Running"
    if "NodeClient w (buildPath (Build w fl)) = Returns c"
      "NodeDataSource w (buildPath (Build w fl)) (siteConfig (Build w fl)) = Returns (st, n, None)"
      "NodeExec w c st n = Returns None"
    using nodeBuild_outcome(3) [OF running, of w c st n] that running
    unfolding vars by (simp add: stateAfter_build stage)
qed

lemma core_strategy_runs:
  fixes w :: "('o::zero) World"
  assumes flag: "\<not> NodeJSFlag fl" and running: "status (stateAfter 7 w fl) = Running"
  shows "filter isCoreCall (trace (Build w fl)) =
           CallClient (buildPath (Build w fl)) (tempBuildDir (Build w fl)) (ejectedPath (Build w fl))
           # (case Client w (buildPath (Build w fl)) (tempBuildDir (Build w fl))
                     (ejectedPath (Build w fl)) of
                Returns None \<Rightarrow>
                  [CallDataSource (buildPath (Build w fl)) (siteConfig (Build w fl))
                     (tempBuildDir (Build w fl))]
              | _ \<Rightarrow> [])"
    and "Client w (buildPath (Build w fl)) (tempBuildDir (Build w fl)) (ejectedPath (Build w fl))
           = Returns (Some e) \<Longrightarrow>
         status (Build w fl) = Exited (Error e)"
    and "Client w (buildPath (Build w fl)) (tempBuildDir (Build w fl)) (ejectedPath (Build w fl))
           = Returns None \<Longrightarrow>
         DataSource w (buildPath (Build w fl)) (siteConfig (Build w fl)) (tempBuildDir (Build w fl))
           = Returns (Some e) \<Longrightarrow>
         status (Build w fl) = Exited (Error e)"
    and "Client w (buildPath (Build w fl)) (tempBuildDir (Build w fl)) (ejectedPath (Build w fl))
           = Returns None \<Longrightarrow>
         DataSource w (buildPath (Build w fl)) (siteConfig (Build w fl)) (tempBuildDir (Build w fl))
           = Returns None \<Longrightarrow>
         status (stateAfter 8 w fl) = Running"
proof -
  let ?s = "stateAfter 7 w fl"
  have stage: "buildStage w fl ?s = coreBuild w ?s"
    using flag by (simp add: buildStage_def)
  have vars: "buildPath (Build w fl) = buildPath ?s" "siteConfig (Build w fl) = siteConfig ?s"
    "tempBuildDir (Build w fl) = tempBuildDir ?s" "ejectedPath (Build w fl) = ejectedPath ?s"
    by (simp_all add: kept_from_build siteConfig_kept_from_build)
  have "filter isCoreCall (trace (Build w fl)) = filter isCoreCall (trace (coreBuild w ?s))"
    using strategy_calls_of_run(2) [OF running, of isCoreCall] strategy_call_origin
    unfolding stage by blast
  moreover have "filter isCoreCall (trace ?s) = []"
    using strategy_calls_of_run(1) [OF running, of isCoreCall] strategy_call_origin by blast
  ultimately show "filter isCoreCall (trace (Build w fl)) =
           CallClient (buildPath (Build w fl)) (tempBuildDir (Build w fl)) (ejectedPath (Build w fl))
           # (case Client w (buildPath (Build w fl)) (tempBuildDir (Build w fl))
                     (ejectedPath (Build w fl)) of
                Returns None \<Rightarrow>
                  [CallDataSource (buildPath (Build w fl)) (siteConfig (Build w fl))
                     (tempBuildDir (Build w fl))]
              | _ \<Rightarrow> [])"
    unfolding vars by (simp add: coreBuild_calls [OF running])
  show "status (Build w fl) = Exited (Error e)"
    if "Client w (buildPath (Build w fl)) (tempBuildDir (Build w fl)) (ejectedPath (Build w fl))
           = Returns (Some e)"
    using strategy_outcome [OF running, of "Error e"] coreBuild_outcome(1) [OF running, of w e] that
    unfolding vars stage by simp
  show "status (Build w fl) = Exited (Error e)"
    if "Client w (buildPath (Build w fl)) (tempBuildDir (Build w fl)) (ejectedPath (Build w fl))
           = Returns None"
      "DataSource w (buildPath (Build w fl)) (siteConfig (Build w fl)) (tempBuildDir (Build w fl))
           = Returns (Some e)"
    using strategy_outcome [OF running, of "Error e"] coreBuild_outcome(2) [OF running, of w e] that
    unfolding vars stage by simp
  show "status (stateAfter 8 w fl) = Running"
    if "Client w (buildPath (Build w fl)) (tempBuildDir (Build w fl)) (ejectedPath (Build w fl))
           = Returns None"
      "DataSource w (buildPath (Build w fl)) (siteConfig (Build w fl)) (tempBuildDir (Build w fl))
           = Returns None"
    using coreBuild_outcome(3) [OF running, of w] that running
    unfolding vars by (simp add: stateAfter_build stage)
qed

lemma strategy_entered:
  fixes w :: "('o::zero) World"
  assumes running: "status (stateAfter 7 w fl) = Running"
  shows "(if NodeJSFlag fl then CallNodeClient (buildPath (Build w fl))
          else CallClient (buildPath (Build w fl)) (tempBuildDir (Build w fl))
                 (ejectedPath (Build w fl)))
         \<in> set (trace (Build w fl))"
proof -
  obtain es where es: "trace (Build w fl) = trace (stateAfter 8 w fl) @ es"
    by (rule Build_continues [of 8 w fl]) simp
  obtain es' where "trace (stateAfter 8 w fl) =
      trace (stateAfter 7 w fl)
      @ (if NodeJSFlag fl then CallNodeClient (buildPath (stateAfter 7 w fl))
         else CallClient (buildPath (stateAfter 7 w fl)) (tempBuildDir (stateAfter 7 w fl))
                (ejectedPath (stateAfter 7 w fl))) # es'"
    using buildStage_starts [of w fl "stateAfter 7 w fl"] running
    by (auto simp: stateAfter_build)
  then show ?thesis
    by (simp add: es kept_from_build)
qed

text \<open>
  C2. In every run the \<^verbatim>\<open>--nodejs\<close> flag alone selects the build strategy, and the selected
  strategy runs. With the flag set, neither \<^verbatim>\<open>build.Client\<close> nor \<^verbatim>\<open>build.DataSource\<close>
  is ever called; without it, none of \<^verbatim>\<open>build.NodeClient\<close>, \<^verbatim>\<open>build.NodeDataSource\<close>
  and \<^verbatim>\<open>build.NodeExec\<close> is. A run that reaches line 132 enters the selected strategy:
  its first callee is called. With the flag, the calls of the strategy in the whole run are
  exactly these, in this order: \<^verbatim>\<open>build.NodeClient\<close> on the build path; once it has
  returned, \<^verbatim>\<open>build.NodeDataSource\<close> on the build path and the configuration; once that
  has returned a nil error, \<^verbatim>\<open>build.NodeExec\<close> on the three strings the two calls
  returned. Without the flag they are exactly \<^verbatim>\<open>build.Client\<close> and, once it has returned a
  nil error, \<^verbatim>\<open>build.DataSource\<close>. An error from \<^verbatim>\<open>build.NodeDataSource\<close>,
  \<^verbatim>\<open>build.NodeExec\<close>, \<^verbatim>\<open>build.Client\<close> or \<^verbatim>\<open>build.DataSource\<close> ends the run in
  \<^verbatim>\<open>log.Fatal\<close> with that error, and when every callee of the strategy has returned
  without one the run goes on to line 157.
\<close>

theorem one_build_strategy_selected_by_flag:
  fixes w :: "('o::zero) World"
  shows "(NodeJSFlag fl \<longrightarrow> (\<forall>e \<in> set (trace (Build w fl)). \<not> isCoreCall e))
     \<and> (\<not> NodeJSFlag fl \<longrightarrow> (\<forall>e \<in> set (trace (Build w fl)). \<not> isNodeCall e))
     \<and> (status (stateAfter 7 w fl) = Running \<longrightarrow>
          (if NodeJSFlag fl then CallNodeClient (buildPath (Build w fl))
           else CallClient (buildPath (Build w fl)) (tempBuildDir (Build w fl))
                  (ejectedPath (Build w fl)))
          \<in> set (trace (Build w fl)))
     \<and> (NodeJSFlag fl \<and> status (stateAfter 7 w fl) = Running \<longrightarrow>
          filter isNodeCall (trace (Build w fl)) =
            (case NodeClient w (buildPath (Build w fl)) of
               Panics r \<Rightarrow> [CallNodeClient (buildPath (Build w fl))]
             | Returns c \<Rightarrow>
                 CallNodeClient (buildPath (Build w fl))
                 # CallNodeDataSource (buildPath (Build w fl)) (siteConfig (Build w fl))
                 # (case NodeDataSource w (buildPath (Build w fl)) (siteConfig (Build w fl)) of
                      Returns (st, n, None) \<Rightarrow> [CallNodeExec c st n]
                    | _ \<Rightarrow> []))
          \<and> (\<forall>c st n e.
                NodeClient w (buildPath (Build w fl)) = Returns c
                \<and> NodeDataSource w (buildPath (Build w fl)) (siteConfig (Build w fl))
                    = Returns (st, n, Some e) \<longrightarrow>
                status (Build w fl) = Exited (Error e))
          \<and> (\<forall>c st n e.
                NodeClient w (buildPath (Build w fl)) = Returns c
                \<and> NodeDataSource w (buildPath (Build w fl)) (siteConfig (Build w fl))
                    = Returns (st, n, None)
                \<and> NodeExec w c st n = Returns (Some e) \<longrightarrow>
                status (Build w fl) = Exited (Error e))
          \<and> (\<forall>c st n.
                NodeClient w (buildPath (Build w fl)) = Returns c
                \<and> NodeDataSource w (buildPath (Build w fl)) (siteConfig (Build w fl))
                    = Returns (st, n, None)
                \<and> NodeExec w c st n = Returns None \<longrightarrow>
                status (stateAfter 8 w fl) = Running))
     \<and> (\<not> NodeJSFlag fl \<and> status (stateAfter 7 w fl) = Running \<longrightarrow>
          filter isCoreCall (trace (Build w fl)) =
            CallClient (buildPath (Build w fl)) (tempBuildDir (Build w fl))
              (ejectedPath (Build w fl))
            # (case Client w (buildPath (Build w fl)) (tempBuildDir (Build w fl))
                      (ejectedPath (Build w fl)) of
                 Returns None \<Rightarrow>
                   [CallDataSource (buildPath (Build w fl)) (siteConfig (Build w fl))
                      (tempBuildDir (Build w fl))]
               | _ \<Rightarrow> [])
          \<and> (\<forall>e.
                Client w (buildPath (Build w fl)) (tempBuildDir (Build w fl))
                  (ejectedPath (Build w fl)) = Returns (Some e) \<longrightarrow>
                status (Build w fl) = Exited (Error e))
          \<and> (\<forall>e.
                Client w (buildPath (Build w fl)) (tempBuildDir (Build w fl))
                  (ejectedPath (Build w fl)) = Returns None
                \<and> DataSource w (buildPath (Build w fl)) (siteConfig (Build w fl))
                    (tempBuildDir (Build w fl)) = Returns (Some e) \<longrightarrow>
                status (Build w fl) = Exited (Error e))
          \<and> (Client w (buildPath (Build w fl)) (tempBuildDir (Build w fl))
                  (ejectedPath (Build w fl)) = Returns None
                \<and> DataSource w (buildPath (Build w fl)) (siteConfig (Build w fl))
                    (tempBuildDir (Build w fl)) = Returns None \<longrightarrow>
                status (stateAfter 8 w fl) = Running))"
proof -
  have exclusive: "NodeJSFlag fl \<longrightarrow> (\<forall>e \<in> set (trace (Build w fl)). \<not> isCoreCall e)"
    "\<not> NodeJSFlag fl \<longrightarrow> (\<forall>e \<in> set (trace (Build w fl)). \<not> isNodeCall e)"
    using node_run_has_no_core_call [of fl w] core_run_has_no_node_call [of fl w] by blast+
  have entered: "status (stateAfter 7 w fl) = Running \<longrightarrow>
          (if NodeJSFlag fl then CallNodeClient (buildPath (Build w fl))
           else CallClient (buildPath (Build w fl)) (tempBuildDir (Build w fl))
                  (ejectedPath (Build w fl)))
          \<in> set (trace (Build w fl))"
    using strategy_entered [of w fl] by blast
  have node: "NodeJSFlag fl \<and> status (stateAfter 7 w fl) = Running \<longrightarrow>
          filter isNodeCall (trace (Build w fl)) =
            (case NodeClient w (buildPath (Build w fl)) of
               Panics r \<Rightarrow> [CallNodeClient (buildPath (Build w fl))]
             | Returns c \<Rightarrow>
                 CallNodeClient (buildPath (Build w fl))
                 # CallNodeDataSource (buildPath (Build w fl)) (siteConfig (Build w fl))
                 # (case NodeDataSource w (buildPath (Build w fl)) (siteConfig (Build w fl)) of
                      Returns (st, n, None) \<Rightarrow> [CallNodeExec c st n]
                    | _ \<Rightarrow> []))
          \<and> (\<forall>c st n e.
                NodeClient w (buildPath (Build w fl)) = Returns c
                \<and> NodeDataSource w (buildPath (Build w fl)) (siteConfig (Build w fl))
                    = Returns (st, n, Some e) \<longrightarrow>
                status (Build w fl) = Exited (Error e))
          \<and> (\<forall>c st n e.
                NodeClient w (buildPath (Build w fl)) = Returns c
                \<and> NodeDataSource w (buildPath (Build w fl)) (siteConfig (Build w fl))
                    = Returns (st, n, None)
                \<and> NodeExec w c st n = Returns (Some e) \<longrightarrow>
                status (Build w fl) = Exited (Error e))
          \<and> (\<forall>c st n.
                NodeClient w (buildPath (Build w fl)) = Returns c
                \<and> NodeDataSource w (buildPath (Build w fl)) (siteConfig (Build w fl))
                    = Returns (st, n, None)
                \<and> NodeExec w c st n = Returns None \<longrightarrow>
                status (stateAfter 8 w fl) = Running)"
    using node_strategy_runs [of fl w] by blast
  have core: "\<not> NodeJSFlag fl \<and> status (stateAfter 7 w fl) = Running \<longrightarrow>
          filter isCoreCall (trace (Build w fl)) =
            CallClient (buildPath (Build w fl)) (tempBuildDir (Build w fl))
              (ejectedPath (Build w fl))
            # (case Client w (buildPath (Build w fl)) (tempBuildDir (Build w fl))
                      (ejectedPath (Build w fl)) of
                 Returns None \<Rightarrow>
                   [CallDataSource (buildPath (Build w fl)) (siteConfig (Build w fl))
                      (tempBuildDir (Build w fl))]
               | _ \<Rightarrow> [])
          \<and> (\<forall>e.
                Client w (buildPath (Build w fl)) (tempBuildDir (Build w fl))
                  (ejectedPath (Build w fl)) = Returns (Some e) \<longrightarrow>
                status (Build w fl) = Exited (Error e))
          \<and> (\<forall>e.
                Client w (buildPath (Build w fl)) (tempBuildDir (Build w fl))
                  (ejectedPath (Build w fl)) = Returns None
                \<and> DataSource w (buildPath (Build w fl)) (siteConfig (Build w fl))
                    (tempBuildDir (Build w fl)) = Returns (Some e) \<longrightarrow>
                status (Build w fl) = Exited (Error e))
          \<and> (Client w (buildPath (Build w fl)) (tempBuildDir (Build w fl))
                  (ejectedPath (Build w fl)) = Returns None
                \<and> DataSource w (buildPath (Build w fl)) (siteConfig (Build w fl))
                    (tempBuildDir (Build w fl)) = Returns None \<longrightarrow>
                status (stateAfter 8 w fl) = Running)"
    using core_strategy_runs [of fl w] by blast
  show ?thesis
    using exclusive entered node core by (intro conjI)
qed

text \<open>
  The project without a theme, built with \<^verbatim>\<open>--nodejs\<close> and without: with every callee
  succeeding, and with an error from each callee of the two strategies that returns one.
\<close>

theorem one_build_strategy_selected_by_flag_witness:
  "NodeJSFlag (noFlags\<lparr>NodeJSFlag := True\<rparr>)
   \<and> status (stateAfter 7 (quietWorld plainSite) (noFlags\<lparr>NodeJSFlag := True\<rparr>)) = Running
   \<and> CallNodeClient ''public''
       \<in> set (trace (Build (quietWorld plainSite) (noFlags\<lparr>NodeJSFlag := True\<rparr>)))
   \<and> filter isCoreCall (trace (Build (quietWorld plainSite) (noFlags\<lparr>NodeJSFlag := True\<rparr>)))
       = []
   \<and> filter isNodeCall (trace (Build (quietWorld plainSite) (noFlags\<lparr>NodeJSFlag := True\<rparr>)))
       = [CallNodeClient ''public'', CallNodeDataSource ''public'' plainSite,
          CallNodeExec ''client'' ''static'' ''nodes'']
   \<and> status (stateAfter 8 (quietWorld plainSite) (noFlags\<lparr>NodeJSFlag := True\<rparr>)) = Running
   \<and> filter isNodeCall
       (trace (Build ((quietWorld plainSite)
                \<lparr>NodeDataSource := \<lambda>b c. Returns (''static'', ''nodes'', Some ioError)\<rparr>)
              (noFlags\<lparr>NodeJSFlag := True\<rparr>)))
       = [CallNodeClient ''public'', CallNodeDataSource ''public'' plainSite]
   \<and> status (Build ((quietWorld plainSite)
                \<lparr>NodeDataSource := \<lambda>b c. Returns (''static'', ''nodes'', Some ioError)\<rparr>)
              (noFlags\<lparr>NodeJSFlag := True\<rparr>))
       = Exited ''input/output error''
   \<and> status (Build ((quietWorld plainSite)\<lparr>NodeExec := \<lambda>c d n. Returns (Some ioError)\<rparr>)
              (noFlags\<lparr>NodeJSFlag := True\<rparr>))
       = Exited ''input/output error''
   \<and> \<not> NodeJSFlag noFlags
   \<and> status (stateAfter 7 (quietWorld plainSite) noFlags) = Running
   \<and> CallClient ''public'' [] ''ejected'' \<in> set (trace (Build (quietWorld plainSite) noFlags))
   \<and> filter isNodeCall (trace (Build (quietWorld plainSite) noFlags)) = []
   \<and> filter isCoreCall (trace (Build (quietWorld plainSite) noFlags))
       = [CallClient ''public'' [] ''ejected'', CallDataSource ''public'' plainSite []]
   \<and> status (stateAfter 8 (quietWorld plainSite) noFlags) = Running
   \<and> filter isCoreCall
       (trace (Build ((quietWorld plainSite)\<lparr>Client := \<lambda>b t e. Returns (Some ioError)\<rparr>) noFlags))
       = [CallClient ''public'' [] ''ejected'']
   \<and> status (Build ((quietWorld plainSite)\<lparr>Client := \<lambda>b t e. Returns (Some ioError)\<rparr>) noFlags)
       = Exited ''input/output error''
   \<and> status (Build ((quietWorld plainSite)\<lparr>DataSource := \<lambda>b c t. Returns (Some ioError)\<rparr>) noFlags)
       = Exited ''input/output error''"
proof -
  let ?q = "quietWorld plainSite"
  let ?d = "(quietWorld plainSite)
              \<lparr>NodeDataSource := \<lambda>b c. Returns (''static'', ''nodes'', Some ioError)\<rparr>"
  let ?x = "(quietWorld plainSite)\<lparr>NodeExec := \<lambda>c d n. Returns (Some ioError)\<rparr>"
  let ?c = "(quietWorld plainSite)\<lparr>Client := \<lambda>b t e. Returns (Some ioError)\<rparr>"
  let ?s = "(quietWorld plainSite)\<lparr>DataSource := \<lambda>b c t. Returns (Some ioError)\<rparr>"
  let ?n = "noFlags\<lparr>NodeJSFlag := True\<rparr>"
  have node: "NodeJSFlag ?n" and core: "\<not> NodeJSFlag noFlags"
    by (simp_all add: noFlags_def)
  have reached: "status (stateAfter 7 ?q ?n) = Running" "status (stateAfter 7 ?q noFlags) = Running"
    "status (stateAfter 7 ?d ?n) = Running" "status (stateAfter 7 ?x ?n) = Running"
    "status (stateAfter 7 ?c noFlags) = Running" "status (stateAfter 7 ?s noFlags) = Running"
    by (simp_all add: stateAfter_def eval_defs)
  have path: "buildPath (Build ?q ?n) = ''public''" "buildPath (Build ?q noFlags) = ''public''"
    "buildPath (Build ?d ?n) = ''public''" "buildPath (Build ?x ?n) = ''public''"
    "buildPath (Build ?c noFlags) = ''public''" "buildPath (Build ?s noFlags) = ''public''"
    by (simp_all add: eval_defs)
  have cfg: "siteConfig (Build ?q ?n) = plainSite" "siteConfig (Build ?q noFlags) = plainSite"
    "siteConfig (Build ?d ?n) = plainSite" "siteConfig (Build ?x ?n) = plainSite"
    "siteConfig (Build ?c noFlags) = plainSite" "siteConfig (Build ?s noFlags) = plainSite"
    by (simp_all add: eval_defs)
  have temp: "tempBuildDir (Build ?q noFlags) = []" "tempBuildDir (Build ?c noFlags) = []"
    "tempBuildDir (Build ?s noFlags) = []"
    by (simp_all add: eval_defs)
  have ejected: "ejectedPath (Build ?q noFlags) = ''ejected''"
    "ejectedPath (Build ?c noFlags) = ''ejected''" "ejectedPath (Build ?s noFlags) = ''ejected''"
    by (simp_all add: eval_defs)
  note vars = path cfg temp ejected
  have answers: "NodeClient ?q ''public'' = Returns ''client''"
    "NodeDataSource ?q ''public'' plainSite = Returns (''static'', ''nodes'', None)"
    "NodeExec ?q ''client'' ''static'' ''nodes'' = Returns None"
    "NodeClient ?d ''public'' = Returns ''client''"
    "NodeDataSource ?d ''public'' plainSite = Returns (''static'', ''nodes'', Some ioError)"
    "NodeClient ?x ''public'' = Returns ''client''"
    "NodeDataSource ?x ''public'' plainSite = Returns (''static'', ''nodes'', None)"
    "NodeExec ?x ''client'' ''static'' ''nodes'' = Returns (Some ioError)"
    "Client ?q ''public'' [] ''ejected'' = Returns None"
    "DataSource ?q ''public'' plainSite [] = Returns None"
    "Client ?c ''public'' [] ''ejected'' = Returns (Some ioError)"
    "Client ?s ''public'' [] ''ejected'' = Returns None"
    "DataSource ?s ''public'' plainSite [] = Returns (Some ioError)"
    by (simp_all add: quietWorld_def)
  have n: "CallNodeClient ''public'' \<in> set (trace (Build ?q ?n))"
    "filter isCoreCall (trace (Build ?q ?n)) = []"
    "filter isNodeCall (trace (Build ?q ?n))
       = [CallNodeClient ''public'', CallNodeDataSource ''public'' plainSite,
          CallNodeExec ''client'' ''static'' ''nodes'']"
    "status (stateAfter 8 ?q ?n) = Running"
    using one_build_strategy_selected_by_flag [of ?n ?q] node reached(1) answers(1,2,3)
    unfolding vars by (auto simp: filter_empty_conv)
  have d: "filter isNodeCall (trace (Build ?d ?n))
       = [CallNodeClient ''public'', CallNodeDataSource ''public'' plainSite]"
    "status (Build ?d ?n) = Exited (Error ioError)"
    using one_build_strategy_selected_by_flag [of ?n ?d] node reached(3) answers(4,5)
    unfolding vars by auto
  have x: "status (Build ?x ?n) = Exited (Error ioError)"
    using one_build_strategy_selected_by_flag [of ?n ?x] node reached(4) answers(6,7,8)
    unfolding vars by auto
  have c: "CallClient ''public'' [] ''ejected'' \<in> set (trace (Build ?q noFlags))"
    "filter isNodeCall (trace (Build ?q noFlags)) = []"
    "filter isCoreCall (trace (Build ?q noFlags))
       = [CallClient ''public'' [] ''ejected'', CallDataSource ''public'' plainSite []]"
    "status (stateAfter 8 ?q noFlags) = Running"
    using one_build_strategy_selected_by_flag [of noFlags ?q] core reached(2) answers(9,10)
    unfolding vars by (auto simp: filter_empty_conv)
  have cl: "filter isCoreCall (trace (Build ?c noFlags)) = [CallClient ''public'' [] ''ejected'']"
    "status (Build ?c noFlags) = Exited (Error ioError)"
    using one_build_strategy_selected_by_flag [of noFlags ?c] core reached(5) answers(11)
    unfolding vars by auto
  have s: "status (Build ?s noFlags) = Exited (Error ioError)"
    using one_build_strategy_selected_by_flag [of noFlags ?s] core reached(6) answers(12,13)
    unfolding vars by auto
  show ?thesis
    using node core reached(1,2) n d x c cl s by (simp add: ioError_def)
qed

subsection \<open>The ejected files\<close>

lemma ejectStage_cases:
  assumes "status s = Running"
  obtains
    (temp_panics) r where "EjectTemp w (tempBuildDir s) = Panics r"
      and "ejectStage w s = s\<lparr>trace := trace s @ [CallEjectTemp (tempBuildDir s)],
                               status := Panicking r\<rparr>"
  | (copy_panics) files ep r where "EjectTemp w (tempBuildDir s) = Returns (files, ep)"
      and "EjectCopy w (buildPath s) (tempBuildDir s) ep = Panics r"
      and "ejectStage w s = s\<lparr>tempFiles := files, ejectedPath := ep,
             trace := trace s @ [CallEjectTemp (tempBuildDir s),
                                 CallEjectCopy (buildPath s) (tempBuildDir s) ep],
             status := Panicking r\<rparr>"
  | (copy_fails) files ep e where "EjectTemp w (tempBuildDir s) = Returns (files, ep)"
      and "EjectCopy w (buildPath s) (tempBuildDir s) ep = Returns (Some e)"
      and "ejectStage w s = s\<lparr>tempFiles := files, ejectedPath := ep,
             trace := trace s @ [CallEjectTemp (tempBuildDir s),
                                 CallEjectCopy (buildPath s) (tempBuildDir s) ep,
                                 LogFatal (Error e)],
             status := Exited (Error e)\<rparr>"
  | (completes) files ep where "EjectTemp w (tempBuildDir s) = Returns (files, ep)"
      and "EjectCopy w (buildPath s) (tempBuildDir s) ep = Returns None"
      and "ejectStage w s = s\<lparr>tempFiles := files, ejectedPath := ep,
             trace := trace s @ [CallEjectTemp (tempBuildDir s),
                                 CallEjectCopy (buildPath s) (tempBuildDir s) ep]\<rparr>"
proof (cases "EjectTemp w (tempBuildDir s)")
  case (Panics r)
  then show ?thesis
    by (intro temp_panics [of r]) (simp_all add: ejectStage_def step_defs)
next
  case (Returns pair)
  obtain files ep where pair: "pair = (files, ep)"
    by (cases pair)
  show ?thesis
  proof (cases "EjectCopy w (buildPath s) (tempBuildDir s) ep")
    case (Panics r)
    then show ?thesis
      using Returns pair by (intro copy_panics [of files ep r]) (simp_all add: ejectStage_def step_defs)
  next
    case inner: (Returns err)
    show ?thesis
    proof (cases err)
      case None
      then show ?thesis
        using Returns pair inner assms
        by (intro completes [of files ep]) (simp_all add: ejectStage_def step_defs)
    next
      case (Some e)
      then show ?thesis
        using Returns pair inner
        by (intro copy_fails [of files ep e]) (simp_all add: ejectStage_def step_defs)
    qed
  qed
qed

lemma stateAfter_eject:
  "stateAfter 6 w fl =
     (if status (stateAfter 5 w fl) = Running then ejectStage w (stateAfter 5 w fl)
      else stateAfter 5 w fl)"
  using stateAfter_Suc [of 5 w fl] by (simp add: stages_def eval_nat_numeral)

lemma kept_from_assets:
  "buildPath (Build w fl) = buildPath (stateAfter 6 w fl)"
  "tempBuildDir (Build w fl) = tempBuildDir (stateAfter 6 w fl)"
  "ejectedPath (Build w fl) = ejectedPath (stateAfter 6 w fl)"
  by (rule kept_from,
      auto simp: stages_def assetsStage_keeps buildStage_keeps gopackStage_keeps
        cleanupStage_keeps deferred_keeps)+

lemma later_call_origin: "isAssetsCall e \<or> isNodeCall e \<or> isCoreCall e \<Longrightarrow> origin e = 7 \<or> origin e = 8"
  by (cases e) simp_all

lemma no_later_call_upto_eject:
  assumes "e \<in> set (trace (stateAfter 6 w fl))"
  shows "\<not> (isAssetsCall e \<or> isNodeCall e \<or> isCoreCall e)"
  using stateAfter_origins [OF assms] later_call_origin [of e] by auto

lemma deferred_trace_origins:
  "\<exists>es. trace (deferred s) = trace s @ es \<and> (\<forall>e \<in> set es. origin e = 11)"
  using deferred_emits by (auto elim: emitsOnlyD)

lemma later_call_means_ejected:
  assumes "e \<in> set (trace (Build w fl))" and "isAssetsCall e \<or> isNodeCall e \<or> isCoreCall e"
  shows "status (stateAfter 5 w fl) = Running \<and> status (stateAfter 6 w fl) = Running"
proof -
  have six: "status (stateAfter 6 w fl) = Running"
  proof (rule ccontr)
    assume "status (stateAfter 6 w fl) \<noteq> Running"
    then have "Build w fl = deferred (stateAfter 6 w fl)"
      by (rule Build_stopped)
    then obtain es where "trace (Build w fl) = trace (stateAfter 6 w fl) @ es"
      and "\<forall>e \<in> set es. origin e = 11"
      using deferred_trace_origins [of "stateAfter 6 w fl"] by auto
    then show False
      using assms no_later_call_upto_eject [of e w fl] later_call_origin [of e] by auto
  qed
  moreover have "status (stateAfter 5 w fl) = Running"
    using six stateAfter_stopped [of 5 w fl 6] by fastforce
  ultimately show ?thesis
    by simp
qed


lemma ejectStage_completed:
  assumes "status s = Running" and "status (ejectStage w s) = Running"
  obtains files ep where "EjectTemp w (tempBuildDir s) = Returns (files, ep)"
    and "EjectCopy w (buildPath s) (tempBuildDir s) ep = Returns None"
    and "ejectStage w s = s\<lparr>tempFiles := files, ejectedPath := ep,
           trace := trace s @ [CallEjectTemp (tempBuildDir s),
                               CallEjectCopy (buildPath s) (tempBuildDir s) ep]\<rparr>"
  using assms(1)
proof (cases rule: ejectStage_cases [of s w])
  case (temp_panics r)
  then show ?thesis using assms(2) by simp
next
  case (copy_panics files ep r)
  then show ?thesis using assms(2) by simp
next
  case (copy_fails files ep e)
  then show ?thesis using assms(2) by simp
next
  case (completes files ep)
  then show ?thesis by (rule that)
qed

lemma ejectStage_copy_failed:
  assumes "status s = Running"
    and "CallEjectCopy bp t ep \<in> set (trace (ejectStage w s))"
    and "CallEjectCopy bp t ep \<notin> set (trace s)"
    and "EjectCopy w bp t ep = Returns (Some err)"
  shows "status (ejectStage w s) = Exited (Error err)
    \<and> trace (ejectStage w s) =
        (trace s @ [CallEjectTemp t]) @ [CallEjectCopy bp t ep, LogFatal (Error err)]"
  using assms(1)
proof (cases rule: ejectStage_cases [of s w])
  case (temp_panics r)
  then show ?thesis using assms(2,3) by simp
next
  case (copy_panics files ep' r)
  then show ?thesis using assms(2,3,4) by auto
next
  case (copy_fails files ep' e)
  then show ?thesis using assms(2,3,4) by auto
next
  case (completes files ep')
  then show ?thesis using assms(2,3,4) by auto
qed

lemma ejectStage_enters:
  assumes "status s = Running"
  shows "CallEjectTemp (tempBuildDir s) \<in> set (trace (ejectStage w s))"
  using assms by (cases rule: ejectStage_cases [of s w]) simp_all


lemma later_call_after_ejection:
  fixes w :: "('o::zero) World"
  assumes shape: "trace (Build w fl) = pre @ e # post"
    and later: "isAssetsCall e \<or> isNodeCall e \<or> isCoreCall e"
  shows "(\<exists>a b. pre = a @ [CallEjectTemp (tempBuildDir (Build w fl)),
                       CallEjectCopy (buildPath (Build w fl)) (tempBuildDir (Build w fl))
                         (ejectedPath (Build w fl))] @ b)
    \<and> (\<exists>files. EjectTemp w (tempBuildDir (Build w fl))
                  = Returns (files, ejectedPath (Build w fl)))
    \<and> EjectCopy w (buildPath (Build w fl)) (tempBuildDir (Build w fl))
          (ejectedPath (Build w fl)) = Returns None"
proof -
  let ?s5 = "stateAfter 5 w fl"
  let ?s6 = "stateAfter 6 w fl"
  obtain es where es: "trace (Build w fl) = trace ?s6 @ es"
    by (rule Build_continues [of 6 w fl]) simp
  have "e \<in> set (trace (Build w fl))"
    using shape by simp
  then have running: "status ?s5 = Running" "status ?s6 = Running"
    using later_call_means_ejected [of e w fl] later by simp_all
  have s6: "?s6 = ejectStage w ?s5"
    using running(1) by (simp add: stateAfter_eject)
  obtain files ep
    where temp: "EjectTemp w (tempBuildDir ?s5) = Returns (files, ep)"
      and copy: "EjectCopy w (buildPath ?s5) (tempBuildDir ?s5) ep = Returns None"
      and explicit: "ejectStage w ?s5 = ?s5\<lparr>tempFiles := files, ejectedPath := ep,
           trace := trace ?s5 @ [CallEjectTemp (tempBuildDir ?s5),
                                 CallEjectCopy (buildPath ?s5) (tempBuildDir ?s5) ep]\<rparr>"
    using running(2) unfolding s6 by (rule ejectStage_completed [OF running(1)])
  have vars: "tempBuildDir (Build w fl) = tempBuildDir ?s5"
    "buildPath (Build w fl) = buildPath ?s5" "ejectedPath (Build w fl) = ep"
    by (simp_all add: kept_from_assets s6 explicit)
  have notin: "e \<notin> set (trace ?s6)"
    using no_later_call_upto_eject [of e w fl] later by blast
  have eq: "trace ?s6 @ es = pre @ e # post"
    using shape es by simp
  obtain us where "pre = trace ?s6 @ us"
    using split_after_prefix [OF eq notin] by blast
  then have "pre = trace ?s5 @ [CallEjectTemp (tempBuildDir ?s5),
        CallEjectCopy (buildPath ?s5) (tempBuildDir ?s5) ep] @ us"
    by (simp add: s6 explicit)
  then have "\<exists>a b. pre = a @ [CallEjectTemp (tempBuildDir ?s5),
        CallEjectCopy (buildPath ?s5) (tempBuildDir ?s5) ep] @ b"
    by blast
  then show ?thesis
    unfolding vars using temp copy by simp
qed

lemma eject_copy_error_is_fatal:
  fixes w :: "('o::zero) World"
  assumes called: "CallEjectCopy bp t ep \<in> set (trace (Build w fl))"
    and fails: "EjectCopy w bp t ep = Returns (Some err)"
  shows "status (Build w fl) = Exited (Error err)
    \<and> (\<exists>pre. trace (Build w fl) = pre @ [CallEjectCopy bp t ep, LogFatal (Error err)])
    \<and> (\<forall>e \<in> set (trace (Build w fl)). \<not> (isAssetsCall e \<or> isNodeCall e \<or> isCoreCall e))"
proof -
  let ?s5 = "stateAfter 5 w fl"
  let ?s6 = "stateAfter 6 w fl"
  obtain es where es: "trace (Build w fl) = trace ?s6 @ es" "\<forall>e \<in> set es. 6 < origin e"
    by (rule Build_continues [of 6 w fl]) simp
  have in6: "CallEjectCopy bp t ep \<in> set (trace ?s6)"
    using called es by auto
  have notin5: "CallEjectCopy bp t ep \<notin> set (trace ?s5)"
    using stateAfter_origins [of "CallEjectCopy bp t ep" 5 w fl] by auto
  have running: "status ?s5 = Running"
    using in6 notin5 by (auto simp: stateAfter_eject split: if_splits)
  have s6: "?s6 = ejectStage w ?s5"
    using running by (simp add: stateAfter_eject)
  have exited: "status ?s6 = Exited (Error err)"
    and ends: "trace ?s6 = (trace ?s5 @ [CallEjectTemp t]) @ [CallEjectCopy bp t ep, LogFatal (Error err)]"
    using ejectStage_copy_failed [OF running _ notin5 fails] in6 unfolding s6 by blast+
  have same: "Build w fl = ?s6"
    using exited by (rule stateAfter_exited)
  have "\<forall>e \<in> set (trace ?s6). \<not> (isAssetsCall e \<or> isNodeCall e \<or> isCoreCall e)"
    using no_later_call_upto_eject [of _ w fl] by blast
  then show ?thesis
    unfolding same using exited ends by blast
qed

lemma ejection_entered:
  fixes w :: "('o::zero) World"
  assumes running: "status (stateAfter 5 w fl) = Running"
  shows "CallEjectTemp (tempBuildDir (Build w fl)) \<in> set (trace (Build w fl))"
proof -
  let ?s5 = "stateAfter 5 w fl"
  let ?s6 = "stateAfter 6 w fl"
  obtain es where es: "trace (Build w fl) = trace ?s6 @ es"
    by (rule Build_continues [of 6 w fl]) simp
  have s6: "?s6 = ejectStage w ?s5"
    using running by (simp add: stateAfter_eject)
  have "tempBuildDir (Build w fl) = tempBuildDir ?s5"
    by (simp add: kept_from_assets s6 ejectStage_keeps)
  then show ?thesis
    using ejectStage_enters [OF running, of w] es s6 by simp
qed

text \<open>
  C6. Whatever is called at or after line 127 (the assets copy, or a callee of either build
  strategy) is preceded in the trace by the two ejection calls, \<^verbatim>\<open>build.EjectTemp\<close>
  directly followed by \<^verbatim>\<open>build.EjectCopy\<close>, and both have completed: \<^verbatim>\<open>build.EjectTemp\<close>
  returned the ejected path and \<^verbatim>\<open>build.EjectCopy\<close> a nil error. An error returned by
  \<^verbatim>\<open>build.EjectCopy\<close> ends the run in \<^verbatim>\<open>log.Fatal\<close> with that error, and nothing of
  line 127 or later is called. (\<^verbatim>\<open>build.EjectTemp\<close> returns no error value.) A run that
  reaches line 116 calls \<^verbatim>\<open>build.EjectTemp\<close>.
\<close>

theorem ejection_completes_before_assets_and_build:
  fixes w :: "('o::zero) World"
  shows
    "(\<forall>pre e post. trace (Build w fl) = pre @ e # post
          \<and> (isAssetsCall e \<or> isNodeCall e \<or> isCoreCall e) \<longrightarrow>
        (\<exists>a b. pre = a @ [CallEjectTemp (tempBuildDir (Build w fl)),
                          CallEjectCopy (buildPath (Build w fl)) (tempBuildDir (Build w fl))
                            (ejectedPath (Build w fl))] @ b)
        \<and> (\<exists>files. EjectTemp w (tempBuildDir (Build w fl))
                      = Returns (files, ejectedPath (Build w fl)))
        \<and> EjectCopy w (buildPath (Build w fl)) (tempBuildDir (Build w fl))
              (ejectedPath (Build w fl)) = Returns None)
     \<and> (\<forall>bp t ep err. CallEjectCopy bp t ep \<in> set (trace (Build w fl))
          \<and> EjectCopy w bp t ep = Returns (Some err) \<longrightarrow>
        status (Build w fl) = Exited (Error err)
        \<and> (\<exists>pre. trace (Build w fl) = pre @ [CallEjectCopy bp t ep, LogFatal (Error err)])
        \<and> (\<forall>e \<in> set (trace (Build w fl)). \<not> (isAssetsCall e \<or> isNodeCall e \<or> isCoreCall e)))
     \<and> (status (stateAfter 5 w fl) = Running \<longrightarrow>
          CallEjectTemp (tempBuildDir (Build w fl)) \<in> set (trace (Build w fl)))"
proof (intro conjI allI impI)
  fix pre e post
  assume "trace (Build w fl) = pre @ e # post \<and> (isAssetsCall e \<or> isNodeCall e \<or> isCoreCall e)"
  then have shape: "trace (Build w fl) = pre @ e # post"
    and later: "isAssetsCall e \<or> isNodeCall e \<or> isCoreCall e"
    by simp_all
  note ordered = later_call_after_ejection [OF shape later]
  show "\<exists>a b. pre = a @ [CallEjectTemp (tempBuildDir (Build w fl)),
                          CallEjectCopy (buildPath (Build w fl)) (tempBuildDir (Build w fl))
                            (ejectedPath (Build w fl))] @ b"
    using ordered by (rule conjunct1)
  show "\<exists>files. EjectTemp w (tempBuildDir (Build w fl)) = Returns (files, ejectedPath (Build w fl))"
    using ordered by (elim conjE)
  show "EjectCopy w (buildPath (Build w fl)) (tempBuildDir (Build w fl))
              (ejectedPath (Build w fl)) = Returns None"
    using ordered by (elim conjE)
next
  fix bp t ep err
  assume "CallEjectCopy bp t ep \<in> set (trace (Build w fl))
          \<and> EjectCopy w bp t ep = Returns (Some err)"
  then have called: "CallEjectCopy bp t ep \<in> set (trace (Build w fl))"
    and fails: "EjectCopy w bp t ep = Returns (Some err)"
    by simp_all
  note fatal = eject_copy_error_is_fatal [OF called fails]
  show "status (Build w fl) = Exited (Error err)"
    using fatal by (rule conjunct1)
  show "\<exists>pre. trace (Build w fl) = pre @ [CallEjectCopy bp t ep, LogFatal (Error err)]"
    using fatal by (elim conjE)
  show "\<forall>e \<in> set (trace (Build w fl)). \<not> (isAssetsCall e \<or> isNodeCall e \<or> isCoreCall e)"
    using fatal by (elim conjE)
next
  assume "status (stateAfter 5 w fl) = Running"
  then show "CallEjectTemp (tempBuildDir (Build w fl)) \<in> set (trace (Build w fl))"
    by (rule ejection_entered)
qed


text \<open>
  The project without a theme: a run in which every callee succeeds, split at the assets
  copy, and a run in which \<^verbatim>\<open>build.EjectCopy\<close> is denied.
\<close>

theorem ejection_completes_before_assets_and_build_witness:
  "trace (Build (quietWorld plainSite) noFlags) =
     take 11 (trace (Build (quietWorld plainSite) noFlags))
     @ CallAssetsCopy ''public'' '''' # drop 12 (trace (Build (quietWorld plainSite) noFlags))
   \<and> isAssetsCall (CallAssetsCopy ''public'' '''' :: nat event)
   \<and> (\<exists>a b. take 11 (trace (Build (quietWorld plainSite) noFlags)) =
          a @ [CallEjectTemp '''', CallEjectCopy ''public'' '''' ''ejected''] @ b)
   \<and> EjectCopy (quietWorld plainSite) ''public'' '''' ''ejected'' = Returns None
   \<and> CallEjectCopy ''public'' '''' ''ejected''
       \<in> set (trace (Build ((quietWorld plainSite)
                  \<lparr>EjectCopy := \<lambda>b t e. Returns (Some permissionDenied)\<rparr>) noFlags))
   \<and> EjectCopy ((quietWorld plainSite)\<lparr>EjectCopy := \<lambda>b t e. Returns (Some permissionDenied)\<rparr>)
         ''public'' '''' ''ejected'' = Returns (Some permissionDenied)
   \<and> status (Build ((quietWorld plainSite)
                  \<lparr>EjectCopy := \<lambda>b t e. Returns (Some permissionDenied)\<rparr>) noFlags)
       = Exited ''permission denied''
   \<and> status (stateAfter 5 (quietWorld plainSite) noFlags) = Running
   \<and> CallEjectTemp '''' \<in> set (trace (Build (quietWorld plainSite) noFlags))"
proof -
  let ?q = "quietWorld plainSite"
  let ?d = "(quietWorld plainSite)\<lparr>EjectCopy := \<lambda>b t e. Returns (Some permissionDenied)\<rparr>"
  have shape: "trace (Build ?q noFlags) =
     take 11 (trace (Build ?q noFlags))
     @ CallAssetsCopy ''public'' '''' # drop 12 (trace (Build ?q noFlags))"
    and vars: "tempBuildDir (Build ?q noFlags) = ''''" "buildPath (Build ?q noFlags) = ''public''"
      "ejectedPath (Build ?q noFlags) = ''ejected''"
    and called: "CallEjectCopy ''public'' '''' ''ejected'' \<in> set (trace (Build ?d noFlags))"
    by (simp_all add: eval_defs)
  have later: "isAssetsCall (CallAssetsCopy ''public'' '''' :: nat event)"
    by simp
  have denied: "EjectCopy ?d ''public'' '''' ''ejected'' = Returns (Some permissionDenied)"
    by simp
  have reached: "status (stateAfter 5 ?q noFlags) = Running"
    by (simp add: stateAfter_def eval_defs)
  have ordered: "(\<exists>a b. take 11 (trace (Build ?q noFlags)) =
          a @ [CallEjectTemp '''', CallEjectCopy ''public'' '''' ''ejected''] @ b)
      \<and> EjectCopy ?q ''public'' '''' ''ejected'' = Returns None"
    using ejection_completes_before_assets_and_build [of ?q noFlags] shape later
    unfolding vars by blast
  have fatal: "status (Build ?d noFlags) = Exited (Error permissionDenied)"
    using ejection_completes_before_assets_and_build [of ?d noFlags] called denied by blast
  have entered: "CallEjectTemp '''' \<in> set (trace (Build ?q noFlags))"
    using ejection_completes_before_assets_and_build [of ?q noFlags] reached
    unfolding vars by blast
  show ?thesis
    using shape later ordered called denied fatal reached entered
    by (simp add: permissionDenied_def)
qed

subsection \<open>Gopack and the cleanup\<close>

lemma stateAfter_gopack:
  "stateAfter 9 w fl =
     (if status (stateAfter 8 w fl) = Running then gopackStage w (stateAfter 8 w fl)
      else stateAfter 8 w fl)"
  using stateAfter_Suc [of 8 w fl] by (simp add: stages_def eval_nat_numeral)

lemma stateAfter_cleanup:
  "stateAfter 10 w fl =
     (if status (stateAfter 9 w fl) = Running then cleanupStage w (stateAfter 9 w fl)
      else stateAfter 9 w fl)"
  using stateAfter_Suc [of 9 w fl] by (simp add: stages_def eval_nat_numeral)

lemma kept_from_gopack:
  "buildPath (Build w fl) = buildPath (stateAfter 8 w fl)"
  by (rule kept_from)
     (auto simp: stages_def gopackStage_keeps cleanupStage_keeps deferred_keeps)

lemma kept_from_cleanup:
  "tempBuildDir (Build w fl) = tempBuildDir (stateAfter 9 w fl)"
  "tempFiles (Build w fl) = tempFiles (stateAfter 9 w fl)"
  "ejectedPath (Build w fl) = ejectedPath (stateAfter 9 w fl)"
  by (rule kept_from, auto simp: stages_def cleanupStage_keeps deferred_keeps)+

lemma gopack_returned:
  assumes "status (stateAfter 9 w fl) = Running"
  shows "CallGopack (buildPath (Build w fl)) \<in> set (trace (Build w fl))
    \<and> Gopack w (buildPath (Build w fl)) = Returns ()"
proof -
  let ?s8 = "stateAfter 8 w fl"
  obtain es where es: "trace (Build w fl) = trace (stateAfter 9 w fl) @ es"
    by (rule Build_continues [of 9 w fl]) simp
  have running: "status ?s8 = Running"
    using assms stateAfter_stopped [of 8 w fl 9] by fastforce
  then have s9: "stateAfter 9 w fl = gopackStage w ?s8"
    by (simp add: stateAfter_gopack)
  have "Gopack w (buildPath ?s8) = Returns ()
      \<and> trace (gopackStage w ?s8) = trace ?s8 @ [CallGopack (buildPath ?s8)]"
    using assms unfolding s9
    by (cases "Gopack w (buildPath ?s8)") (simp_all add: gopackStage_def step_defs)
  then show ?thesis
    by (simp add: es s9 kept_from_gopack)
qed

lemma cleanupStage_themes_failed:
  assumes "status s = Running"
    and "CallThemesClean t \<in> set (trace (cleanupStage w s))"
    and "CallThemesClean t \<notin> set (trace s)"
    and "ThemesClean w t = Returns (Some e)"
  shows "status (cleanupStage w s) = Exited (Error e)
    \<and> trace (cleanupStage w s) = trace s @ [CallThemesClean t, LogFatal (Error e)]"
  using assms
  by (cases "tempBuildDir s = ''''"; cases "EjectClean w (tempFiles s) (ejectedPath s)";
      cases "ThemesClean w (tempBuildDir s)")
     (auto simp: cleanupStage_def step_defs split: option.splits)

lemma cleanupStage_eject_failed:
  assumes "status s = Running"
    and "CallEjectClean fs ep \<in> set (trace (cleanupStage w s))"
    and "CallEjectClean fs ep \<notin> set (trace s)"
    and "EjectClean w fs ep = Returns (Some e)"
  shows "status (cleanupStage w s) = Exited (Error e)
    \<and> trace (cleanupStage w s) = trace s @ [CallEjectClean fs ep, LogFatal (Error e)]"
  using assms
  by (cases "tempBuildDir s = ''''"; cases "EjectClean w (tempFiles s) (ejectedPath s)";
      cases "ThemesClean w (tempBuildDir s)")
     (auto simp: cleanupStage_def step_defs split: option.splits)

lemma cleanup_call_means_reached:
  assumes "e \<in> set (trace (Build w fl))" and "origin e = 10"
  shows "status (stateAfter 9 w fl) = Running"
    and "e \<in> set (trace (cleanupStage w (stateAfter 9 w fl)))"
    and "e \<notin> set (trace (stateAfter 9 w fl))"
proof -
  obtain es where es: "trace (Build w fl) = trace (stateAfter 10 w fl) @ es"
    "\<forall>e \<in> set es. 10 < origin e"
    by (rule Build_continues [of 10 w fl]) simp
  have in10: "e \<in> set (trace (stateAfter 10 w fl))"
    using assms es by auto
  show notin9: "e \<notin> set (trace (stateAfter 9 w fl))"
    using stateAfter_origins [of e 9 w fl] assms(2) by auto
  show running: "status (stateAfter 9 w fl) = Running"
    using in10 notin9 by (auto simp: stateAfter_cleanup split: if_splits)
  show "e \<in> set (trace (cleanupStage w (stateAfter 9 w fl)))"
    using in10 running by (simp add: stateAfter_cleanup)
qed

lemma cleanup_failure_ends_run:
  assumes "status (stateAfter 9 w fl) = Running"
    and "status (cleanupStage w (stateAfter 9 w fl)) = Exited m"
  shows "Build w fl = cleanupStage w (stateAfter 9 w fl)"
  using assms stateAfter_exited [of 10 w fl m] by (simp add: stateAfter_cleanup)


text \<open>
  C7. An error returned by either cleanup call, \<^verbatim>\<open>build.ThemesClean\<close> or
  \<^verbatim>\<open>build.EjectClean\<close>, ends the run in \<^verbatim>\<open>log.Fatal\<close> with that error, the last event
  of the trace. This happens although the build itself is complete: every statement before
  the cleanup has run to its end, and \<^verbatim>\<open>build.Gopack\<close>, the last of them, has been called
  on the build path and has returned.
\<close>

theorem cleanup_error_is_fatal_after_build:
  fixes w :: "('o::zero) World"
  shows
    "(\<forall>t e. CallThemesClean t \<in> set (trace (Build w fl))
          \<and> ThemesClean w t = Returns (Some e) \<longrightarrow>
        status (Build w fl) = Exited (Error e)
        \<and> (\<exists>pre. trace (Build w fl) = pre @ [CallThemesClean t, LogFatal (Error e)])
        \<and> status (stateAfter 9 w fl) = Running
        \<and> CallGopack (buildPath (Build w fl)) \<in> set (trace (Build w fl))
        \<and> Gopack w (buildPath (Build w fl)) = Returns ())
     \<and> (\<forall>fs ep e. CallEjectClean fs ep \<in> set (trace (Build w fl))
          \<and> EjectClean w fs ep = Returns (Some e) \<longrightarrow>
        status (Build w fl) = Exited (Error e)
        \<and> (\<exists>pre. trace (Build w fl) = pre @ [CallEjectClean fs ep, LogFatal (Error e)])
        \<and> status (stateAfter 9 w fl) = Running
        \<and> CallGopack (buildPath (Build w fl)) \<in> set (trace (Build w fl))
        \<and> Gopack w (buildPath (Build w fl)) = Returns ())"
proof -
  let ?s9 = "stateAfter 9 w fl"
  have themes: "status (Build w fl) = Exited (Error e)
        \<and> (\<exists>pre. trace (Build w fl) = pre @ [CallThemesClean t, LogFatal (Error e)])
        \<and> status ?s9 = Running
        \<and> CallGopack (buildPath (Build w fl)) \<in> set (trace (Build w fl))
        \<and> Gopack w (buildPath (Build w fl)) = Returns ()"
    if called: "CallThemesClean t \<in> set (trace (Build w fl))"
      and fails: "ThemesClean w t = Returns (Some e)"
    for t e
  proof -
    note reached = cleanup_call_means_reached [OF called]
    have running: "status ?s9 = Running"
      by (rule reached(1)) simp
    have exited: "status (cleanupStage w ?s9) = Exited (Error e)"
      and ends: "trace (cleanupStage w ?s9) = trace ?s9 @ [CallThemesClean t, LogFatal (Error e)]"
      using cleanupStage_themes_failed [OF running _ _ fails] reached(2,3) by simp_all
    have "Build w fl = cleanupStage w ?s9"
      using running exited by (rule cleanup_failure_ends_run)
    then have "status (Build w fl) = Exited (Error e)"
      and "\<exists>pre. trace (Build w fl) = pre @ [CallThemesClean t, LogFatal (Error e)]"
      using exited ends by simp_all
    then show ?thesis
      using running gopack_returned [OF running] by blast
  qed
  have eject: "status (Build w fl) = Exited (Error e)
        \<and> (\<exists>pre. trace (Build w fl) = pre @ [CallEjectClean fs ep, LogFatal (Error e)])
        \<and> status ?s9 = Running
        \<and> CallGopack (buildPath (Build w fl)) \<in> set (trace (Build w fl))
        \<and> Gopack w (buildPath (Build w fl)) = Returns ()"
    if called: "CallEjectClean fs ep \<in> set (trace (Build w fl))"
      and fails: "EjectClean w fs ep = Returns (Some e)"
    for fs ep e
  proof -
    note reached = cleanup_call_means_reached [OF called]
    have running: "status ?s9 = Running"
      by (rule reached(1)) simp
    have exited: "status (cleanupStage w ?s9) = Exited (Error e)"
      and ends: "trace (cleanupStage w ?s9) = trace ?s9 @ [CallEjectClean fs ep, LogFatal (Error e)]"
      using cleanupStage_eject_failed [OF running _ _ fails] reached(2,3) by simp_all
    have "Build w fl = cleanupStage w ?s9"
      using running exited by (rule cleanup_failure_ends_run)
    then have "status (Build w fl) = Exited (Error e)"
      and "\<exists>pre. trace (Build w fl) = pre @ [CallEjectClean fs ep, LogFatal (Error e)]"
      using exited ends by simp_all
    then show ?thesis
      using running gopack_returned [OF running] by blast
  qed
  show ?thesis
    using themes eject by blast
qed

text \<open>
  The project with the theme, where \<^verbatim>\<open>build.ThemesClean\<close> is denied, and the project
  without, where \<^verbatim>\<open>build.EjectClean\<close> is denied.
\<close>

theorem cleanup_error_is_fatal_after_build_witness:
  "CallThemesClean ''.plenti-tmp/''
     \<in> set (trace (Build ((quietWorld themedSite)
                \<lparr>ThemesClean := \<lambda>t. Returns (Some permissionDenied)\<rparr>) noFlags))
   \<and> ThemesClean ((quietWorld themedSite)\<lparr>ThemesClean := \<lambda>t. Returns (Some permissionDenied)\<rparr>)
        ''.plenti-tmp/'' = Returns (Some permissionDenied)
   \<and> status (Build ((quietWorld themedSite)
                \<lparr>ThemesClean := \<lambda>t. Returns (Some permissionDenied)\<rparr>) noFlags)
       = Exited ''permission denied''
   \<and> CallGopack ''public''
       \<in> set (trace (Build ((quietWorld themedSite)
                \<lparr>ThemesClean := \<lambda>t. Returns (Some permissionDenied)\<rparr>) noFlags))
   \<and> CallEjectClean [''ejected/build.js''] ''ejected''
       \<in> set (trace (Build ((quietWorld plainSite)
                \<lparr>EjectClean := \<lambda>fs e. Returns (Some permissionDenied)\<rparr>) noFlags))
   \<and> EjectClean ((quietWorld plainSite)\<lparr>EjectClean := \<lambda>fs e. Returns (Some permissionDenied)\<rparr>)
        [''ejected/build.js''] ''ejected'' = Returns (Some permissionDenied)
   \<and> status (Build ((quietWorld plainSite)
                \<lparr>EjectClean := \<lambda>fs e. Returns (Some permissionDenied)\<rparr>) noFlags)
       = Exited ''permission denied''
   \<and> CallGopack ''public''
       \<in> set (trace (Build ((quietWorld plainSite)
                \<lparr>EjectClean := \<lambda>fs e. Returns (Some permissionDenied)\<rparr>) noFlags))"
proof -
  let ?t = "(quietWorld themedSite)\<lparr>ThemesClean := \<lambda>t. Returns (Some permissionDenied)\<rparr>"
  let ?e = "(quietWorld plainSite)\<lparr>EjectClean := \<lambda>fs e. Returns (Some permissionDenied)\<rparr>"
  have called: "CallThemesClean ''.plenti-tmp/'' \<in> set (trace (Build ?t noFlags))"
    "CallEjectClean [''ejected/build.js''] ''ejected'' \<in> set (trace (Build ?e noFlags))"
    and path: "buildPath (Build ?t noFlags) = ''public''" "buildPath (Build ?e noFlags) = ''public''"
    by (simp_all add: eval_defs)
  have denied: "ThemesClean ?t ''.plenti-tmp/'' = Returns (Some permissionDenied)"
    "EjectClean ?e [''ejected/build.js''] ''ejected'' = Returns (Some permissionDenied)"
    by simp_all
  have themes: "status (Build ?t noFlags) = Exited (Error permissionDenied)"
    "CallGopack ''public'' \<in> set (trace (Build ?t noFlags))"
    using cleanup_error_is_fatal_after_build [of ?t noFlags] called(1) denied(1)
    unfolding path by blast+
  have eject: "status (Build ?e noFlags) = Exited (Error permissionDenied)"
    "CallGopack ''public'' \<in> set (trace (Build ?e noFlags))"
    using cleanup_error_is_fatal_after_build [of ?e noFlags] called(2) denied(2)
    unfolding path by blast+
  show ?thesis
    using called denied themes eject by (simp add: permissionDenied_def)
qed

subsection \<open>The temporary theme directory\<close>

lemma stateAfter_theme:
  "stateAfter 3 w fl =
     (if status (stateAfter 2 w fl) = Running then themeStage w (stateAfter 2 w fl)
      else stateAfter 2 w fl)"
  using stateAfter_Suc [of 2 w fl] by (simp add: stages_def eval_nat_numeral)

lemma stateAfter_config:
  "stateAfter 2 w fl = runStages [loadSiteConfig w, resolveBuildDir fl] (flagChecks fl)"
  by (simp add: stateAfter_def stages_def eval_nat_numeral)

lemma stateAfter_config_cases:
  obtains (panics) r where "GetSiteConfig w ''.'' = Panics r"
      and "stateAfter 2 w fl =
             (flagChecks fl)\<lparr>trace := trace (flagChecks fl) @ [CallGetSiteConfig ''.''],
                              status := Panicking r\<rparr>"
  | (loaded) cfg x where "GetSiteConfig w ''.'' = Returns (cfg, x)"
      and "stateAfter 2 w fl =
             (flagChecks fl)\<lparr>siteConfig := cfg, buildDir := setBuildDir fl cfg,
                trace := trace (flagChecks fl) @ [CallGetSiteConfig ''.'']\<rparr>"
proof (cases "GetSiteConfig w ''.''")
  case (Panics r)
  then show ?thesis
    using config_panicked [OF Panics flagChecks_simps(1), of fl]
    by (intro panics [of r]) (simp_all add: stateAfter_config)
next
  case (Returns pair)
  obtain cfg x where "pair = (cfg, x)"
    by (cases pair)
  then have "GetSiteConfig w ''.'' = Returns (cfg, x)"
    using Returns by simp
  then show ?thesis
    using config_loaded [OF _ flagChecks_simps(1), of w cfg x fl]
    by (intro loaded [of cfg x]) (simp_all add: stateAfter_config)
qed

lemma kept_from_theme:
  "siteConfig (Build w fl) = siteConfig (stateAfter 2 w fl)"
  by (rule kept_from)
     (auto simp: stages_def themeStage_keeps workspaceStage_keeps npmStage_keeps
        ejectStage_keeps assetsStage_keeps buildStage_keeps gopackStage_keeps
        cleanupStage_keeps deferred_keeps)

lemma kept_from_workspace:
  "tempBuildDir (Build w fl) = tempBuildDir (stateAfter 3 w fl)"
  by (rule kept_from)
     (auto simp: stages_def workspaceStage_keeps npmStage_keeps
        ejectStage_keeps assetsStage_keeps buildStage_keeps gopackStage_keeps
        cleanupStage_keeps deferred_keeps)

lemma themeStage_tempBuildDir:
  "tempBuildDir (themeStage w s) =
     (if Theme (siteConfig s) = '''' then ''''
      else (case ThemesCopy w (''themes/'' @ Theme (siteConfig s))
                   (themeConfigAt (siteConfig s) (Theme (siteConfig s))) of
              Panics r \<Rightarrow> ''''
            | Returns (d, err) \<Rightarrow> d))"
  by (simp add: themeStage_def step_defs split: call.split prod.split option.split)

lemma tempBuildDir_of_run:
  "tempBuildDir (Build w fl) =
     (if Theme (siteConfig (Build w fl)) = '''' then ''''
      else (case ThemesCopy w (''themes/'' @ Theme (siteConfig (Build w fl)))
                   (themeConfigAt (siteConfig (Build w fl)) (Theme (siteConfig (Build w fl)))) of
              Panics r \<Rightarrow> ''''
            | Returns (d, err) \<Rightarrow> d))"
proof (cases rule: stateAfter_config_cases [of w fl])
  case (panics r)
  then have "stateAfter 3 w fl = stateAfter 2 w fl"
    by (simp add: stateAfter_theme)
  then show ?thesis
    unfolding kept_from_theme kept_from_workspace
    by (simp add: panics(2) flagChecks_simps zeroSiteConfig_def)
next
  case (loaded cfg x)
  then have "stateAfter 3 w fl = themeStage w (stateAfter 2 w fl)"
    by (simp add: stateAfter_theme flagChecks_simps)
  then show ?thesis
    unfolding kept_from_theme kept_from_workspace
    by (simp add: themeStage_tempBuildDir)
qed

lemma cleanupStage_trace:
  assumes "status s = Running"
  shows "\<exists>es. trace (cleanupStage w s) =
           trace s @ (if tempBuildDir s \<noteq> '''' then CallThemesClean (tempBuildDir s)
                      else CallEjectClean (tempFiles s) (ejectedPath s)) # es
         \<and> (\<forall>e \<in> set es. origin e = 12)"
  by (simp add: cleanupStage_def step_defs split: call.split option.split)

lemma cleanup_calls_of_run:
  assumes "e \<in> set (trace (Build w fl))" and "origin e = 10"
  shows "e = (if tempBuildDir (Build w fl) \<noteq> '''' then CallThemesClean (tempBuildDir (Build w fl))
              else CallEjectClean (tempFiles (Build w fl)) (ejectedPath (Build w fl)))"
proof -
  note reached = cleanup_call_means_reached [OF assms]
  obtain es where "trace (cleanupStage w (stateAfter 9 w fl)) =
      trace (stateAfter 9 w fl)
      @ (if tempBuildDir (stateAfter 9 w fl) \<noteq> ''''
         then CallThemesClean (tempBuildDir (stateAfter 9 w fl))
         else CallEjectClean (tempFiles (stateAfter 9 w fl)) (ejectedPath (stateAfter 9 w fl))) # es"
    and "\<forall>e \<in> set es. origin e = 12"
    using cleanupStage_trace [OF reached(1), of w] by blast
  then show ?thesis
    using reached(2,3) assms(2) unfolding kept_from_cleanup by auto
qed

lemma cleanup_entered:
  assumes "status (stateAfter 9 w fl) = Running"
  shows "(if tempBuildDir (Build w fl) \<noteq> '''' then CallThemesClean (tempBuildDir (Build w fl))
          else CallEjectClean (tempFiles (Build w fl)) (ejectedPath (Build w fl)))
         \<in> set (trace (Build w fl))"
proof -
  obtain es where es: "trace (Build w fl) = trace (stateAfter 10 w fl) @ es"
    by (rule Build_continues [of 10 w fl]) simp
  have s10: "stateAfter 10 w fl = cleanupStage w (stateAfter 9 w fl)"
    using assms by (simp add: stateAfter_cleanup)
  show ?thesis
    using cleanupStage_trace [OF assms, of w] unfolding kept_from_cleanup es s10 by auto
qed


lemma themeStage_passed:
  assumes "status s = Running" and "status (themeStage w s) = Running"
    and "Theme (siteConfig s) \<noteq> ''''"
  shows "\<exists>d. ThemesCopy w (''themes/'' @ Theme (siteConfig s))
               (themeConfigAt (siteConfig s) (Theme (siteConfig s))) = Returns (d, None)"
  using assms
  by (auto simp: themeStage_def step_defs split: call.splits prod.splits option.splits)

lemma theme_copied:
  fixes w :: "('o::zero) World"
  assumes "status (stateAfter 3 w fl) = Running" and "Theme (siteConfig (Build w fl)) \<noteq> ''''"
  shows "\<exists>d. ThemesCopy w (''themes/'' @ Theme (siteConfig (Build w fl)))
               (themeConfigAt (siteConfig (Build w fl)) (Theme (siteConfig (Build w fl))))
             = Returns (d, None)"
proof (cases rule: stateAfter_config_cases [of w fl])
  case (panics r)
  then have "stateAfter 3 w fl = stateAfter 2 w fl"
    by (simp add: stateAfter_theme)
  then show ?thesis
    using assms(1) panics(2) by simp
next
  case (loaded cfg x)
  then have running: "status (stateAfter 2 w fl) = Running"
    by (simp add: flagChecks_simps)
  then have "status (themeStage w (stateAfter 2 w fl)) = Running"
    using assms(1) by (simp add: stateAfter_theme)
  then show ?thesis
    using themeStage_passed [OF running] assms(2) unfolding kept_from_theme by blast
qed

lemma cleanup_reached_after_theme:
  assumes "status (stateAfter 9 w fl) = Running"
  shows "status (stateAfter 3 w fl) = Running"
  using assms stateAfter_stopped [of 3 w fl 9] by fastforce

text \<open>
  C1. \<^verbatim>\<open>tempBuildDir\<close> is empty whenever no theme is configured, and with a theme
  configured it is the path \<^verbatim>\<open>build.ThemesCopy\<close> returned. Where \<^verbatim>\<open>build.ThemesCopy\<close>
  keeps to what the specification says of it (a copy that succeeds returns a path that is
  not empty), \<^verbatim>\<open>tempBuildDir\<close> is empty if and only if no theme is configured, in every run
  that gets past the theme block at line 86, and so in every run that reaches the cleanup
  at line 159. \<^verbatim>\<open>tempBuildDir\<close> alone decides the cleanup: no run calls both
  \<^verbatim>\<open>build.ThemesClean\<close> and \<^verbatim>\<open>build.EjectClean\<close>, and a run that reaches line 159 calls
  exactly one of them, \<^verbatim>\<open>build.ThemesClean\<close> on \<^verbatim>\<open>tempBuildDir\<close> when it is not empty,
  which is when a theme is configured, and \<^verbatim>\<open>build.EjectClean\<close> when it is empty, which is
  when none is.
\<close>

theorem tempBuildDir_empty_iff_no_theme:
  fixes w :: "('o::zero) World"
  shows
    "(Theme (siteConfig (Build w fl)) = '''' \<longrightarrow> tempBuildDir (Build w fl) = '''')
     \<and> (\<forall>d err. Theme (siteConfig (Build w fl)) \<noteq> ''''
          \<and> ThemesCopy w (''themes/'' @ Theme (siteConfig (Build w fl)))
                (themeConfigAt (siteConfig (Build w fl)) (Theme (siteConfig (Build w fl))))
              = Returns (d, err) \<longrightarrow>
        tempBuildDir (Build w fl) = d)
     \<and> (themesCopyContract w (''themes/'' @ Theme (siteConfig (Build w fl)))
            (themeConfigAt (siteConfig (Build w fl)) (Theme (siteConfig (Build w fl))))
          \<and> status (stateAfter 3 w fl) = Running \<longrightarrow>
        (tempBuildDir (Build w fl) = '''') = (Theme (siteConfig (Build w fl)) = ''''))
     \<and> \<not> ((\<exists>t. CallThemesClean t \<in> set (trace (Build w fl)))
            \<and> (\<exists>fs ep. CallEjectClean fs ep \<in> set (trace (Build w fl))))
     \<and> (status (stateAfter 9 w fl) = Running \<longrightarrow>
          (tempBuildDir (Build w fl) \<noteq> '''' \<longrightarrow>
             CallThemesClean (tempBuildDir (Build w fl)) \<in> set (trace (Build w fl))
             \<and> (\<forall>fs ep. CallEjectClean fs ep \<notin> set (trace (Build w fl))))
          \<and> (tempBuildDir (Build w fl) = '''' \<longrightarrow>
             CallEjectClean (tempFiles (Build w fl)) (ejectedPath (Build w fl))
               \<in> set (trace (Build w fl))
             \<and> (\<forall>t. CallThemesClean t \<notin> set (trace (Build w fl)))))
     \<and> (themesCopyContract w (''themes/'' @ Theme (siteConfig (Build w fl)))
            (themeConfigAt (siteConfig (Build w fl)) (Theme (siteConfig (Build w fl))))
          \<and> status (stateAfter 9 w fl) = Running \<longrightarrow>
          (tempBuildDir (Build w fl) = '''') = (Theme (siteConfig (Build w fl)) = '''')
          \<and> (Theme (siteConfig (Build w fl)) \<noteq> '''' \<longrightarrow>
             CallThemesClean (tempBuildDir (Build w fl)) \<in> set (trace (Build w fl))
             \<and> (\<forall>fs ep. CallEjectClean fs ep \<notin> set (trace (Build w fl))))
          \<and> (Theme (siteConfig (Build w fl)) = '''' \<longrightarrow>
             CallEjectClean (tempFiles (Build w fl)) (ejectedPath (Build w fl))
               \<in> set (trace (Build w fl))
             \<and> (\<forall>t. CallThemesClean t \<notin> set (trace (Build w fl)))))"
proof -
  let ?contract = "themesCopyContract w (''themes/'' @ Theme (siteConfig (Build w fl)))
            (themeConfigAt (siteConfig (Build w fl)) (Theme (siteConfig (Build w fl))))"
  have no_theme: "tempBuildDir (Build w fl) = ''''" if "Theme (siteConfig (Build w fl)) = ''''"
    using tempBuildDir_of_run [of w fl] that by simp
  have themed: "tempBuildDir (Build w fl) = d"
    if "Theme (siteConfig (Build w fl)) \<noteq> ''''"
      and "ThemesCopy w (''themes/'' @ Theme (siteConfig (Build w fl)))
                (themeConfigAt (siteConfig (Build w fl)) (Theme (siteConfig (Build w fl))))
              = Returns (d, err)"
    for d err
    using tempBuildDir_of_run [of w fl] that by simp
  have iff: "(tempBuildDir (Build w fl) = '''') = (Theme (siteConfig (Build w fl)) = '''')"
    if contract: ?contract and passed: "status (stateAfter 3 w fl) = Running"
  proof (cases "Theme (siteConfig (Build w fl)) = ''''")
    case True
    then show ?thesis
      using no_theme by simp
  next
    case False
    then obtain d where copied:
      "ThemesCopy w (''themes/'' @ Theme (siteConfig (Build w fl)))
         (themeConfigAt (siteConfig (Build w fl)) (Theme (siteConfig (Build w fl))))
       = Returns (d, None)"
      using theme_copied [OF passed] by blast
    then have "d \<noteq> ''''"
      using contract by (simp add: themesCopyContract_def)
    moreover have "tempBuildDir (Build w fl) = d"
      using themed [OF False copied] .
    ultimately show ?thesis
      using False by simp
  qed
  have themes_clean: "tempBuildDir (Build w fl) \<noteq> ''''"
    if "CallThemesClean t \<in> set (trace (Build w fl))" for t
    using cleanup_calls_of_run [OF that] by (auto split: if_splits)
  have eject_clean: "tempBuildDir (Build w fl) = ''''"
    if "CallEjectClean fs ep \<in> set (trace (Build w fl))" for fs ep
    using cleanup_calls_of_run [OF that] by (auto split: if_splits)
  have not_both: "\<not> ((\<exists>t. CallThemesClean t \<in> set (trace (Build w fl)))
            \<and> (\<exists>fs ep. CallEjectClean fs ep \<in> set (trace (Build w fl))))"
    using themes_clean eject_clean by blast
  have one: "(tempBuildDir (Build w fl) \<noteq> '''' \<longrightarrow>
             CallThemesClean (tempBuildDir (Build w fl)) \<in> set (trace (Build w fl))
             \<and> (\<forall>fs ep. CallEjectClean fs ep \<notin> set (trace (Build w fl))))
          \<and> (tempBuildDir (Build w fl) = '''' \<longrightarrow>
             CallEjectClean (tempFiles (Build w fl)) (ejectedPath (Build w fl))
               \<in> set (trace (Build w fl))
             \<and> (\<forall>t. CallThemesClean t \<notin> set (trace (Build w fl))))"
    if "status (stateAfter 9 w fl) = Running"
    using cleanup_entered [OF that] themes_clean eject_clean by (auto split: if_splits)
  have by_theme: "(tempBuildDir (Build w fl) = '''') = (Theme (siteConfig (Build w fl)) = '''')
          \<and> (Theme (siteConfig (Build w fl)) \<noteq> '''' \<longrightarrow>
             CallThemesClean (tempBuildDir (Build w fl)) \<in> set (trace (Build w fl))
             \<and> (\<forall>fs ep. CallEjectClean fs ep \<notin> set (trace (Build w fl))))
          \<and> (Theme (siteConfig (Build w fl)) = '''' \<longrightarrow>
             CallEjectClean (tempFiles (Build w fl)) (ejectedPath (Build w fl))
               \<in> set (trace (Build w fl))
             \<and> (\<forall>t. CallThemesClean t \<notin> set (trace (Build w fl))))"
    if contract: ?contract and reached: "status (stateAfter 9 w fl) = Running"
  proof -
    have "(tempBuildDir (Build w fl) = '''') = (Theme (siteConfig (Build w fl)) = '''')"
      using iff [OF contract cleanup_reached_after_theme [OF reached]] .
    then show ?thesis
      using one [OF reached] by simp
  qed
  show ?thesis
    using no_theme themed iff not_both one by_theme by (intro conjI) blast+
qed

text \<open>The project without a theme and the project with one, every callee succeeding.\<close>

theorem tempBuildDir_empty_iff_no_theme_witness:
  "themesCopyContract (quietWorld plainSite) ''themes/'' 0
   \<and> Theme (siteConfig (Build (quietWorld plainSite) noFlags)) = ''''
   \<and> tempBuildDir (Build (quietWorld plainSite) noFlags) = ''''
   \<and> status (stateAfter 3 (quietWorld plainSite) noFlags) = Running
   \<and> status (stateAfter 9 (quietWorld plainSite) noFlags) = Running
   \<and> CallEjectClean [''ejected/build.js''] ''ejected''
       \<in> set (trace (Build (quietWorld plainSite) noFlags))
   \<and> (\<forall>t. CallThemesClean t \<notin> set (trace (Build (quietWorld plainSite) noFlags)))
   \<and> themesCopyContract (quietWorld themedSite) ''themes/mytheme'' 7
   \<and> Theme (siteConfig (Build (quietWorld themedSite) noFlags)) = ''mytheme''
   \<and> ThemesCopy (quietWorld themedSite) ''themes/mytheme'' 7 = Returns (''.plenti-tmp/'', None)
   \<and> tempBuildDir (Build (quietWorld themedSite) noFlags) = ''.plenti-tmp/''
   \<and> status (stateAfter 3 (quietWorld themedSite) noFlags) = Running
   \<and> status (stateAfter 9 (quietWorld themedSite) noFlags) = Running
   \<and> CallThemesClean ''.plenti-tmp/'' \<in> set (trace (Build (quietWorld themedSite) noFlags))
   \<and> (\<forall>fs ep. CallEjectClean fs ep \<notin> set (trace (Build (quietWorld themedSite) noFlags)))"
proof -
  let ?p = "Build (quietWorld plainSite) noFlags"
  let ?t = "Build (quietWorld themedSite) noFlags"
  have plain: "Theme (siteConfig ?p) = ''''" "tempFiles ?p = [''ejected/build.js'']"
    "ejectedPath ?p = ''ejected''" "siteConfig ?p = plainSite"
    and theme: "siteConfig ?t = themedSite"
    by (simp_all add: eval_defs)
  have name: "Theme themedSite = ''mytheme''" "''themes/'' @ Theme themedSite = ''themes/mytheme''"
    "themeConfigAt themedSite (Theme themedSite) = 7"
    "''themes/'' @ Theme plainSite = ''themes/''" "themeConfigAt plainSite (Theme plainSite) = 0"
    by (simp_all add: themedSite_def plainSite_def themeConfigAt_def)
  have copy: "ThemesCopy (quietWorld themedSite) ''themes/mytheme'' 7
      = Returns (''.plenti-tmp/'', None)"
    by (simp add: quietWorld_def)
  have contract: "themesCopyContract (quietWorld plainSite) ''themes/'' 0"
    "themesCopyContract (quietWorld themedSite) ''themes/mytheme'' 7"
    by (simp_all add: themesCopyContract_def quietWorld_def)
  have passed: "status (stateAfter 3 (quietWorld plainSite) noFlags) = Running"
    "status (stateAfter 3 (quietWorld themedSite) noFlags) = Running"
    and reached: "status (stateAfter 9 (quietWorld plainSite) noFlags) = Running"
    "status (stateAfter 9 (quietWorld themedSite) noFlags) = Running"
    by (simp_all add: stateAfter_def eval_defs)
  have empty: "tempBuildDir ?p = ''''"
    using tempBuildDir_empty_iff_no_theme [of "quietWorld plainSite" noFlags] plain(1) contract(1)
      passed(1) name(4,5)
    unfolding plain(4) by simp
  have scaffold: "CallEjectClean [''ejected/build.js''] ''ejected'' \<in> set (trace ?p)"
    "\<forall>t. CallThemesClean t \<notin> set (trace ?p)"
    using tempBuildDir_empty_iff_no_theme [of "quietWorld plainSite" noFlags]
      reached(1) contract(1) name(4,5) plain(1,2,3)
    unfolding plain(4) by simp_all
  have dir: "tempBuildDir ?t = ''.plenti-tmp/''"
    using tempBuildDir_empty_iff_no_theme [of "quietWorld themedSite" noFlags] name copy
    unfolding theme by auto
  have filled: "tempBuildDir ?t \<noteq> ''''"
    using tempBuildDir_empty_iff_no_theme [of "quietWorld themedSite" noFlags] name(1,2,3)
      contract(2) passed(2)
    unfolding theme by simp
  have workspace: "CallThemesClean ''.plenti-tmp/'' \<in> set (trace ?t)"
    "\<forall>fs ep. CallEjectClean fs ep \<notin> set (trace ?t)"
    using tempBuildDir_empty_iff_no_theme [of "quietWorld themedSite" noFlags]
      reached(2) contract(2) name(1,2,3) dir
    unfolding theme by simp_all
  show ?thesis
    using plain(1) empty passed reached scaffold name(1) copy dir workspace contract
    by (simp add: theme)
qed

subsection \<open>Panics\<close>

lemma calm_append: "calm w (xs @ ys) = (calm w xs \<and> calm w ys)"
  by (auto simp: calm_def)

lemmas guard_defs = guarded_def calm_append calm_def panicValue_def butlast_append

lemma loadSiteConfig_guarded:
  assumes "calm w (trace s)" and "status s = Running"
  shows "guarded w (loadSiteConfig w s)"
  using assms
  by (auto simp: loadSiteConfig_def step_defs guard_defs split: call.split prod.split)

lemma resolveBuildDir_guarded:
  assumes "calm w (trace s)" and "status s = Running"
  shows "guarded w (resolveBuildDir fl s)"
  using assms by (simp add: resolveBuildDir_def guard_defs)

lemma themeStage_guarded:
  assumes "calm w (trace s)" and "status s = Running"
  shows "guarded w (themeStage w s)"
  using assms
  by (auto simp: themeStage_def step_defs guard_defs split: call.split prod.split option.split)

lemma workspaceStage_guarded:
  assumes "calm w (trace s)" and "status s = Running"
  shows "guarded w (workspaceStage w s)"
  using assms
  by (auto simp: workspaceStage_def step_defs guard_defs split: option.split)

lemma npmStage_guarded:
  assumes "calm w (trace s)" and "status s = Running"
  shows "guarded w (npmStage w s)"
  using assms
  by (auto simp: npmStage_def step_defs guard_defs split: call.split option.split)

lemma ejectStage_guarded:
  assumes "calm w (trace s)" and "status s = Running"
  shows "guarded w (ejectStage w s)"
  using assms
  by (auto simp: ejectStage_def step_defs guard_defs split: call.split prod.split option.split)

lemma assetsStage_guarded:
  assumes "calm w (trace s)" and "status s = Running"
  shows "guarded w (assetsStage w s)"
  using assms
  by (auto simp: assetsStage_def step_defs guard_defs split: call.split option.split)

lemma nodeBuild_guarded:
  assumes "calm w (trace s)" and "status s = Running"
  shows "guarded w (nodeBuild w s)"
  using assms
  by (auto simp: nodeBuild_def step_defs guard_defs split: call.split prod.split option.split)

lemma coreBuild_guarded:
  assumes "calm w (trace s)" and "status s = Running"
  shows "guarded w (coreBuild w s)"
  using assms
  by (auto simp: coreBuild_def step_defs guard_defs split: call.split option.split)

lemma gopackStage_guarded:
  assumes "calm w (trace s)" and "status s = Running"
  shows "guarded w (gopackStage w s)"
  using assms
  by (auto simp: gopackStage_def step_defs guard_defs split: call.split)

lemma cleanupStage_guarded:
  assumes "calm w (trace s)" and "status s = Running"
  shows "guarded w (cleanupStage w s)"
  using assms
  by (auto simp: cleanupStage_def step_defs guard_defs split: call.split option.split)


lemma stage_guarded:
  assumes "f \<in> set (stages w fl)" and "calm w (trace s)" and "status s = Running"
  shows "guarded w (f s)"
proof -
  have "guarded w (buildStage w fl s)"
    using nodeBuild_guarded [OF assms(2,3)] coreBuild_guarded [OF assms(2,3)]
    by (simp add: buildStage_def)
  then show ?thesis
    using assms(1) loadSiteConfig_guarded [OF assms(2,3)] resolveBuildDir_guarded [OF assms(2,3)]
      themeStage_guarded [OF assms(2,3)] workspaceStage_guarded [OF assms(2,3)]
      npmStage_guarded [OF assms(2,3)] ejectStage_guarded [OF assms(2,3)]
      assetsStage_guarded [OF assms(2,3)] gopackStage_guarded [OF assms(2,3)]
      cleanupStage_guarded [OF assms(2,3)]
    by (auto simp: stages_def)
qed

lemma body_guarded: "guarded w (runStages (stages w fl) (flagChecks fl))"
proof (rule runStages_invariant [where P = "guarded w"])
  show "guarded w (flagChecks fl)"
    by (simp add: guarded_def calm_def flagChecks_simps)
next
  fix f and t :: "'a state"
  assume "f \<in> set (stages w fl)" and "guarded w t" and "status t = Running"
  then show "guarded w (f t)"
    using stage_guarded [of f w fl t] by (simp add: guarded_def)
qed

lemma deferred_running:
  assumes "status s = Running"
  shows "deferred s = s\<lparr>status := Completed, trace := trace s @ [CallBenchmark ''Total build'' True]\<rparr>"
  using assms by (simp add: deferred_def emit_def)

lemma deferred_panicking:
  assumes "status s = Panicking (GoValue v)"
  shows "deferred s =
           s\<lparr>trace := trace s @ [Println pleaseCreate,
                                 Printf (''Error: '' @ v @ '' '' @ [CHR 0x0A, CHR 0x0A]),
                                 CallBenchmark ''Total build'' True],
             status := Recovered (GoValue v)\<rparr>"
  using assms by (simp add: deferred_def emit_def)

lemma deferred_panicking_nil:
  assumes "status s = Panicking GoNil"
  shows "deferred s =
           s\<lparr>trace := trace s @ [CallBenchmark ''Total build'' True], status := Recovered GoNil\<rparr>"
  using assms by (simp add: deferred_def emit_def)

lemma deferred_exited:
  assumes "status s = Exited m"
  shows "deferred s = s"
  using assms by (simp add: deferred_def)

text \<open>
  What the body has done when a panic ends it: the panicking call is the last event, and
  before it no call panicked and \<^verbatim>\<open>log.Fatal\<close> was not reached.
\<close>

lemma body_panicked:
  fixes w :: "('o::zero) World"
  assumes "status (runStages (stages w fl) (flagChecks fl)) = Panicking r"
  obtains pre e where "trace (runStages (stages w fl) (flagChecks fl)) = pre @ [e]"
    and "panicOf w e = Some r" and "calm w pre"
proof -
  let ?s = "runStages (stages w fl) (flagChecks fl)"
  have "guarded w ?s"
    by (rule body_guarded)
  then have nonempty: "trace ?s \<noteq> []" and last: "panicOf w (last (trace ?s)) = Some r"
    and calm: "calm w (butlast (trace ?s))"
    using assms by (simp_all add: guarded_def)
  have "trace ?s = butlast (trace ?s) @ [last (trace ?s)]"
    using nonempty by simp
  then show ?thesis
    using that last calm by blast
qed

lemma calm_traces:
  assumes "calm w tr"
  shows "\<forall>e \<in> set tr. panicOf w e = None" and "\<forall>m. LogFatal m \<notin> set tr"
  using assms by (auto simp: calm_def)

lemma body_prints_nothing:
  fixes w :: "('o::zero) World"
  shows "\<forall>m. Println m \<notin> set (trace (runStages (stages w fl) (flagChecks fl)))
            \<and> Printf m \<notin> set (trace (runStages (stages w fl) (flagChecks fl)))"
proof -
  have "runStages (stages w fl) (flagChecks fl) = stateAfter 10 w fl"
    by (simp add: stateAfter_def length_stages)
  then show ?thesis
    using stateAfter_origins [of _ 10 w fl] by fastforce
qed

text \<open>
  C8, as the specification words it, fails for a panic that carries nil: the handler
  recovers it and prints nothing. Here \<^verbatim>\<open>build.Client\<close> panics with nil: the panic is
  recovered, \<^verbatim>\<open>Build\<close> returns, and the trace of the whole run holds no printed line.
\<close>

theorem nil_panic_is_recovered_silently_counterexample:
  "panicOf (clientPanics GoNil) (CallClient ''public'' [] ''ejected'') = Some GoNil
   \<and> status (Build (clientPanics GoNil) noFlags) = Recovered GoNil
   \<and> trace (Build (clientPanics GoNil) noFlags) =
       [CallCheckVerboseFlag False, CallCheckBenchmarkFlag False, CallGetSiteConfig ''.'',
        CallStat ''public'', CallLog (removingMsg ''public''), CallRemoveAll ''public'',
        CallMkdirAll ''public'' ModePerm, CallLog (creatingMsg ''public''),
        CallNpmDefaults [], CallEjectTemp [], CallEjectCopy ''public'' [] ''ejected'',
        CallAssetsCopy ''public'' [], CallClient ''public'' [] ''ejected'',
        CallBenchmark ''Total build'' True]"
  by (simp add: eval_defs panicValue_def)

text \<open>
  C8, amended. Whenever one of the callees of the body of \<^verbatim>\<open>Build\<close> (line 65 to line
  164) panics, the deferred handler recovers the panic: the panicking call is the last call
  of the body, nothing follows it but what the deferred functions do, and \<^verbatim>\<open>Build\<close>
  returns to its caller: \<^verbatim>\<open>log.Fatal\<close> is never reached, so the process does not exit
  with a failure status. What the handler prints depends on the value of the panic. For a
  value that is not nil it prints the line asking for a valid Plenti project and the line
  \<^verbatim>\<open>Error:\<close> with the value, and the deferred \<^verbatim>\<open>build.Benchmark\<close> follows. For nil it
  prints nothing: the deferred \<^verbatim>\<open>build.Benchmark\<close> follows the panicking call directly,
  and no line is printed in the whole run. No run ends with a panic still unwinding, and a
  run ends as recovered only after a panic.
\<close>

theorem panic_is_recovered_and_reported_unless_nil:
  fixes w :: "('o::zero) World"
  shows
    "(\<forall>e \<in> set (trace (Build w fl)). \<forall>v. panicOf w e = Some (GoValue v) \<longrightarrow>
        status (Build w fl) = Recovered (GoValue v)
        \<and> (\<exists>pre. trace (Build w fl) =
              pre @ [e, Println pleaseCreate,
                     Printf (''Error: '' @ v @ '' '' @ [CHR 0x0A, CHR 0x0A]),
                     CallBenchmark ''Total build'' True]
              \<and> (\<forall>e' \<in> set pre. panicOf w e' = None))
        \<and> (\<forall>m. LogFatal m \<notin> set (trace (Build w fl))))
     \<and> (\<forall>e \<in> set (trace (Build w fl)). panicOf w e = Some GoNil \<longrightarrow>
        status (Build w fl) = Recovered GoNil
        \<and> (\<exists>pre. trace (Build w fl) = pre @ [e, CallBenchmark ''Total build'' True]
              \<and> (\<forall>e' \<in> set pre. panicOf w e' = None))
        \<and> (\<forall>m. Println m \<notin> set (trace (Build w fl)) \<and> Printf m \<notin> set (trace (Build w fl)))
        \<and> (\<forall>m. LogFatal m \<notin> set (trace (Build w fl))))
     \<and> status (Build w fl) \<noteq> Running
     \<and> (\<forall>r. status (Build w fl) \<noteq> Panicking r)
     \<and> (\<forall>r. status (Build w fl) = Recovered r \<longrightarrow>
          (\<exists>e \<in> set (trace (Build w fl)). panicOf w e = Some r))"
proof -
  let ?s = "runStages (stages w fl) (flagChecks fl)"
  have B: "Build w fl = deferred ?s"
    by (simp add: Build_def)
  have guarded: "guarded w ?s"
    by (rule body_guarded)
  show ?thesis
  proof (cases "status ?s")
    case Running
    then have "calm w (trace ?s)"
      using guarded by (simp add: guarded_def)
    then show ?thesis
      unfolding B deferred_running [OF Running] by (auto simp: calm_def)
  next
    case (Exited m)
    then have "\<forall>e \<in> set (trace ?s). panicOf w e = None"
      using guarded by (simp add: guarded_def)
    then show ?thesis
      unfolding B deferred_exited [OF Exited] using Exited by auto
  next
    case (Panicking r)
    then obtain pre e where body: "trace ?s = pre @ [e]" and e: "panicOf w e = Some r"
      and calm: "calm w pre"
      by (rule body_panicked)
    note quiet = calm_traces [OF calm]
    have not_fatal: "LogFatal m \<noteq> e" for m
      using e by auto
    have silent: "Println m \<notin> set (pre @ [e]) \<and> Printf m \<notin> set (pre @ [e])" for m
      using body_prints_nothing [of w fl] unfolding body by blast
    show ?thesis
    proof (cases r)
      case GoNil
      have T: "trace (Build w fl) = pre @ [e, CallBenchmark ''Total build'' True]"
        and st: "status (Build w fl) = Recovered GoNil"
        using Panicking unfolding B GoNil by (simp_all add: deferred_panicking_nil body)
      have only: "e' = e \<and> r' = GoNil"
        if "e' \<in> set (trace (Build w fl))" "panicOf w e' = Some r'" for e' r'
        using that quiet(1) e unfolding T GoNil by auto
      have nil: "status (Build w fl) = Recovered GoNil
          \<and> (\<exists>pre. trace (Build w fl) = pre @ [e', CallBenchmark ''Total build'' True]
                \<and> (\<forall>e'' \<in> set pre. panicOf w e'' = None))
          \<and> (\<forall>m. Println m \<notin> set (trace (Build w fl)) \<and> Printf m \<notin> set (trace (Build w fl)))
          \<and> (\<forall>m. LogFatal m \<notin> set (trace (Build w fl)))"
        if "e' \<in> set (trace (Build w fl))" "panicOf w e' = Some GoNil" for e'
      proof -
        have "e' = e"
          using only [OF that] by simp
        moreover have "\<forall>m. LogFatal m \<notin> set (trace (Build w fl))"
          using quiet(2) not_fatal unfolding T by auto
        moreover have "\<forall>m. Println m \<notin> set (trace (Build w fl))
            \<and> Printf m \<notin> set (trace (Build w fl))"
          using silent unfolding T by auto
        ultimately show ?thesis
          using st T quiet(1) by blast
      qed
      have no_value: "panicOf w e' \<noteq> Some (GoValue v)"
        if "e' \<in> set (trace (Build w fl))" for e' v
        using only [OF that, of "GoValue v"] by auto
      have from_panic: "\<exists>e' \<in> set (trace (Build w fl)). panicOf w e' = Some GoNil"
        using e unfolding T GoNil by auto
      show ?thesis
        using nil no_value from_panic st by auto
    next
      case (GoValue v)
      have T: "trace (Build w fl) =
          pre @ [e, Println pleaseCreate,
                 Printf (''Error: '' @ v @ '' '' @ [CHR 0x0A, CHR 0x0A]),
                 CallBenchmark ''Total build'' True]"
        and st: "status (Build w fl) = Recovered (GoValue v)"
        using Panicking unfolding B GoValue by (simp_all add: deferred_panicking body)
      have only: "e' = e \<and> r' = GoValue v"
        if "e' \<in> set (trace (Build w fl))" "panicOf w e' = Some r'" for e' r'
        using that quiet(1) e unfolding T GoValue by auto
      have reported: "status (Build w fl) = Recovered (GoValue v')
          \<and> (\<exists>pre. trace (Build w fl) =
                pre @ [e', Println pleaseCreate,
                       Printf (''Error: '' @ v' @ '' '' @ [CHR 0x0A, CHR 0x0A]),
                       CallBenchmark ''Total build'' True]
                \<and> (\<forall>e'' \<in> set pre. panicOf w e'' = None))
          \<and> (\<forall>m. LogFatal m \<notin> set (trace (Build w fl)))"
        if "e' \<in> set (trace (Build w fl))" "panicOf w e' = Some (GoValue v')" for e' v'
      proof -
        have "e' = e" "v' = v"
          using only [OF that] by simp_all
        moreover have "\<forall>m. LogFatal m \<notin> set (trace (Build w fl))"
          using quiet(2) not_fatal unfolding T by auto
        ultimately show ?thesis
          using st T quiet(1) by blast
      qed
      have no_nil: "panicOf w e' \<noteq> Some GoNil" if "e' \<in> set (trace (Build w fl))" for e'
        using only [OF that, of GoNil] by auto
      have from_panic: "\<exists>e' \<in> set (trace (Build w fl)). panicOf w e' = Some (GoValue v)"
        using e unfolding T GoValue by auto
      show ?thesis
        using reported no_nil from_panic st by auto
    qed
  next
    case (Recovered r)
    then show ?thesis
      using guarded by (simp add: guarded_def)
  next
    case Completed
    then show ?thesis
      using guarded by (simp add: guarded_def)
  qed
qed

text \<open>
  The project without a theme, in a world where \<^verbatim>\<open>build.Client\<close> panics with a value
  and in one where it panics with nil.
\<close>

theorem panic_is_recovered_and_reported_unless_nil_witness:
  "CallClient ''public'' [] ''ejected''
     \<in> set (trace (Build (clientPanics (GoValue ''no layout'')) noFlags))
   \<and> panicOf (clientPanics (GoValue ''no layout'')) (CallClient ''public'' [] ''ejected'')
       = Some (GoValue ''no layout'')
   \<and> status (Build (clientPanics (GoValue ''no layout'')) noFlags)
       = Recovered (GoValue ''no layout'')
   \<and> (\<exists>pre. trace (Build (clientPanics (GoValue ''no layout'')) noFlags)
          = pre @ [CallClient ''public'' [] ''ejected'', Println pleaseCreate,
                   Printf (''Error: no layout '' @ [CHR 0x0A, CHR 0x0A]),
                   CallBenchmark ''Total build'' True])
   \<and> (\<forall>m. LogFatal m \<notin> set (trace (Build (clientPanics (GoValue ''no layout'')) noFlags)))
   \<and> (\<exists>e. e \<in> set (trace (Build (clientPanics (GoValue ''no layout'')) noFlags))
         \<and> panicOf (clientPanics (GoValue ''no layout'')) e = Some (GoValue ''no layout''))
   \<and> CallClient ''public'' [] ''ejected'' \<in> set (trace (Build (clientPanics GoNil) noFlags))
   \<and> panicOf (clientPanics GoNil) (CallClient ''public'' [] ''ejected'') = Some GoNil
   \<and> (\<exists>pre. trace (Build (clientPanics GoNil) noFlags)
          = pre @ [CallClient ''public'' [] ''ejected'', CallBenchmark ''Total build'' True])
   \<and> (\<forall>m. Println m \<notin> set (trace (Build (clientPanics GoNil) noFlags))
          \<and> Printf m \<notin> set (trace (Build (clientPanics GoNil) noFlags)))"
proof -
  let ?w = "clientPanics (GoValue ''no layout'')"
  let ?n = "clientPanics GoNil"
  let ?e = "CallClient ''public'' [] ''ejected'' :: nat event"
  have called: "?e \<in> set (trace (Build ?w noFlags))" "?e \<in> set (trace (Build ?n noFlags))"
    by (simp_all add: eval_defs)
  have panics: "panicOf ?w ?e = Some (GoValue ''no layout'')" "panicOf ?n ?e = Some GoNil"
    by (simp_all add: panicValue_def clientPanics_def)
  have recovered: "status (Build ?w noFlags) = Recovered (GoValue ''no layout'')"
    and printed: "\<exists>pre. trace (Build ?w noFlags)
          = pre @ [?e, Println pleaseCreate,
                   Printf (''Error: '' @ ''no layout'' @ '' '' @ [CHR 0x0A, CHR 0x0A]),
                   CallBenchmark ''Total build'' True]"
    and not_fatal: "\<forall>m. LogFatal m \<notin> set (trace (Build ?w noFlags))"
    using panic_is_recovered_and_reported_unless_nil [of ?w noFlags] called(1) panics(1)
    by blast+
  have from_panic: "\<exists>e. e \<in> set (trace (Build ?w noFlags))
      \<and> panicOf ?w e = Some (GoValue ''no layout'')"
    using panic_is_recovered_and_reported_unless_nil [of ?w noFlags] recovered by blast
  have silent: "\<exists>pre. trace (Build ?n noFlags) = pre @ [?e, CallBenchmark ''Total build'' True]"
    "\<forall>m. Println m \<notin> set (trace (Build ?n noFlags)) \<and> Printf m \<notin> set (trace (Build ?n noFlags))"
    using panic_is_recovered_and_reported_unless_nil [of ?n noFlags] called(2) panics(2)
    by blast+
  show ?thesis
    using called panics recovered printed not_fatal from_panic silent by simp
qed

end
